theory Spec2Isabelle
  imports Main "HOL-Library.Code_Target_Nat"
begin

section \<open>JavaScript strings\<close>

text \<open>
  A JavaScript string is a sequence of UTF-16 code units.  A code unit is modelled by its
  numeric value; \<open>length\<close> on a \<open>jstr\<close> is the \<^verbatim>\<open>.length\<close> of the source.  The ASCII
  literals of the source (the labels, the class names) are written with \<open>ascii\<close>.  A
  number above 65535 is no code unit; no definition below treats such a number differently
  from a code unit that belongs to none of the classes.
\<close>

type_synonym jstr = "nat list"

definition ascii :: "string \<Rightarrow> jstr" where
  "ascii s = map of_char s"

text \<open>The class \<^verbatim>\<open>\s\<close> of a regular expression; \<^verbatim>\<open>String.prototype.trim\<close> removes the same set.\<close>

definition isWhiteSpace :: "nat \<Rightarrow> bool" where
  "isWhiteSpace c \<longleftrightarrow>
     (9 \<le> c \<and> c \<le> 13) \<or> c = 32 \<or> c = 0xA0 \<or> c = 0x1680 \<or> (0x2000 \<le> c \<and> c \<le> 0x200A) \<or>
     c = 0x2028 \<or> c = 0x2029 \<or> c = 0x202F \<or> c = 0x205F \<or> c = 0x3000 \<or> c = 0xFEFF"

text \<open>The characters the dot of a regular expression does not match (no \<^verbatim>\<open>s\<close> flag is used).\<close>

definition isLineTerminator :: "nat \<Rightarrow> bool" where
  "isLineTerminator c \<longleftrightarrow> c = 10 \<or> c = 13 \<or> c = 0x2028 \<or> c = 0x2029"

definition dropTrailing :: "(nat \<Rightarrow> bool) \<Rightarrow> jstr \<Rightarrow> jstr" where
  "dropTrailing P s = rev (dropWhile P (rev s))"

definition trim :: "jstr \<Rightarrow> jstr" where
  "trim s = dropTrailing isWhiteSpace (dropWhile isWhiteSpace s)"

fun startsWith :: "jstr \<Rightarrow> jstr \<Rightarrow> bool" where
  "startsWith s [] = True"
| "startsWith [] (p # ps) = False"
| "startsWith (c # cs) (p # ps) = (c = p \<and> startsWith cs ps)"

definition endsWith :: "jstr \<Rightarrow> jstr \<Rightarrow> bool" where
  "endsWith s p = startsWith (rev s) (rev p)"

text \<open>\<^verbatim>\<open>s.includes(sub)\<close>, and with it an unanchored test of a literal pattern.\<close>

fun includesStr :: "jstr \<Rightarrow> jstr \<Rightarrow> bool" where
  "includesStr [] sub = (sub = [])"
| "includesStr (c # cs) sub = (startsWith (c # cs) sub \<or> includesStr cs sub)"

text \<open>An unanchored regular expression matches when it matches at some position.\<close>

fun matchesSomewhere :: "(jstr \<Rightarrow> bool) \<Rightarrow> jstr \<Rightarrow> bool" where
  "matchesSomewhere m [] = m []"
| "matchesSomewhere m (c # cs) = (m (c # cs) \<or> matchesSomewhere m cs)"

text \<open>
  A lower-case ASCII literal under the \<^verbatim>\<open>i\<close> flag (without the \<^verbatim>\<open>u\<close> flag): a code unit
  matches the letter \<open>p\<close> when it is \<open>p\<close> or its upper-case form; no code unit above 127 is
  canonicalised to an ASCII letter.
\<close>

fun startsWithCI :: "jstr \<Rightarrow> jstr \<Rightarrow> bool" where
  "startsWithCI s [] = True"
| "startsWithCI [] (p # ps) = False"
| "startsWithCI (c # cs) (p # ps) = ((c = p \<or> c + 32 = p) \<and> startsWithCI cs ps)"

text \<open>\<^verbatim>\<open>s.split(/\s+/).filter(Boolean)\<close>: the maximal runs of non-space code units.\<close>

fun splitWords :: "jstr \<Rightarrow> jstr \<Rightarrow> jstr list" where
  "splitWords cur [] = (if cur = [] then [] else [cur])"
| "splitWords cur (c # cs) =
     (if isWhiteSpace c then (if cur = [] then splitWords [] cs else cur # splitWords [] cs)
      else splitWords (cur @ [c]) cs)"

definition tokens :: "jstr \<Rightarrow> jstr list" where
  "tokens s = splitWords [] s"

text \<open>\<^verbatim>\<open>s.replace(/\s+/g, " ")\<close>; the flag says whether the previous code unit was a space.\<close>

fun collapseSpaces :: "bool \<Rightarrow> jstr \<Rightarrow> jstr" where
  "collapseSpaces inRun [] = []"
| "collapseSpaces inRun (c # cs) =
     (if isWhiteSpace c then (if inRun then collapseSpaces True cs else 32 # collapseSpaces True cs)
      else c # collapseSpaces False cs)"

fun joinWith :: "jstr \<Rightarrow> jstr list \<Rightarrow> jstr" where
  "joinWith sep [] = []"
| "joinWith sep [x] = x"
| "joinWith sep (x # y # ys) = x @ sep @ joinWith sep (y # ys)"

section \<open>Labels\<close>

definition L_basmala :: jstr where "L_basmala = ascii ''basmala''"
definition L_top_line :: jstr where "L_top_line = ascii ''scene-header-top-line''"
definition L_header1 :: jstr where "L_header1 = ascii ''scene-header-1''"
definition L_header2 :: jstr where "L_header2 = ascii ''scene-header-2''"
definition L_header3 :: jstr where "L_header3 = ascii ''scene-header-3''"
definition L_action :: jstr where "L_action = ascii ''action''"
definition L_character :: jstr where "L_character = ascii ''character''"
definition L_dialogue :: jstr where "L_dialogue = ascii ''dialogue''"
definition L_parenthetical :: jstr where "L_parenthetical = ascii ''parenthetical''"
definition L_transition :: jstr where "L_transition = ascii ''transition''"

lemmas label_defs = L_basmala_def L_top_line_def L_header1_def L_header2_def L_header3_def
  L_action_def L_character_def L_dialogue_def L_parenthetical_def L_transition_def

section \<open>Spacing rules\<close>

text \<open>
  \<^verbatim>\<open>getSpacingMarginTop(previousFormat, currentFormat)\<close> of paste-classifier.ts.  The result is
  the CSS value \<^verbatim>\<open>"0"\<close>, \<^verbatim>\<open>"14pt"\<close> or the empty string (no change).
\<close>

definition getSpacingMarginTop :: "jstr \<Rightarrow> jstr \<Rightarrow> jstr" where
  "getSpacingMarginTop previousFormat currentFormat =
    (if previousFormat = L_basmala then ascii ''0''
     else if previousFormat = L_character \<and>
             (currentFormat = L_dialogue \<or> currentFormat = L_parenthetical) then ascii ''0''
     else if previousFormat = L_parenthetical \<and> currentFormat = L_dialogue then ascii ''0''
     else if previousFormat = L_header2 \<and> currentFormat = L_header3 then ascii ''14pt''
     else if previousFormat = L_header3 \<and> currentFormat = L_action then ascii ''14pt''
     else if previousFormat = L_action \<and>
             (currentFormat = L_action \<or> currentFormat = L_character \<or> currentFormat = L_transition)
          then ascii ''14pt''
     else if previousFormat = L_dialogue \<and>
             (currentFormat = L_character \<or> currentFormat = L_action \<or> currentFormat = L_transition)
          then ascii ''14pt''
     else if previousFormat = L_parenthetical \<and>
             (currentFormat = L_character \<or> currentFormat = L_action \<or> currentFormat = L_transition)
          then ascii ''14pt''
     else if previousFormat = L_transition \<and>
             (currentFormat = L_header1 \<or> currentFormat = L_top_line) then ascii ''14pt''
     else [])"

text \<open>
  The table of section 4.7 of the specification, row by row: a previous label, the current
  labels of the row (\<open>None\<close> for "anything"), and whether the row asks for a gap.  This
  definition follows the words of the specification, not the code.
\<close>

definition spacingTable :: "(jstr \<times> jstr list option \<times> bool) list" where
  "spacingTable =
    [(L_basmala, None, False),
     (L_character, Some [L_dialogue, L_parenthetical], False),
     (L_parenthetical, Some [L_dialogue], False),
     (L_header2, Some [L_header3], True),
     (L_header3, Some [L_action], True),
     (L_action, Some [L_action, L_character, L_transition], True),
     (L_dialogue, Some [L_character, L_action, L_transition], True),
     (L_parenthetical, Some [L_character, L_action, L_transition], True),
     (L_transition, Some [L_header1, L_top_line], True)]"

definition rowCovers :: "jstr \<Rightarrow> jstr \<Rightarrow> jstr \<times> jstr list option \<times> bool \<Rightarrow> bool" where
  "rowCovers p c row =
     (fst row = p \<and> (case fst (snd row) of None \<Rightarrow> True | Some cs \<Rightarrow> c \<in> set cs))"

definition tableGap :: "jstr \<Rightarrow> jstr \<Rightarrow> jstr" where
  "tableGap p c =
     (if list_ex (\<lambda>row. rowCovers p c row \<and> \<not> snd (snd row)) spacingTable then ascii ''0''
      else if list_ex (\<lambda>row. rowCovers p c row \<and> snd (snd row)) spacingTable then ascii ''14pt''
      else [])"

section \<open>Character classes and word lists of paste-classifier.ts\<close>

text \<open>
  The literals of the source are given by their code units.  Every regular expression of
  the source is translated to the function that decides it; where the expression can
  backtrack, the comment says why the translation covers every way it can match.
\<close>

definition isArabic :: "nat \<Rightarrow> bool" where \<comment> \<open>\<^verbatim>\<open>[\u0600-\u06FF]\<close>\<close>
  "isArabic c \<longleftrightarrow> 0x600 \<le> c \<and> c \<le> 0x6FF"

definition isDigit :: "nat \<Rightarrow> bool" where \<comment> \<open>the ASCII and the Arabic-Indic digits\<close>
  "isDigit c \<longleftrightarrow> (48 \<le> c \<and> c \<le> 57) \<or> (0x660 \<le> c \<and> c \<le> 0x669)"

definition isColon :: "nat \<Rightarrow> bool" where \<comment> \<open>the colon and the full-width colon\<close>
  "isColon c \<longleftrightarrow> c = 58 \<or> c = 0xFF1A"

definition isDiacritic :: "nat \<Rightarrow> bool" where \<comment> \<open>\<^verbatim>\<open>[\u064B-\u065F\u0670]\<close>\<close>
  "isDiacritic c \<longleftrightarrow> (0x64B \<le> c \<and> c \<le> 0x65F) \<or> c = 0x670"

definition isDirectionMark :: "nat \<Rightarrow> bool" where \<comment> \<open>\<^verbatim>\<open>[\u200f\u200e\ufeff]\<close>\<close>
  "isDirectionMark c \<longleftrightarrow> c = 0x200F \<or> c = 0x200E \<or> c = 0xFEFF"

definition isLeadingMark :: "nat \<Rightarrow> bool" where \<comment> \<open>\<^verbatim>\<open>[\s\u200E\u200F\u061C\ufeFF]\<close>\<close>
  "isLeadingMark c \<longleftrightarrow> isWhiteSpace c \<or> c = 0x200E \<or> c = 0x200F \<or> c = 0x61C \<or> c = 0xFEFF"

text \<open>The bullet class of \<open>buildContext\<close> and \<open>classifyWithContext\<close>, which has no hyphen.\<close>

definition isBullet :: "nat \<Rightarrow> bool" where
  "isBullet c \<longleftrightarrow>
     c \<in> set [0x2022, 0xB7, 0x2219, 0x22C5, 0x25CF, 0x25CB, 0x25E6, 0x25A0, 0x25A1, 0x25AA,
               0x25AB, 0x25C6, 0x25C7, 0x2013, 0xF0A7, 0x2014, 0x2212, 0x2012, 0x2015, 0x2023,
               0x2043, 42, 43]"

text \<open>The bullet class of \<open>stripLeadingBullets\<close> and \<open>normalizeLine\<close>, which ends with a hyphen.\<close>

definition isBulletOrHyphen :: "nat \<Rightarrow> bool" where
  "isBulletOrHyphen c \<longleftrightarrow> isBullet c \<or> c = 45"

definition isSentencePunctuation :: "nat \<Rightarrow> bool" where \<comment> \<open>full stop, !, ?, Arabic comma and semicolon\<close>
  "isSentencePunctuation c \<longleftrightarrow> c = 46 \<or> c = 33 \<or> c = 63 \<or> c = 0x60C \<or> c = 0x61B"

definition isBracket :: "nat \<Rightarrow> bool" where \<comment> \<open>\<^verbatim>\<open>[{}()[\]]\<close>\<close>
  "isBracket c \<longleftrightarrow> c = 123 \<or> c = 125 \<or> c = 40 \<or> c = 41 \<or> c = 91 \<or> c = 93"

definition isDash :: "nat \<Rightarrow> bool" where \<comment> \<open>hyphen, en dash, em dash\<close>
  "isDash c \<longleftrightarrow> c = 45 \<or> c = 0x2013 \<or> c = 0x2014"

definition isHeaderSeparator :: "nat \<Rightarrow> bool" where \<comment> \<open>a dash, a colon or an Arabic comma\<close>
  "isHeaderSeparator c \<longleftrightarrow> isDash c \<or> c = 58 \<or> c = 0x60C"

definition isWordChar :: "nat \<Rightarrow> bool" where \<comment> \<open>\<^verbatim>\<open>\w\<close>\<close>
  "isWordChar c \<longleftrightarrow> (48 \<le> c \<and> c \<le> 57) \<or> (65 \<le> c \<and> c \<le> 90) \<or> c = 95 \<or> (97 \<le> c \<and> c \<le> 122)"

text \<open>The class of the test \<open>arabicOnlyWithNumbers\<close> in \<open>isCharacterLine\<close>.\<close>

definition isArabicScriptOrDigit :: "nat \<Rightarrow> bool" where
  "isArabicScriptOrDigit c \<longleftrightarrow>
     isWhiteSpace c \<or> isArabic c \<or> (48 \<le> c \<and> c \<le> 57) \<or> (0x660 \<le> c \<and> c \<le> 0x669) \<or>
     (0x750 \<le> c \<and> c \<le> 0x77F) \<or> (0x8A0 \<le> c \<and> c \<le> 0x8FF) \<or> (0xFB50 \<le> c \<and> c \<le> 0xFDFF) \<or>
     (0xFE70 \<le> c \<and> c \<le> 0xFEFF)"

definition W_bsm :: jstr where \<comment> \<open>the fragment "in the name of"\<close>
  "W_bsm = [0x628, 0x633, 0x645]"

definition W_allah :: jstr where \<comment> \<open>the fragment "God"\<close>
  "W_allah = [0x627, 0x644, 0x644, 0x647]"

definition W_alrahman :: jstr where \<comment> \<open>the fragment "the Merciful"\<close>
  "W_alrahman = [0x627, 0x644, 0x631, 0x62D, 0x645, 0x646]"

definition W_alrahi :: jstr where \<comment> \<open>the other spelling tested for the third fragment\<close>
  "W_alrahi = [0x627, 0x644, 0x631, 0x62D, 0x64A]"

definition W_mashhad :: jstr where \<comment> \<open>the Arabic word for "scene"\<close>
  "W_mashhad = [0x645, 0x634, 0x647, 0x62F]"

definition W_thumma :: jstr where \<comment> \<open>"then"\<close>
  "W_thumma = [0x62B, 0x645]"

definition W_wahuwa :: jstr where \<comment> \<open>"while he"\<close>
  "W_wahuwa = [0x648, 0x647, 0x648]"

definition W_wahiya :: jstr where \<comment> \<open>"while she"\<close>
  "W_wahiya = [0x648, 0x647, 0x64A]"

definition W_sawt :: jstr where \<comment> \<open>"voice of"\<close>
  "W_sawt = [0x635, 0x648, 0x62A]"

text \<open>The alternatives of \<open>TIME_RE\<close>.\<close>

definition timeWords :: "jstr list" where
  "timeWords =
    [
     [0x646, 0x647, 0x627, 0x631], [0x644, 0x64A, 0x644], [0x635, 0x628, 0x627, 0x62D],
     [0x645, 0x633, 0x627, 0x621], [0x641, 0x62C, 0x631]
    ]"

text \<open>The alternatives of \<open>LOCATION_RE\<close>.\<close>

definition locationWords :: "jstr list" where
  "locationWords =
    [
     [0x62F, 0x627, 0x62E, 0x644, 0x64A], [0x62E, 0x627, 0x631, 0x62C, 0x64A]
    ]"

text \<open>The Arabic alternatives of the transition expression, then the Latin ones.\<close>

definition transitionWords :: "jstr list" where
  "transitionWords =
    [
     [0x642, 0x637, 0x639], [0x627, 0x62E, 0x62A, 0x641, 0x627, 0x621],
     [0x62A, 0x62D, 0x648, 0x644], [0x627, 0x646, 0x62A, 0x642, 0x627, 0x644]
    ]"

definition transitionWordsLatin :: "jstr list" where
  "transitionWordsLatin = [ascii ''fade'', ascii ''cut'', ascii ''dissolve'', ascii ''wipe'']"

text \<open>The members of \<open>ACTION_VERB_SET\<close>: \<open>ACTION_VERB_LIST\<close> and \<open>EXTRA_ACTION_VERBS\<close>, split at the bars.\<close>

definition ACTION_VERB_SET :: "jstr list" where
  "ACTION_VERB_SET =
    [
     [0x64A, 0x62F, 0x62E, 0x644], [0x64A, 0x62E, 0x631, 0x62C], [0x64A, 0x646, 0x638, 0x631],
     [0x64A, 0x631, 0x641, 0x639], [0x62A, 0x628, 0x62A, 0x633, 0x645],
     [0x62A, 0x631, 0x642, 0x62F], [0x62A, 0x642, 0x641], [0x64A, 0x628, 0x633, 0x645],
     [0x64A, 0x636, 0x639], [0x64A, 0x642, 0x648, 0x644], [0x62A, 0x646, 0x638, 0x631],
     [0x62A, 0x631, 0x628, 0x62A], [0x62A, 0x642, 0x648, 0x645], [0x64A, 0x634, 0x642],
     [0x62A, 0x634, 0x642], [0x62A, 0x636, 0x631, 0x628], [0x64A, 0x633, 0x62D, 0x628],
     [0x64A, 0x644, 0x62A, 0x641, 0x62A], [0x64A, 0x642, 0x641], [0x64A, 0x62C, 0x644, 0x633],
     [0x62A, 0x62C, 0x644, 0x633], [0x64A, 0x62C, 0x631, 0x64A], [0x62A, 0x62C, 0x631, 0x64A],
     [0x64A, 0x645, 0x634, 0x64A], [0x62A, 0x645, 0x634, 0x64A], [0x64A, 0x631, 0x643, 0x636],
     [0x62A, 0x631, 0x643, 0x636], [0x64A, 0x635, 0x631, 0x62E], [0x627, 0x635, 0x631, 0x62E],
     [0x64A, 0x628, 0x643, 0x64A], [0x62A, 0x628, 0x643, 0x64A], [0x64A, 0x636, 0x62D, 0x643],
     [0x62A, 0x636, 0x62D, 0x643], [0x64A, 0x63A, 0x646, 0x64A], [0x62A, 0x63A, 0x646, 0x64A],
     [0x64A, 0x631, 0x642, 0x635], [0x62A, 0x631, 0x642, 0x635], [0x64A, 0x623, 0x643, 0x644],
     [0x62A, 0x623, 0x643, 0x644], [0x64A, 0x634, 0x631, 0x628], [0x62A, 0x634, 0x631, 0x628],
     [0x64A, 0x646, 0x627, 0x645], [0x62A, 0x646, 0x627, 0x645],
     [0x64A, 0x633, 0x62A, 0x64A, 0x642, 0x638], [0x62A, 0x633, 0x62A, 0x64A, 0x642, 0x638],
     [0x64A, 0x643, 0x62A, 0x628], [0x62A, 0x643, 0x62A, 0x628], [0x64A, 0x642, 0x631, 0x623],
     [0x62A, 0x642, 0x631, 0x623], [0x64A, 0x633, 0x645, 0x639], [0x62A, 0x633, 0x645, 0x639],
     [0x64A, 0x634, 0x645], [0x62A, 0x634, 0x645], [0x64A, 0x644, 0x645, 0x633],
     [0x62A, 0x644, 0x645, 0x633], [0x64A, 0x623, 0x62E, 0x630], [0x62A, 0x623, 0x62E, 0x630],
     [0x64A, 0x639, 0x637, 0x64A], [0x62A, 0x639, 0x637, 0x64A], [0x64A, 0x641, 0x62A, 0x62D],
     [0x62A, 0x641, 0x62A, 0x62D], [0x64A, 0x63A, 0x644, 0x642], [0x62A, 0x63A, 0x644, 0x642],
     [0x64A, 0x628, 0x62F, 0x623], [0x62A, 0x628, 0x62F, 0x623],
     [0x64A, 0x646, 0x62A, 0x647, 0x64A], [0x62A, 0x646, 0x62A, 0x647, 0x64A],
     [0x64A, 0x630, 0x647, 0x628], [0x62A, 0x630, 0x647, 0x628], [0x64A, 0x639, 0x648, 0x62F],
     [0x62A, 0x639, 0x648, 0x62F], [0x64A, 0x623, 0x62A, 0x64A], [0x62A, 0x623, 0x62A, 0x64A],
     [0x64A, 0x645, 0x648, 0x62A], [0x62A, 0x645, 0x648, 0x62A], [0x64A, 0x62D, 0x64A, 0x627],
     [0x62A, 0x62D, 0x64A, 0x627], [0x64A, 0x642, 0x627, 0x62A, 0x644],
     [0x62A, 0x642, 0x627, 0x62A, 0x644], [0x64A, 0x646, 0x635, 0x631],
     [0x62A, 0x646, 0x62A, 0x635, 0x631], [0x64A, 0x62E, 0x633, 0x631],
     [0x62A, 0x62E, 0x633, 0x631], [0x64A, 0x631, 0x633, 0x645], [0x62A, 0x631, 0x633, 0x645],
     [0x64A, 0x635, 0x645, 0x645], [0x62A, 0x635, 0x645, 0x645], [0x64A, 0x62E, 0x637, 0x637],
     [0x62A, 0x62E, 0x637, 0x637], [0x64A, 0x642, 0x631, 0x631], [0x62A, 0x642, 0x631, 0x631],
     [0x64A, 0x641, 0x643, 0x631], [0x62A, 0x641, 0x643, 0x631],
     [0x64A, 0x62A, 0x630, 0x643, 0x631], [0x62A, 0x62A, 0x630, 0x643, 0x631],
     [0x64A, 0x62D, 0x627, 0x648, 0x644], [0x62A, 0x62D, 0x627, 0x648, 0x644],
     [0x64A, 0x633, 0x62A, 0x637, 0x64A, 0x639], [0x62A, 0x633, 0x62A, 0x637, 0x64A, 0x639],
     [0x64A, 0x631, 0x64A, 0x62F], [0x62A, 0x631, 0x64A, 0x62F],
     [0x64A, 0x62D, 0x62A, 0x627, 0x62C], [0x62A, 0x62D, 0x62A, 0x627, 0x62C],
     [0x64A, 0x628, 0x62D, 0x62B], [0x62A, 0x628, 0x62D, 0x62B], [0x64A, 0x62C, 0x62F],
     [0x62A, 0x62C, 0x62F], [0x64A, 0x641, 0x642, 0x62F], [0x62A, 0x641, 0x642, 0x62F],
     [0x64A, 0x62D, 0x645, 0x64A], [0x62A, 0x62D, 0x645, 0x64A],
     [0x64A, 0x631, 0x627, 0x642, 0x628], [0x62A, 0x631, 0x627, 0x642, 0x628],
     [0x64A, 0x62E, 0x641, 0x64A], [0x62A, 0x62E, 0x641, 0x64A], [0x64A, 0x643, 0x634, 0x641],
     [0x62A, 0x643, 0x634, 0x641], [0x64A, 0x643, 0x62A, 0x634, 0x641],
     [0x62A, 0x643, 0x62A, 0x634, 0x641], [0x64A, 0x639, 0x631, 0x641],
     [0x62A, 0x639, 0x631, 0x641], [0x64A, 0x62A, 0x639, 0x644, 0x645],
     [0x62A, 0x62A, 0x639, 0x644, 0x645], [0x64A, 0x639, 0x644, 0x645],
     [0x62A, 0x639, 0x644, 0x645], [0x64A, 0x648, 0x62C, 0x647], [0x62A, 0x648, 0x62C, 0x647],
     [0x64A, 0x633, 0x627, 0x641, 0x631], [0x62A, 0x633, 0x627, 0x641, 0x631],
     [0x64A, 0x631, 0x62D, 0x644], [0x62A, 0x631, 0x62D, 0x644], [0x64A, 0x628, 0x642, 0x649],
     [0x62A, 0x628, 0x642, 0x649], [0x64A, 0x646, 0x62A, 0x642, 0x644],
     [0x62A, 0x646, 0x62A, 0x642, 0x644], [0x64A, 0x62A, 0x63A, 0x64A, 0x631],
     [0x62A, 0x62A, 0x63A, 0x64A, 0x631], [0x64A, 0x646, 0x645, 0x648],
     [0x62A, 0x646, 0x645, 0x648], [0x64A, 0x62A, 0x637, 0x648, 0x631],
     [0x62A, 0x62A, 0x637, 0x648, 0x631], [0x64A, 0x648, 0x627, 0x62C, 0x647],
     [0x62A, 0x648, 0x627, 0x62C, 0x647], [0x64A, 0x62D, 0x644], [0x62A, 0x62D, 0x644],
     [0x64A, 0x641, 0x634, 0x644], [0x62A, 0x641, 0x634, 0x644], [0x64A, 0x646, 0x62C, 0x62D],
     [0x62A, 0x646, 0x62C, 0x62D], [0x64A, 0x62D, 0x642, 0x642], [0x62A, 0x62D, 0x642, 0x642],
     [0x64A, 0x646, 0x647, 0x64A], [0x62A, 0x646, 0x647, 0x64A], [0x64A, 0x648, 0x642, 0x641],
     [0x62A, 0x648, 0x642, 0x641], [0x64A, 0x633, 0x62A, 0x645, 0x631],
     [0x62A, 0x633, 0x62A, 0x645, 0x631], [0x64A, 0x646, 0x642, 0x637, 0x639],
     [0x62A, 0x646, 0x642, 0x637, 0x639], [0x64A, 0x631, 0x62A, 0x628, 0x637],
     [0x62A, 0x631, 0x62A, 0x628, 0x637], [0x64A, 0x646, 0x641, 0x635, 0x644],
     [0x62A, 0x646, 0x641, 0x635, 0x644], [0x64A, 0x62A, 0x632, 0x648, 0x62C],
     [0x62A, 0x62A, 0x632, 0x648, 0x62C], [0x64A, 0x637, 0x644, 0x642],
     [0x62A, 0x637, 0x644, 0x642], [0x64A, 0x648, 0x644, 0x62F], [0x62A, 0x648, 0x644, 0x62F],
     [0x64A, 0x643, 0x628, 0x631], [0x62A, 0x643, 0x628, 0x631], [0x64A, 0x634, 0x64A, 0x62E],
     [0x62A, 0x634, 0x64A, 0x62E], [0x64A, 0x645, 0x631, 0x636], [0x62A, 0x645, 0x631, 0x636],
     [0x64A, 0x634, 0x641, 0x64A], [0x62A, 0x634, 0x641, 0x64A], [0x64A, 0x635, 0x627, 0x628],
     [0x62A, 0x635, 0x627, 0x628], [0x64A, 0x62A, 0x639, 0x627, 0x641, 0x649],
     [0x62A, 0x62A, 0x639, 0x627, 0x641, 0x649], [0x64A, 0x642, 0x62A, 0x644],
     [0x62A, 0x642, 0x62A, 0x644], [0x64A, 0x64F, 0x642, 0x62A, 0x644],
     [0x62A, 0x64F, 0x642, 0x62A, 0x644], [0x64A, 0x62E, 0x62A, 0x641, 0x64A],
     [0x62A, 0x62E, 0x62A, 0x641, 0x64A], [0x64A, 0x638, 0x647, 0x631],
     [0x62A, 0x638, 0x647, 0x631], [0x64A, 0x62E, 0x62A, 0x628, 0x626],
     [0x62A, 0x62E, 0x62A, 0x628, 0x626], [0x64A, 0x637, 0x644, 0x628],
     [0x62A, 0x637, 0x644, 0x628], [0x64A, 0x623, 0x645, 0x631], [0x62A, 0x623, 0x645, 0x631],
     [0x64A, 0x645, 0x646, 0x639], [0x62A, 0x645, 0x646, 0x639], [0x64A, 0x633, 0x645, 0x62D],
     [0x62A, 0x633, 0x645, 0x62D], [0x64A, 0x648, 0x627, 0x641, 0x642],
     [0x62A, 0x648, 0x627, 0x641, 0x642], [0x64A, 0x631, 0x641, 0x636],
     [0x62A, 0x631, 0x641, 0x636], [0x64A, 0x639, 0x62A, 0x630, 0x631],
     [0x62A, 0x639, 0x62A, 0x630, 0x631], [0x64A, 0x634, 0x643, 0x631],
     [0x62A, 0x634, 0x643, 0x631], [0x64A, 0x62D, 0x64A, 0x64A], [0x62A, 0x62D, 0x64A, 0x64A],
     [0x64A, 0x648, 0x62F, 0x639], [0x62A, 0x648, 0x62F, 0x639], [0x64A, 0x62C, 0x64A, 0x628],
     [0x62A, 0x62C, 0x64A, 0x628], [0x64A, 0x633, 0x623, 0x644], [0x62A, 0x633, 0x623, 0x644],
     [0x64A, 0x635, 0x64A, 0x62D], [0x635, 0x64A, 0x62D], [0x64A, 0x647, 0x645, 0x633],
     [0x647, 0x645, 0x633], [0x64A, 0x635, 0x645, 0x62A], [0x635, 0x645, 0x62A],
     [0x64A, 0x62A, 0x643, 0x644, 0x645], [0x62A, 0x643, 0x644, 0x645],
     [0x64A, 0x646, 0x627, 0x62F, 0x64A], [0x62A, 0x646, 0x627, 0x62F, 0x64A],
     [0x64A, 0x62D, 0x643, 0x64A], [0x62A, 0x62D, 0x643, 0x64A], [0x64A, 0x631, 0x648, 0x64A],
     [0x62A, 0x631, 0x648, 0x64A], [0x64A, 0x642, 0x635], [0x62A, 0x642, 0x635],
     [0x64A, 0x62A, 0x646, 0x647, 0x62F], [0x62A, 0x62A, 0x646, 0x647, 0x62F],
     [0x64A, 0x626, 0x646], [0x62A, 0x626, 0x646], [0x646, 0x631, 0x649],
     [0x646, 0x633, 0x645, 0x639], [0x646, 0x644, 0x627, 0x62D, 0x638],
     [0x646, 0x642, 0x62A, 0x631, 0x628], [0x646, 0x628, 0x62A, 0x639, 0x62F],
     [0x646, 0x646, 0x62A, 0x642, 0x644], [0x62A, 0x631, 0x641, 0x639],
     [0x64A, 0x646, 0x647, 0x636], [0x62A, 0x646, 0x647, 0x636],
     [0x62A, 0x642, 0x62A, 0x62D, 0x645], [0x64A, 0x642, 0x62A, 0x62D, 0x645],
     [0x64A, 0x62A, 0x628, 0x627, 0x62F, 0x644], [0x64A, 0x628, 0x62A, 0x633, 0x645],
     [0x64A, 0x628, 0x62F, 0x624, 0x648, 0x646], [0x62A, 0x641, 0x62A, 0x62D],
     [0x64A, 0x641, 0x62A, 0x62D], [0x62A, 0x62F, 0x62E, 0x644],
     [0x64A, 0x64F, 0x638, 0x647, 0x631], [0x64A, 0x638, 0x647, 0x631],
     [0x62A, 0x638, 0x647, 0x631]
    ]"

text \<open>The conjunction particles stripped by \<open>isActionVerbStart\<close>.\<close>

definition leadingParticles :: "jstr list" where
  "leadingParticles =
    [
     [0x648], [0x641], [0x644]
    ]"

text \<open>The alternatives of the second action opener ("we see", "we hear", ...).\<close>

definition narratorVerbs :: "jstr list" where
  "narratorVerbs =
    [
     [0x646, 0x631, 0x649], [0x646, 0x633, 0x645, 0x639], [0x646, 0x644, 0x627, 0x62D, 0x638],
     [0x646, 0x642, 0x62A, 0x631, 0x628], [0x646, 0x628, 0x62A, 0x639, 0x62F],
     [0x646, 0x646, 0x62A, 0x642, 0x644]
    ]"

text \<open>The alternatives of the third action opener ("we saw", "we heard", ...).\<close>

definition witnessedVerbs :: "jstr list" where
  "witnessedVerbs =
    [
     [0x631, 0x623, 0x64A, 0x646, 0x627], [0x633, 0x645, 0x639, 0x646, 0x627],
     [0x644, 0x627, 0x62D, 0x638, 0x646, 0x627], [0x634, 0x627, 0x647, 0x62F, 0x646, 0x627]
    ]"

text \<open>The stop words of \<open>isCharacterLine\<close>.\<close>

definition stopWords :: "jstr list" where
  "stopWords =
    [
     [0x641, 0x64A], [0x639, 0x644, 0x649], [0x645, 0x646], [0x625, 0x644, 0x649],
     [0x62F, 0x627, 0x62E, 0x644], [0x62E, 0x627, 0x631, 0x62C], [0x623, 0x645, 0x627, 0x645],
     [0x62E, 0x644, 0x641], [0x62A, 0x62D, 0x62A], [0x641, 0x648, 0x642], [0x628, 0x64A, 0x646],
     [0x62D, 0x648, 0x644], [0x62B, 0x645], [0x628, 0x639, 0x62F], [0x642, 0x628, 0x644],
     [0x639, 0x646, 0x62F, 0x645, 0x627], [0x628, 0x64A, 0x646, 0x645, 0x627], [0x645, 0x639],
     [0x641, 0x62C, 0x623, 0x629], [0x648, 0x647, 0x648], [0x648, 0x647, 0x64A]
    ]"

text \<open>The alternatives of \<open>KNOWN_PLACES\<close> in \<open>isSceneHeader3\<close>.\<close>

definition KNOWN_PLACES :: "jstr list" where
  "KNOWN_PLACES =
    [
     [0x645, 0x633, 0x62C, 0x62F], [0x628, 0x64A, 0x62A], [0x645, 0x646, 0x632, 0x644],
     [0x634, 0x627, 0x631, 0x639], [0x62D, 0x62F, 0x64A, 0x642, 0x629],
     [0x645, 0x62F, 0x631, 0x633, 0x629], [0x62C, 0x627, 0x645, 0x639, 0x629],
     [0x645, 0x643, 0x62A, 0x628], [0x645, 0x62D, 0x644],
     [0x645, 0x633, 0x62A, 0x634, 0x641, 0x649], [0x645, 0x637, 0x639, 0x645],
     [0x641, 0x646, 0x62F, 0x642], [0x633, 0x64A, 0x627, 0x631, 0x629],
     [0x63A, 0x631, 0x641, 0x629], [0x642, 0x627, 0x639, 0x629], [0x645, 0x645, 0x631],
     [0x633, 0x637, 0x62D], [0x633, 0x627, 0x62D, 0x629], [0x645, 0x642, 0x628, 0x631, 0x629],
     [0x645, 0x62E, 0x628, 0x632], [0x645, 0x643, 0x62A, 0x628, 0x629], [0x646, 0x647, 0x631],
     [0x628, 0x62D, 0x631], [0x62C, 0x628, 0x644], [0x63A, 0x627, 0x628, 0x629],
     [0x633, 0x648, 0x642], [0x645, 0x635, 0x646, 0x639], [0x628, 0x646, 0x643],
     [0x645, 0x62D, 0x643, 0x645, 0x629], [0x633, 0x62C, 0x646], [0x645, 0x648, 0x642, 0x641],
     [0x645, 0x62D, 0x637, 0x629], [0x645, 0x637, 0x627, 0x631],
     [0x645, 0x64A, 0x646, 0x627, 0x621], [0x643, 0x648, 0x628, 0x631, 0x649],
     [0x646, 0x641, 0x642], [0x645, 0x628, 0x646, 0x649], [0x642, 0x635, 0x631],
     [0x646, 0x627, 0x62F, 0x64A], [0x645, 0x644, 0x639, 0x628], [0x645, 0x644, 0x647, 0x649],
     [0x628, 0x627, 0x631], [0x643, 0x627, 0x632, 0x64A, 0x646, 0x648],
     [0x645, 0x62A, 0x62D, 0x641], [0x645, 0x633, 0x631, 0x62D],
     [0x633, 0x64A, 0x646, 0x645, 0x627], [0x645, 0x639, 0x631, 0x636],
     [0x645, 0x632, 0x631, 0x639, 0x629], [0x645, 0x62E, 0x62A, 0x628, 0x631],
     [0x645, 0x633, 0x62A, 0x648, 0x62F, 0x639], [0x645, 0x642, 0x647, 0x649],
     [0x634, 0x631, 0x643, 0x629], [0x643, 0x647, 0x641], [0x635, 0x627, 0x644, 0x629],
     [0x62D, 0x645, 0x627, 0x645], [0x645, 0x637, 0x628, 0x62E], [0x634, 0x631, 0x641, 0x629],
     [0x645, 0x64A, 0x62F, 0x627, 0x646], [0x645, 0x62E, 0x632, 0x646],
     [0x645, 0x62E, 0x627, 0x632, 0x646], [0x62D, 0x631, 0x645], [0x628, 0x627, 0x62D, 0x629],
     [0x62F, 0x627, 0x631], [0x631, 0x648, 0x636, 0x629], [0x645, 0x639, 0x647, 0x62F],
     [0x645, 0x631, 0x643, 0x632], [0x639, 0x64A, 0x627, 0x62F, 0x629],
     [0x648, 0x631, 0x634, 0x629], [0x645, 0x635, 0x644, 0x649],
     [0x632, 0x627, 0x648, 0x64A, 0x629]
    ]"

text \<open>The place nouns of the dash pattern in \<open>isSceneHeader3\<close>.\<close>

definition dashPlaces :: "jstr list" where
  "dashPlaces =
    [
     [0x645, 0x646, 0x632, 0x644], [0x628, 0x64A, 0x62A], [0x645, 0x643, 0x62A, 0x628],
     [0x634, 0x642, 0x629], [0x641, 0x64A, 0x644, 0x627], [0x642, 0x635, 0x631],
     [0x645, 0x62D, 0x644], [0x645, 0x635, 0x646, 0x639],
     [0x645, 0x633, 0x62A, 0x634, 0x641, 0x649], [0x645, 0x62F, 0x631, 0x633, 0x629],
     [0x62C, 0x627, 0x645, 0x639, 0x629], [0x641, 0x646, 0x62F, 0x642],
     [0x645, 0x637, 0x639, 0x645], [0x645, 0x642, 0x647, 0x649], [0x634, 0x631, 0x643, 0x629],
     [0x628, 0x646, 0x643], [0x645, 0x631, 0x643, 0x632]
    ]"


section \<open>Normalisation\<close>

text \<open>
  \<^verbatim>\<open>/^[\s\u200E\u200F\u061C\ufeFF]*[bullets-]+/\<close>: the two classes are disjoint, so the star
  takes the whole run of leading marks and the plus the whole run of bullets; the match
  needs one bullet at least.  The result is what is left after the match, or \<open>None\<close>.
\<close>

definition afterLeadingBullets :: "jstr \<Rightarrow> jstr option" where
  "afterLeadingBullets s =
     (case dropWhile isLeadingMark s of
        [] \<Rightarrow> None
      | c # cs \<Rightarrow> if isBulletOrHyphen c then Some (dropWhile isBulletOrHyphen cs) else None)"

definition stripLeadingBullets :: "jstr \<Rightarrow> jstr" where
  "stripLeadingBullets input =
     (case afterLeadingBullets input of
        None \<Rightarrow> input
      | Some r \<Rightarrow> dropWhile isWhiteSpace r)"

definition normalizeLine :: "jstr \<Rightarrow> jstr" where
  "normalizeLine input =
     (let a = filter (\<lambda>c. \<not> isDiacritic c) input;
          b = filter (\<lambda>c. \<not> (isDirectionMark c \<or> c = 9)) a;
          d = (case afterLeadingBullets b of None \<Rightarrow> b | Some r \<Rightarrow> r)
      in trim d)"

definition hasSentencePunctuation :: "jstr \<Rightarrow> bool" where
  "hasSentencePunctuation line = list_ex isSentencePunctuation line"

section \<open>Basmala\<close>

definition isBasmala :: "jstr \<Rightarrow> bool" where
  "isBasmala line =
     (let cleaned = trim (filter (\<lambda>c. \<not> isDirectionMark c) (filter (\<lambda>c. \<not> isBracket c) line));
          normalized = normalizeLine cleaned;
          compact = filter (\<lambda>c. isArabic c \<or> isWhiteSpace c) normalized;
          hasBasm = includesStr compact W_bsm;
          hasAllah = includesStr compact W_allah;
          hasRahman = (includesStr compact W_alrahman \<or> includesStr compact W_alrahi)
      in hasBasm \<and> hasAllah \<and> hasRahman)"

section \<open>Scene headers\<close>

text \<open>
  The scene word, \<^verbatim>\<open>(?:...|scene)\<close> under the \<^verbatim>\<open>i\<close> flag, at the start of \<open>s\<close>: what follows
  it.  The two alternatives begin with different letters.
\<close>

definition afterSceneWord :: "jstr \<Rightarrow> jstr option" where
  "afterSceneWord s =
     (if startsWith s W_mashhad then Some (drop 4 s)
      else if startsWithCI s (ascii ''scene'') then Some (drop 5 s)
      else None)"

text \<open>The scene word, optional spaces and one digit: \<open>SCENE_NUMBER_RE\<close> at one position.\<close>

definition sceneCueAt :: "jstr \<Rightarrow> bool" where
  "sceneCueAt s =
     (case afterSceneWord s of
        None \<Rightarrow> False
      | Some r \<Rightarrow> (case dropWhile isWhiteSpace r of [] \<Rightarrow> False | d # ds \<Rightarrow> isDigit d))"

definition SCENE_NUMBER_RE :: "jstr \<Rightarrow> bool" where
  "SCENE_NUMBER_RE s = matchesSomewhere sceneCueAt s"

definition SCENE_NUMBER_EXACT_RE :: "jstr \<Rightarrow> bool" where
  "SCENE_NUMBER_EXACT_RE s = sceneCueAt (dropWhile isWhiteSpace s)"

definition isSceneHeader1 :: "jstr \<Rightarrow> bool" where
  "isSceneHeader1 line = SCENE_NUMBER_RE (normalizeLine line)"

definition TIME_RE :: "jstr \<Rightarrow> bool" where
  "TIME_RE s = list_ex (includesStr s) timeWords"

definition LOCATION_RE :: "jstr \<Rightarrow> bool" where
  "LOCATION_RE s = list_ex (includesStr s) locationWords"

definition isSceneHeader2 :: "jstr \<Rightarrow> bool" where
  "isSceneHeader2 line =
     (let normalized =
            trim (collapseSpaces False (map (\<lambda>c. if isDash c then 32 else c) (normalizeLine line)));
          hasTime = TIME_RE normalized;
          hasLocation = LOCATION_RE normalized
      in hasTime \<and> hasLocation)"

definition isCompleteSceneHeader :: "jstr \<Rightarrow> bool" where
  "isCompleteSceneHeader line =
     (let normalized = normalizeLine line
      in SCENE_NUMBER_EXACT_RE normalized \<and> isSceneHeader2 normalized)"

text \<open>
  \<open>splitSceneHeader\<close>: leading spaces, the scene word, spaces and digits (the first group);
  then spaces, at most one separator, spaces, and the rest of the line up to a line
  terminator (the second group).  Every quantifier is greedy and the classes that follow
  one another are disjoint, so the first attempt of the matcher is the match.
\<close>

definition splitSceneHeader :: "jstr \<Rightarrow> (jstr \<times> jstr) option" where
  "splitSceneHeader line =
     (let s0 = dropWhile isWhiteSpace line in
      case afterSceneWord s0 of
        None \<Rightarrow> None
      | Some r \<Rightarrow>
          (let spaces = takeWhile isWhiteSpace r;
               digits = takeWhile isDigit (dropWhile isWhiteSpace r);
               r2 = dropWhile isDigit (dropWhile isWhiteSpace r)
           in if digits = [] then None
              else
                (let number = take (length s0 - length r) s0 @ spaces @ digits;
                     r3 = dropWhile isWhiteSpace r2;
                     r4 = (case r3 of [] \<Rightarrow> [] | c # cs \<Rightarrow> if isHeaderSeparator c then cs else r3);
                     r5 = dropWhile isWhiteSpace r4;
                     description = takeWhile (\<lambda>c. \<not> isLineTerminator c) r5
                 in Some (trim number, trim description))))"

definition isTransition :: "jstr \<Rightarrow> bool" where
  "isTransition line =
     (let normalized = normalizeLine line
      in list_ex (startsWith normalized) transitionWords \<or>
         list_ex (startsWithCI normalized) transitionWordsLatin)"

section \<open>Action lines\<close>

definition isActionVerbStart :: "jstr \<Rightarrow> bool" where
  "isActionVerbStart line =
     (let firstToken = takeWhile (\<lambda>c. \<not> isWhiteSpace c) (trim line);
          normalized =
            trim (filter isArabic
                   (filter (\<lambda>c. \<not> (c = 0x200E \<or> c = 0x200F \<or> c = 0x61C)) firstToken))
      in if normalized = [] then False
         else if normalized \<in> set ACTION_VERB_SET then True
         else list_ex (\<lambda>p. startsWith normalized p \<and> 1 < length normalized \<and>
                            drop 1 normalized \<in> set ACTION_VERB_SET) leadingParticles)"

text \<open>\<^verbatim>\<open>(?:\s+\S|$)\<close>: the end of the input, or spaces and then something that is not a space.\<close>

definition boundaryFollows :: "jstr \<Rightarrow> bool" where
  "boundaryFollows r =
     (case r of [] \<Rightarrow> True | c # cs \<Rightarrow> isWhiteSpace c \<and> dropWhile isWhiteSpace cs \<noteq> [])"

text \<open>
  \<^verbatim>\<open>(?:w\s+)?\<close> before something that cannot begin with a space: the positions at which the
  match can go on after the optional group was taken (none or one; the spaces are all
  consumed).
\<close>

definition afterWordAndSpaces :: "jstr \<Rightarrow> jstr \<Rightarrow> jstr list" where
  "afterWordAndSpaces w s =
     (if startsWith s w
      then (case drop (length w) s of
              [] \<Rightarrow> []
            | c # cs \<Rightarrow> if isWhiteSpace c then [dropWhile isWhiteSpace cs] else [])
      else [])"

text \<open>
  \<^verbatim>\<open>[yt][\u0600-\u06FF]{2,}(?:\s+\S|$)\<close>, where y and t stand for the two imperfective
  prefixes.  After the Arabic letters comes the end or a space, so the letters matched are
  the whole run.
\<close>

definition imperfectVerbAt :: "jstr \<Rightarrow> bool" where
  "imperfectVerbAt s =
     (case s of
        [] \<Rightarrow> False
      | c # cs \<Rightarrow> (c = 0x64A \<or> c = 0x62A) \<and> 2 \<le> length (takeWhile isArabic cs) \<and>
                 boundaryFollows (dropWhile isArabic cs))"

definition wordThenBoundary :: "jstr list \<Rightarrow> jstr \<Rightarrow> bool" where
  "wordThenBoundary ws s = list_ex (\<lambda>w. startsWith s w \<and> boundaryFollows (drop (length w) s)) ws"

definition matchesActionStartPattern :: "jstr \<Rightarrow> bool" where
  "matchesActionStartPattern line =
     (let normalized = normalizeLine line;
          s0 = dropWhile isWhiteSpace normalized;
          afterThen = s0 # afterWordAndSpaces W_thumma s0;
          afterWhile =
            concat (map (\<lambda>s. s # afterWordAndSpaces W_wahuwa s @ afterWordAndSpaces W_wahiya s)
                     afterThen);
          afterParticle =
            s0 # (case s0 of [] \<Rightarrow> [] | c # cs \<Rightarrow> if [c] \<in> set leadingParticles then [cs] else [])
      in list_ex imperfectVerbAt afterWhile \<or>
         list_ex (wordThenBoundary narratorVerbs) afterParticle \<or>
         wordThenBoundary witnessedVerbs s0)"

definition isLikelyAction :: "jstr \<Rightarrow> bool" where
  "isLikelyAction line =
     (if line = [] \<or> trim line = [] then False
      else let normalized = normalizeLine line
           in if matchesActionStartPattern normalized then True
              else if isActionVerbStart normalized then True
              else False)"

section \<open>Character lines\<close>

text \<open>\<^verbatim>\<open>:?\s*$\<close>.\<close>

definition characterTail :: "jstr \<Rightarrow> bool" where
  "characterTail r =
     (list_all isWhiteSpace r \<or> (case r of [] \<Rightarrow> False | c # cs \<Rightarrow> c = 58 \<and> list_all isWhiteSpace cs))"

definition isNameChar :: "nat \<Rightarrow> bool" where
  "isNameChar c \<longleftrightarrow> isArabic c \<or> isWhiteSpace c \<or> isDigit c"

text \<open>
  An Arabic letter, then \<open>k\<close> name characters for some \<open>k\<close> from 0 to 30, then the tail:
  every \<open>k\<close> is tried.
\<close>

definition characterBody :: "jstr \<Rightarrow> bool" where
  "characterBody t =
     (case t of
        [] \<Rightarrow> False
      | c # cs \<Rightarrow> isArabic c \<and>
          list_ex (\<lambda>k. characterTail (drop k cs))
            [0 ..< Suc (min 30 (length (takeWhile isNameChar cs)))])"

definition CHARACTER_RE :: "jstr \<Rightarrow> bool" where
  "CHARACTER_RE s =
     (let s0 = dropWhile isWhiteSpace s
      in list_ex characterBody (afterWordAndSpaces W_sawt s0) \<or> characterBody s0)"

text \<open>
  The parenthetical test, \<^verbatim>\<open>/^[(].*?[)]$/\<close> with the full-width parentheses in the two
  classes as well, on the trimmed line: an opening parenthesis first, a closing one last,
  and no line terminator between them.
\<close>

definition isParenthetical :: "jstr \<Rightarrow> bool" where
  "isParenthetical line =
     (let t = trim line
      in 2 \<le> length t \<and> (hd t = 40 \<or> hd t = 0xFF08) \<and> (last t = 41 \<or> last t = 0xFF09) \<and>
         \<not> list_ex isLineTerminator (butlast (tl t)))"

text \<open>
  \<^verbatim>\<open>/^([^::]{1,60}?)\s*[::]\s*(.+)$/\<close>, the second colon of each class being the
  full-width one.  The first group and the spaces after it hold no colon, so the colon
  matched is the first colon of the line.  The first group is lazy: it is the shortest
  prefix, of one code unit at least, that only spaces separate from the colon.  After the
  colon the spaces are skipped and the second group is the rest, which must be non-empty
  and free of line terminators.  (When only spaces follow the colon, the expression either
  fails or yields a second group that trims to the empty string; the function returns
  \<^verbatim>\<open>null\<close> in both cases.)
\<close>

definition parseInlineCharacterDialogue :: "jstr \<Rightarrow> (jstr \<times> jstr) option" where
  "parseInlineCharacterDialogue line =
     (let trimmed = trim line;
          pre = takeWhile (\<lambda>c. \<not> isColon c) trimmed
      in case dropWhile (\<lambda>c. \<not> isColon c) trimmed of
           [] \<Rightarrow> None
         | colon # afterColon \<Rightarrow>
             (let n = max 1 (length (dropTrailing isWhiteSpace pre));
                  rest = dropWhile isWhiteSpace afterColon
              in if pre = [] \<or> 60 < n then None
                 else if rest = [] \<or> list_ex isLineTerminator rest then None
                 else
                   (let characterName = trim (take n pre);
                        dialogueText = trim rest
                    in if characterName = [] \<or> dialogueText = [] then None
                       else if \<not> CHARACTER_RE (characterName @ [58]) then None
                       else Some (characterName, dialogueText))))"

text \<open>The optional second argument of \<open>isCharacterLine\<close>; \<open>lastFormat\<close> may be undefined.\<close>

record dialogueContext =
  lastFormat :: "jstr option"
  inDialogueBlock :: bool

definition isCharacterLine :: "jstr \<Rightarrow> dialogueContext option \<Rightarrow> bool" where
  "isCharacterLine line context =
     (let trimmed = trim line;
          normalized = normalizeLine trimmed;
          wordTotal = length (tokens normalized);
          colonPresent = (includesStr trimmed [58] \<or> includesStr trimmed [0xFF1A]);
          arabicOnlyWithNumbers = (normalized \<noteq> [] \<and> list_all isArabicScriptOrDigit normalized);
          toks = tokens normalized
      in if trimmed = [] then False
         else if isCompleteSceneHeader trimmed \<or> isTransition trimmed \<or> isParenthetical trimmed
         then False
         else if 5 < wordTotal then False
         else if isActionVerbStart normalized then False
         else if matchesActionStartPattern normalized then False
         else if colonPresent \<and> (endsWith trimmed [58] \<or> endsWith trimmed [0xFF1A]) then True
         else if \<not> colonPresent \<and> arabicOnlyWithNumbers
         then (if length toks = 0 \<or> 3 < length toks then False
               else if list_ex (\<lambda>t. t \<in> set stopWords) toks then False
               else True)
         else if \<not> colonPresent then False
         else
          (case context of
             None \<Rightarrow> CHARACTER_RE trimmed
           | Some cx \<Rightarrow>
               if inDialogueBlock cx \<and> lastFormat cx = Some L_character
               then CHARACTER_RE trimmed
               else if inDialogueBlock cx \<and> lastFormat cx = Some L_dialogue
               then False
               else if lastFormat cx = Some L_action \<and> colonPresent
               then CHARACTER_RE trimmed
               else CHARACTER_RE trimmed))"

section \<open>Context model\<close>

record lineStats =
  wordCount :: nat
  charCount :: nat
  hasColon :: bool
  hasPunctuation :: bool
  startsWithBullet :: bool
  isShort :: bool
  isLong :: bool

record linePattern =
  isInDialogueBlock :: bool
  isInSceneHeader :: bool
  lastSceneDistance :: int
  lastCharacterDistance :: int

record LineContext =
  previousLines :: "jstr list"
  currentLine :: jstr
  nextLines :: "jstr list"
  previousTypes :: "jstr list"
  stats :: lineStats
  pattern :: linePattern

text \<open>\<^verbatim>\<open>lines[i] || ""\<close>: the empty string for an index out of range.\<close>

definition lineAt :: "jstr list \<Rightarrow> nat \<Rightarrow> jstr" where
  "lineAt lines i = (if i < length lines then lines ! i else [])"

text \<open>\<^verbatim>\<open>xs[xs.length - 1]\<close>, which is undefined for the empty array.\<close>

definition lastOf :: "'a list \<Rightarrow> 'a option" where
  "lastOf xs = (if xs = [] then None else Some (last xs))"

text \<open>\<^verbatim>\<open>xs.slice(-n)\<close>.\<close>

definition lastN :: "nat \<Rightarrow> 'a list \<Rightarrow> 'a list" where
  "lastN n xs = drop (length xs - n) xs"

text \<open>
  The backward scans of \<open>buildContext\<close>: the distance from the end of the history to the
  most recent entry with the property, or -1.  The function is applied to the reversed
  history.
\<close>

fun distanceTo :: "('a \<Rightarrow> bool) \<Rightarrow> 'a list \<Rightarrow> int" where
  "distanceTo P [] = - 1"
| "distanceTo P (x # xs) =
     (if P x then 0 else if distanceTo P xs < 0 then - 1 else distanceTo P xs + 1)"

definition buildContext :: "jstr list \<Rightarrow> nat \<Rightarrow> jstr list \<Rightarrow> LineContext" where
  "buildContext lines currentIndex previousTypesArg =
     (let line = lineAt lines currentIndex;
          trimmedLine = trim line;
          normalized = normalizeLine line;
          recentTypes = lastN 10 previousTypesArg;
          lastType = lastOf previousTypesArg
      in \<lparr> previousLines = map (lineAt lines) [currentIndex - 3 ..< currentIndex],
           currentLine = line,
           nextLines =
             map (lineAt lines) [currentIndex + 1 ..< min (length lines) (currentIndex + 3 + 1)],
           previousTypes = previousTypesArg,
           stats =
             \<lparr> wordCount = length (tokens normalized),
               charCount = length trimmedLine,
               hasColon = (includesStr trimmedLine [58] \<or> includesStr trimmedLine [0xFF1A]),
               hasPunctuation = list_ex isSentencePunctuation trimmedLine,
               startsWithBullet =
                 (case dropWhile isLeadingMark line of [] \<Rightarrow> False | c # cs \<Rightarrow> isBullet c),
               isShort = (length trimmedLine < 30),
               isLong = (100 < length trimmedLine) \<rparr>,
           pattern =
             \<lparr> isInDialogueBlock =
                 list_ex (\<lambda>t. t = L_character \<or> t = L_dialogue \<or> t = L_parenthetical)
                   (lastN 3 recentTypes),
               isInSceneHeader =
                 (lastType = Some L_top_line \<or> lastType = Some L_header1 \<or>
                  lastType = Some L_header2),
               lastSceneDistance =
                 distanceTo (\<lambda>t. includesStr t (ascii ''scene-header'')) (rev previousTypesArg),
               lastCharacterDistance =
                 distanceTo (\<lambda>t. t = L_character) (rev previousTypesArg) \<rparr> \<rparr>)"

section \<open>Core classification\<close>

text \<open>\<^verbatim>\<open>s.replace(/:+\s*$/, "")\<close>: the last run of colons, when only spaces follow it.\<close>

definition stripTrailingColons :: "jstr \<Rightarrow> jstr" where
  "stripTrailingColons s =
     (let t = dropTrailing isWhiteSpace s
      in if t \<noteq> [] \<and> last t = 58 then dropTrailing (\<lambda>c. c = 58) t else s)"

text \<open>The three tests of \<open>isSceneHeader3\<close>, in the order of the source.\<close>

definition shortUnpunctuatedAfterHeader :: "jstr \<Rightarrow> LineContext \<Rightarrow> bool" where
  "shortUnpunctuatedAfterHeader line ctx =
     (let normalizedWithoutColon = stripTrailingColons (normalizeLine line);
          lastType = lastOf (previousTypes ctx)
      in (lastType = Some L_top_line \<or> lastType = Some L_header1 \<or> lastType = Some L_header2) \<and>
         length (tokens normalizedWithoutColon) \<le> 12 \<and>
         \<not> hasSentencePunctuation line \<and>
         \<not> isActionVerbStart normalizedWithoutColon \<and>
         \<not> matchesActionStartPattern normalizedWithoutColon)"

definition startsWithKnownPlace :: "jstr \<Rightarrow> bool" where
  "startsWithKnownPlace line =
     list_ex (startsWith (stripTrailingColons (normalizeLine line))) KNOWN_PLACES"

text \<open>
  \<^verbatim>\<open>/^(place)\s+[\w\s]+\s*[dash]\s*[\w\s]+/\<close>.  Between the place noun and the dash every
  code unit is a word character or a space, the first is a space, and there are two at
  least; a dash is neither, so the dash matched is the first code unit after that run.
  After the dash one word character or space is enough.
\<close>

definition placeDashAt :: "jstr \<Rightarrow> bool" where
  "placeDashAt r =
     (let run = takeWhile (\<lambda>c. isWordChar c \<or> isWhiteSpace c) r;
          afterRun = dropWhile (\<lambda>c. isWordChar c \<or> isWhiteSpace c) r
      in 2 \<le> length run \<and> isWhiteSpace (hd run) \<and>
         (case afterRun of
            [] \<Rightarrow> False
          | d # ds \<Rightarrow> isDash d \<and>
              (case ds of [] \<Rightarrow> False | e # es \<Rightarrow> isWordChar e \<or> isWhiteSpace e)))"

definition matchesPlaceDashPattern :: "jstr \<Rightarrow> bool" where
  "matchesPlaceDashPattern line =
     (let normalizedWithoutColon = stripTrailingColons (normalizeLine line)
      in list_ex (\<lambda>w. startsWith normalizedWithoutColon w \<and>
                       placeDashAt (drop (length w) normalizedWithoutColon)) dashPlaces)"

definition isSceneHeader3 :: "jstr \<Rightarrow> LineContext \<Rightarrow> bool" where
  "isSceneHeader3 line ctx =
     (if shortUnpunctuatedAfterHeader line ctx then True
      else if startsWithKnownPlace line then True
      else if matchesPlaceDashPattern line then True
      else False)"

text \<open>\<^verbatim>\<open>ctx.nextLines[0]\<close>; an absent next line and an empty one are both falsy.\<close>

definition firstNextLine :: "LineContext \<Rightarrow> jstr" where
  "firstNextLine ctx = (case nextLines ctx of [] \<Rightarrow> [] | n # ns \<Rightarrow> n)"

definition isLikelyCharacter :: "jstr \<Rightarrow> LineContext \<Rightarrow> bool" where
  "isLikelyCharacter line ctx =
     (let nextLine = firstNextLine ctx
      in if \<not> isShort (stats ctx) \<or> 5 < wordCount (stats ctx) then False
         else if isTransition line then False
         else if isActionVerbStart (normalizeLine line) then False
         else if hasPunctuation (stats ctx) \<and> \<not> hasColon (stats ctx) then False
         else if nextLine \<noteq> [] \<and> (isCompleteSceneHeader nextLine \<or> isTransition nextLine) then False
         else if lastCharacterDistance (pattern ctx) = 1 then False
         else True)"

text \<open>The replacement in the bullet branch of \<open>classifyWithContext\<close>: one bullet is removed.\<close>

definition stripOneBullet :: "jstr \<Rightarrow> jstr" where
  "stripOneBullet line =
     (case dropWhile isLeadingMark line of
        [] \<Rightarrow> line
      | c # cs \<Rightarrow> if isBullet c then cs else line)"

definition classifyWithContext :: "jstr \<Rightarrow> LineContext \<Rightarrow> jstr" where
  "classifyWithContext line ctx =
     (let lastType = lastOf (previousTypes ctx);
          nextLine = firstNextLine ctx
      in if isBasmala line then L_basmala
         else if isCompleteSceneHeader line then L_top_line
         else if isSceneHeader1 line then L_header1
         else if isSceneHeader2 line then L_header2
         else if isTransition line then L_transition
         else if isParenthetical line \<and> isInDialogueBlock (pattern ctx) then L_parenthetical
         else if isLikelyAction line then L_action
         else if isInSceneHeader (pattern ctx) \<and> isSceneHeader3 line ctx then L_header3
         else if isInDialogueBlock (pattern ctx) \<and>
                 (lastType = Some L_character \<or> lastType = Some L_parenthetical) \<and>
                 \<not> isCharacterLine line (Some \<lparr> lastFormat = lastType, inDialogueBlock = True \<rparr>)
         then L_dialogue
         else if isInDialogueBlock (pattern ctx) \<and> lastType = Some L_dialogue \<and>
                 \<not> hasColon (stats ctx) \<and> \<not> isCompleteSceneHeader line
         then L_dialogue
         else if isShort (stats ctx) \<and> hasColon (stats ctx) \<and>
                 isCharacterLine line
                   (Some \<lparr> lastFormat = lastType,
                           inDialogueBlock = isInDialogueBlock (pattern ctx) \<rparr>)
         then L_character
         else if isShort (stats ctx) \<and> nextLine \<noteq> [] \<and> 20 < length (trim nextLine) \<and>
                 isLikelyCharacter line ctx
         then L_character
         else if isLong (stats ctx) \<and> hasPunctuation (stats ctx) then L_action
         else if startsWithBullet (stats ctx) \<and>
                 parseInlineCharacterDialogue (trim (stripOneBullet line)) = None
         then L_action
         else L_action)"

section \<open>Session memory and the memory-enhanced classification\<close>

text \<open>
  A value of the dictionary \<open>characterDialogueMap\<close>.  Its declared type has numbers only, but
  the dictionary is a plain object, and \<open>updateMemory\<close> stores a string in it under a name
  that \<^verbatim>\<open>Object.prototype\<close> has as a method: the inherited function is truthy, and adding 1
  to it gives its source text followed by the character 1.  The source text of a built-in
  function is not part of the repository; \<open>FunctionText n\<close> is that text followed by \<open>n\<close>
  characters 1.  A number is a count, as \<open>updateMemory\<close> stores it: 1, or the successor
  of the count it finds.
\<close>

datatype dictValue = Count nat | FunctionText nat

record MemoryData =
  commonCharacters :: "jstr list"
  commonLocations :: "jstr list"
  lastClassifications :: "jstr list"
  characterDialogueMap :: "(jstr \<times> dictValue) list"

record ContextMemory =
  sessionId :: jstr
  lastModified :: nat
  memoryData :: MemoryData

text \<open>A call either throws (a rejected promise, for an asynchronous one) or returns.\<close>

datatype 'a outcome = Throws | Returns 'a

text \<open>
  What the classifier uses of a memory manager: its method \<open>loadContext\<close>.
\<close>

type_synonym loadContextFn = "jstr \<Rightarrow> ContextMemory option outcome"

text \<open>
  The body of the \<^verbatim>\<open>try\<close> block of \<open>classifyWithContextAndMemory\<close> after the memory was
  loaded.  \<open>toLowerCase\<close> is \<^verbatim>\<open>String.prototype.toLowerCase\<close>, whose Unicode case table is
  not part of the repository; it is a parameter.  \<^verbatim>\<open>find\<close> returns the first name that
  passes the test, and the name found counts when it is not the empty string.  The last
  test, \<^verbatim>\<open>appearances >= 3\<close>, holds of a number that is at least 3; it fails for 0, which
  stands for a name without an entry, and for every value that is not a number (a string,
  or a property inherited from \<^verbatim>\<open>Object.prototype\<close>), which converts to \<^verbatim>\<open>NaN\<close>.
\<close>

definition adjustWithMemory ::
  "(jstr \<Rightarrow> jstr) \<Rightarrow> jstr \<Rightarrow> LineContext \<Rightarrow> ContextMemory \<Rightarrow> jstr \<Rightarrow> jstr" where
  "adjustWithMemory toLowerCase line ctx memory classification =
     (let lineNormalized = toLowerCase (filter (\<lambda>c. \<not> isColon c) (normalizeLine line));
          knownCharacter =
            find (\<lambda>char. includesStr (toLowerCase char) lineNormalized \<or>
                          includesStr lineNormalized (toLowerCase char))
              (commonCharacters (memoryData memory));
          c1 = (if isShort (stats ctx) \<and> \<not> hasPunctuation (stats ctx) \<and>
                   (case knownCharacter of None \<Rightarrow> False | Some k \<Rightarrow> k \<noteq> []) \<and>
                   wordCount (stats ctx) \<le> 3 \<and> length line < 40
                then L_character else classification);
          recentPattern = joinWith [45] (take 3 (lastClassifications (memoryData memory)));
          lastType = lastOf (previousTypes ctx);
          c2 = (if startsWith recentPattern (ascii ''character-dialogue'') \<and>
                   lastType = Some L_dialogue \<and> \<not> hasColon (stats ctx) \<and> isLikelyAction line
                then L_action else c1);
          c3 = (if recentPattern = ascii ''dialogue-dialogue-dialogue'' \<and>
                   lastType = Some L_dialogue \<and> \<not> hasColon (stats ctx) \<and>
                   \<not> isCompleteSceneHeader line
                then L_dialogue else c2);
          c4 = (if recentPattern = ascii ''action-action-action'' \<and> lastType = Some L_action \<and>
                   isLong (stats ctx)
                then L_action else c3);
          charName = trim (filter (\<lambda>c. \<not> isColon c) line);
          appearancesAtLeast3 =
            (case map_of (characterDialogueMap (memoryData memory)) charName of
               Some (Count n) \<Rightarrow> 3 \<le> n | _ \<Rightarrow> False)
      in if c4 = L_character \<and> appearancesAtLeast3 then L_character else c4)"

text \<open>
  \<open>classifyWithContextAndMemory\<close>.  The manager may be \<^verbatim>\<open>null\<close>.  Loading the memory is the
  one call of the \<^verbatim>\<open>try\<close> block that can throw for a memory of the declared type; the
  \<^verbatim>\<open>catch\<close> clause logs the error, and the function returns the label it has so far.
\<close>

definition classifyWithContextAndMemory ::
  "(jstr \<Rightarrow> jstr) \<Rightarrow> jstr \<Rightarrow> LineContext \<Rightarrow> loadContextFn option \<Rightarrow> jstr \<Rightarrow> jstr outcome" where
  "classifyWithContextAndMemory toLowerCase line ctx memoryManager session =
     (let classification = classifyWithContext line ctx
      in case memoryManager of
           None \<Rightarrow> Returns classification
         | Some load \<Rightarrow>
             (case load session of
                Throws \<Rightarrow> Returns classification
              | Returns None \<Rightarrow> Returns classification
              | Returns (Some memory) \<Rightarrow>
                  Returns (adjustWithMemory toLowerCase line ctx memory classification)))"

section \<open>Paste handler\<close>

text \<open>
  The output of \<open>handlePaste\<close> is the HTML it inserts: a sequence of \<^verbatim>\<open>div\<close> elements.  A
  \<open>lineDiv\<close> is what \<open>buildLineDivHTML\<close> builds: the class, the text, and the top margin
  written over the styles of the format (\<open>None\<close> when the argument is absent or empty; the
  styles themselves come from the caller's \<open>getFormatStylesFn\<close> and are not modelled).
  A complete scene header becomes one element of class
  \<^verbatim>\<open>format-scene-header-top-line\<close> that holds two line elements.
\<close>

record lineDiv =
  className :: jstr
  textContent :: jstr
  marginTop :: "jstr option"

datatype block = LineBlock lineDiv | TopLineBlock "jstr option" lineDiv lineDiv

definition truthy :: "jstr option \<Rightarrow> jstr option" where
  "truthy m = (case m of None \<Rightarrow> None | Some v \<Rightarrow> if v = [] then None else Some v)"

definition buildLineDivHTML :: "jstr \<Rightarrow> jstr \<Rightarrow> jstr option \<Rightarrow> lineDiv" where
  "buildLineDivHTML cls txt margin =
     \<lparr> className = cls, textContent = txt, marginTop = truthy margin \<rparr>"

fun blockClass :: "block \<Rightarrow> jstr" where
  "blockClass (LineBlock d) = className d"
| "blockClass (TopLineBlock m d1 d2) = ascii ''format-scene-header-top-line''"

fun blockMargin :: "block \<Rightarrow> jstr option" where
  "blockMargin (LineBlock d) = marginTop d"
| "blockMargin (TopLineBlock m d1 d2) = m"

text \<open>A block carries the label \<open>l\<close> when its class is \<^verbatim>\<open>format-\<close> followed by \<open>l\<close>.\<close>

definition hasLabel :: "block \<Rightarrow> jstr \<Rightarrow> bool" where
  "hasLabel b l \<longleftrightarrow> blockClass b = ascii ''format-'' @ l"

text \<open>The variables of the loop of \<open>handlePaste\<close>.\<close>

record pasteState =
  formattedHTML :: "block list"
  previousFormatClass :: jstr
  classifiedTypes :: "jstr list"

text \<open>The three ways the loop body ends: the inline split, the scene header group, one line.\<close>

definition emitInline :: "pasteState \<Rightarrow> jstr \<Rightarrow> jstr \<Rightarrow> pasteState" where
  "emitInline st characterName dialogueText =
     (let charMarginTop = getSpacingMarginTop (previousFormatClass st) L_character;
          charHTML = buildLineDivHTML (ascii ''format-character'') characterName (Some charMarginTop);
          dialogueHTML = buildLineDivHTML (ascii ''format-dialogue'') dialogueText (Some (ascii ''0''))
      in \<lparr> formattedHTML = formattedHTML st @ [LineBlock charHTML, LineBlock dialogueHTML],
           previousFormatClass = L_dialogue,
           classifiedTypes = classifiedTypes st @ [L_character, L_dialogue] \<rparr>)"

definition emitTopLine :: "pasteState \<Rightarrow> jstr \<Rightarrow> jstr \<Rightarrow> pasteState" where
  "emitTopLine st number description =
     (let part1HTML = buildLineDivHTML (ascii ''format-scene-header-1'') number None;
          part2HTML = buildLineDivHTML (ascii ''format-scene-header-2'') description None;
          topLevelMarginTop = getSpacingMarginTop (previousFormatClass st) L_top_line
      in \<lparr> formattedHTML =
             formattedHTML st @ [TopLineBlock (truthy (Some topLevelMarginTop)) part1HTML part2HTML],
           previousFormatClass = L_top_line,
           classifiedTypes = classifiedTypes st @ [L_top_line] \<rparr>)"

definition emitLine :: "pasteState \<Rightarrow> jstr \<Rightarrow> jstr \<Rightarrow> pasteState" where
  "emitLine st formatClass strippedLine =
     (let marginTopValue = getSpacingMarginTop (previousFormatClass st) formatClass;
          lineHTML =
            buildLineDivHTML (ascii ''format-'' @ formatClass) strippedLine (Some marginTopValue)
      in \<lparr> formattedHTML = formattedHTML st @ [LineBlock lineHTML],
           previousFormatClass = formatClass,
           classifiedTypes = classifiedTypes st @ [formatClass] \<rparr>)"

text \<open>What follows the classification of a line that is not split inline.\<close>

definition emitClassified :: "pasteState \<Rightarrow> jstr \<Rightarrow> jstr \<Rightarrow> pasteState" where
  "emitClassified st classification strippedLine =
     (if classification = L_top_line
      then (case splitSceneHeader strippedLine of
              Some (number, description) \<Rightarrow> emitTopLine st number description
            | None \<Rightarrow> emitLine st classification strippedLine)
      else emitLine st classification strippedLine)"

text \<open>The body of the loop, for the index \<open>i\<close>.\<close>

definition pasteLine ::
  "(jstr \<Rightarrow> jstr) \<Rightarrow> jstr list \<Rightarrow> loadContextFn option \<Rightarrow> jstr \<Rightarrow> nat \<Rightarrow> pasteState
     \<Rightarrow> pasteState outcome" where
  "pasteLine toLowerCase lines memoryManager session i st =
     (let trimmedLine = trim (lineAt lines i);
          strippedLine = stripLeadingBullets trimmedLine;
          ctx = buildContext lines i (classifiedTypes st)
      in if trimmedLine = [] then Returns st
         else
          (case parseInlineCharacterDialogue strippedLine of
             Some (characterName, dialogueText) \<Rightarrow> Returns (emitInline st characterName dialogueText)
           | None \<Rightarrow>
               (case classifyWithContextAndMemory toLowerCase strippedLine ctx memoryManager session of
                  Throws \<Rightarrow> Throws
                | Returns classification \<Rightarrow> Returns (emitClassified st classification strippedLine))))"

fun pasteLoop ::
  "(jstr \<Rightarrow> jstr) \<Rightarrow> jstr list \<Rightarrow> loadContextFn option \<Rightarrow> jstr \<Rightarrow> nat list \<Rightarrow> pasteState
     \<Rightarrow> pasteState outcome" where
  "pasteLoop toLowerCase lines memoryManager session [] st = Returns st"
| "pasteLoop toLowerCase lines memoryManager session (i # is) st =
     (case pasteLine toLowerCase lines memoryManager session i st of
        Throws \<Rightarrow> Throws
      | Returns st' \<Rightarrow> pasteLoop toLowerCase lines memoryManager session is st')"

text \<open>\<^verbatim>\<open>s.split("\n")\<close>; the accumulator is the piece being read.\<close>

fun splitLines :: "jstr \<Rightarrow> jstr \<Rightarrow> jstr list" where
  "splitLines cur [] = [cur]"
| "splitLines cur (c # cs) = (if c = 10 then cur # splitLines [] cs else splitLines (cur @ [c]) cs)"

definition initialPasteState :: pasteState where
  "initialPasteState = \<lparr> formattedHTML = [], previousFormatClass = L_action, classifiedTypes = [] \<rparr>"

text \<open>
  \<open>handlePaste\<close>: the clipboard text and whether there is a selection stand for the event
  and the window.  The result is \<open>None\<close> when the handler returns before the loop, and else
  the blocks it inserts at the selection.
\<close>

definition handlePaste ::
  "(jstr \<Rightarrow> jstr) \<Rightarrow> jstr \<Rightarrow> bool \<Rightarrow> loadContextFn option \<Rightarrow> jstr \<Rightarrow> block list option outcome" where
  "handlePaste toLowerCase textData hasSelection memoryManager session =
     (if textData = [] then Returns None
      else if \<not> hasSelection then Returns None
      else
       (let lines = filter (\<lambda>line. trim line \<noteq> []) (splitLines [] textData)
        in case pasteLoop toLowerCase lines memoryManager session [0 ..< length lines]
                  initialPasteState of
             Throws \<Rightarrow> Throws
           | Returns st \<Rightarrow> Returns (Some (formattedHTML st))))"

section \<open>The context memory manager\<close>

text \<open>
  \<open>ContextMemoryManager\<close> keeps objects and hands out copies of them, and \<open>updateMemory\<close>
  mutates arrays in place, so the objects are modelled in a heap: a reference is an
  address, an allocation appends a cell.  A \<open>ContextMemory\<close> object refers to its data
  object, which refers to three arrays and a dictionary.
\<close>

record ClassificationRecord =
  recordLine :: jstr
  classification :: jstr
  timestamp :: nat

type_synonym addr = nat

datatype cell =
    MemoryCell jstr nat addr
  | DataCell addr addr addr addr
  | ArrayCell "jstr list"
  | DictCell "(jstr \<times> dictValue) list"

text \<open>The state: all objects, and the private map of the manager from session to object.\<close>

record managerWorld =
  objects :: "cell list"
  storage :: "jstr \<rightharpoonup> addr"

definition cellAt :: "cell list \<Rightarrow> addr \<Rightarrow> cell option" where
  "cellAt h a = (if a < length h then Some (h ! a) else None)"

text \<open>The objects a reference to a \<open>ContextMemory\<close> leads to.\<close>

definition reach :: "cell list \<Rightarrow> addr \<Rightarrow> addr list" where
  "reach h a =
     (case cellAt h a of
        Some (MemoryCell s t d) \<Rightarrow>
          (case cellAt h d of
             Some (DataCell c l k m) \<Rightarrow> [a, d, c, l, k, m]
           | _ \<Rightarrow> [a, d])
      | _ \<Rightarrow> [a])"

text \<open>
  The value of the object at \<open>a\<close>, which is what \<^verbatim>\<open>JSON.stringify\<close> writes; \<open>None\<close> when
  the cells do not have the shape of a \<open>ContextMemory\<close>.
\<close>

definition arrayAt :: "cell list \<Rightarrow> addr \<Rightarrow> jstr list option" where
  "arrayAt h a = (case cellAt h a of Some (ArrayCell xs) \<Rightarrow> Some xs | _ \<Rightarrow> None)"

definition dictAt :: "cell list \<Rightarrow> addr \<Rightarrow> (jstr \<times> dictValue) list option" where
  "dictAt h a = (case cellAt h a of Some (DictCell kvs) \<Rightarrow> Some kvs | _ \<Rightarrow> None)"

definition readData :: "cell list \<Rightarrow> addr \<Rightarrow> MemoryData option" where
  "readData h d =
     (case cellAt h d of
        Some (DataCell c l k m) \<Rightarrow>
          (case (arrayAt h c, arrayAt h l, arrayAt h k, dictAt h m) of
             (Some cs, Some ls, Some ks, Some kvs) \<Rightarrow>
               Some \<lparr> commonCharacters = cs, commonLocations = ls, lastClassifications = ks,
                      characterDialogueMap = kvs \<rparr>
           | _ \<Rightarrow> None)
      | _ \<Rightarrow> None)"

definition readMemory :: "cell list \<Rightarrow> addr \<Rightarrow> ContextMemory option" where
  "readMemory h a =
     (case cellAt h a of
        Some (MemoryCell s t d) \<Rightarrow>
          (case readData h d of
             Some dat \<Rightarrow> Some \<lparr> sessionId = s, lastModified = t, memoryData = dat \<rparr>
           | None \<Rightarrow> None)
      | _ \<Rightarrow> None)"

text \<open>
  Fresh objects for a value: what \<^verbatim>\<open>JSON.parse\<close> builds, and what the object literal of
  \<open>updateMemory\<close> builds.  The result is the new heap and the reference to the new object.
\<close>

definition allocMemory :: "cell list \<Rightarrow> ContextMemory \<Rightarrow> cell list \<times> addr" where
  "allocMemory h v =
     (let n = length h
      in (h @ [ArrayCell (commonCharacters (memoryData v)),
               ArrayCell (commonLocations (memoryData v)),
               ArrayCell (lastClassifications (memoryData v)),
               DictCell (characterDialogueMap (memoryData v)),
               DataCell n (n + 1) (n + 2) (n + 3),
               MemoryCell (sessionId v) (lastModified v) (n + 4)],
          n + 5))"

text \<open>\<^verbatim>\<open>JSON.parse(JSON.stringify(x))\<close>.\<close>

definition jsonCopy :: "cell list \<Rightarrow> addr \<Rightarrow> (cell list \<times> addr) outcome" where
  "jsonCopy h a = (case readMemory h a of None \<Rightarrow> Throws | Some v \<Rightarrow> Returns (allocMemory h v))"

definition loadContext :: "managerWorld \<Rightarrow> jstr \<Rightarrow> (managerWorld \<times> addr option) outcome" where
  "loadContext w session =
     (case storage w session of
        Some a \<Rightarrow>
          (case jsonCopy (objects w) a of
             Throws \<Rightarrow> Throws
           | Returns (h, r) \<Rightarrow> Returns (w \<lparr> objects := h \<rparr>, Some r))
      | None \<Rightarrow> Returns (w, None))"

definition saveContext :: "managerWorld \<Rightarrow> jstr \<Rightarrow> addr \<Rightarrow> managerWorld outcome" where
  "saveContext w session memory =
     (case jsonCopy (objects w) memory of
        Throws \<Rightarrow> Throws
      | Returns (h, r) \<Rightarrow> Returns (w \<lparr> objects := h, storage := (storage w)(session \<mapsto> r) \<rparr>))"

text \<open>What the store holds for a session, as a value.\<close>

definition storeContents :: "managerWorld \<Rightarrow> jstr \<Rightarrow> ContextMemory option" where
  "storeContents w session =
     (case storage w session of None \<Rightarrow> None | Some a \<Rightarrow> readMemory (objects w) a)"

text \<open>The manager as the classifier sees it.\<close>

definition managerLoadContext :: "managerWorld \<Rightarrow> loadContextFn" where
  "managerLoadContext w session =
     (case loadContext w session of
        Throws \<Rightarrow> Throws
      | Returns (w', None) \<Rightarrow> Returns None
      | Returns (w', Some r) \<Rightarrow> Returns (readMemory (objects w') r))"

subsection \<open>updateMemory\<close>

definition emptyMemory :: "jstr \<Rightarrow> nat \<Rightarrow> ContextMemory" where
  "emptyMemory session now =
     \<lparr> sessionId = session, lastModified = now,
       memoryData = \<lparr> commonCharacters = [], commonLocations = [], lastClassifications = [],
                      characterDialogueMap = [] \<rparr> \<rparr>"

text \<open>
  \<^verbatim>\<open>record.line.replace(/[...]/g, "").trim()\<close>.  The class of the source holds the colon and
  the three characters U+00EF, U+00BC and U+0161.
\<close>

definition characterNameOf :: "jstr \<Rightarrow> jstr" where
  "characterNameOf s = trim (filter (\<lambda>c. \<not> (c = 58 \<or> c = 0xEF \<or> c = 0xBC \<or> c = 0x161)) s)"

text \<open>
  \<^verbatim>\<open>map[name] = (map[name] || 0) + 1\<close> on a dictionary, a plain object, with its own
  properties in the list.  For a name with an own property the value read is that
  property: a number becomes the next number, a string gets the character 1 appended.
  For a name without one the value read is inherited from \<^verbatim>\<open>Object.prototype\<close>:
  \<^verbatim>\<open>undefined\<close> for most names, and the count 1 is stored; a function for the name of a
  method, and the string made of its text and the character 1 is stored as an own
  property; the prototype object itself for \<^verbatim>\<open>__proto__\<close>, where the assignment calls the
  inherited setter, which ignores a string, so that nothing is stored.
\<close>

definition inheritedMethods :: "jstr list" where
  "inheritedMethods =
     [ascii ''constructor'', ascii ''hasOwnProperty'', ascii ''isPrototypeOf'',
      ascii ''propertyIsEnumerable'', ascii ''toLocaleString'', ascii ''toString'',
      ascii ''valueOf'', ascii ''__defineGetter__'', ascii ''__defineSetter__'',
      ascii ''__lookupGetter__'', ascii ''__lookupSetter__'']"

fun bumpValue :: "dictValue \<Rightarrow> dictValue" where
  "bumpValue (Count n) = Count (n + 1)"
| "bumpValue (FunctionText n) = FunctionText (n + 1)"

fun bumpCount :: "jstr \<Rightarrow> (jstr \<times> dictValue) list \<Rightarrow> (jstr \<times> dictValue) list" where
  "bumpCount k [] =
     (if k = ascii ''__proto__'' then []
      else if k \<in> set inheritedMethods then [(k, FunctionText 1)]
      else [(k, Count 1)])"
| "bumpCount k ((k', v) # kvs) =
     (if k = k' then (k', bumpValue v) # kvs else (k', v) # bumpCount k kvs)"

text \<open>The assignments of \<open>updateMemory\<close>, each on the heap.\<close>

definition setLastModified :: "cell list \<Rightarrow> addr \<Rightarrow> nat \<Rightarrow> cell list outcome" where
  "setLastModified h memory now =
     (case cellAt h memory of
        Some (MemoryCell s t d) \<Rightarrow> Returns (h[memory := MemoryCell s now d])
      | _ \<Rightarrow> Throws)"

definition dataOf :: "cell list \<Rightarrow> addr \<Rightarrow> addr outcome" where
  "dataOf h memory = (case cellAt h memory of Some (MemoryCell s t d) \<Rightarrow> Returns d | _ \<Rightarrow> Throws)"

text \<open>
  \<^verbatim>\<open>memory.data.lastClassifications = classifications.map(...).concat(...).slice(0, 20)\<close>:
  a new array, to which the data object then refers.
\<close>

definition setLastClassifications ::
  "cell list \<Rightarrow> addr \<Rightarrow> ClassificationRecord list \<Rightarrow> cell list outcome" where
  "setLastClassifications h d records =
     (case cellAt h d of
        Some (DataCell c l k m) \<Rightarrow>
          (case arrayAt h k of
             Some old \<Rightarrow>
               Returns ((h @ [ArrayCell (take 20 (map classification records @ old))])
                          [d := DataCell c l (length h) m])
           | None \<Rightarrow> Throws)
      | _ \<Rightarrow> Throws)"

text \<open>The body of the \<^verbatim>\<open>forEach\<close>: the two in-place updates for a character record.\<close>

definition recordCharacter :: "cell list \<Rightarrow> addr \<Rightarrow> ClassificationRecord \<Rightarrow> cell list outcome" where
  "recordCharacter h d r =
     (if classification r = L_character \<and> characterNameOf (recordLine r) \<noteq> []
      then (case cellAt h d of
              Some (DataCell c l k m) \<Rightarrow>
                (case (arrayAt h c, dictAt h m) of
                   (Some cs, Some kvs) \<Rightarrow>
                     Returns
                       ((h[c := ArrayCell (if characterNameOf (recordLine r) \<in> set cs then cs
                                           else cs @ [characterNameOf (recordLine r)])])
                          [m := DictCell (bumpCount (characterNameOf (recordLine r)) kvs)])
                 | _ \<Rightarrow> Throws)
            | _ \<Rightarrow> Throws)
      else Returns h)"

fun forEachRecord :: "cell list \<Rightarrow> addr \<Rightarrow> ClassificationRecord list \<Rightarrow> cell list outcome" where
  "forEachRecord h d [] = Returns h"
| "forEachRecord h d (r # rs) =
     (case recordCharacter h d r of Throws \<Rightarrow> Throws | Returns h' \<Rightarrow> forEachRecord h' d rs)"

text \<open>Sequencing of calls that may throw.\<close>

definition andThen :: "'a outcome \<Rightarrow> ('a \<Rightarrow> 'b outcome) \<Rightarrow> 'b outcome" where
  "andThen x f = (case x of Throws \<Rightarrow> Throws | Returns v \<Rightarrow> f v)"

text \<open>The loaded copy, or else the object literal with empty data.\<close>

definition loadedOrNew ::
  "managerWorld \<Rightarrow> addr option \<Rightarrow> jstr \<Rightarrow> nat \<Rightarrow> cell list \<times> addr" where
  "loadedOrNew w loaded session now =
     (case loaded of
        Some r \<Rightarrow> (objects w, r)
      | None \<Rightarrow> allocMemory (objects w) (emptyMemory session now))"

text \<open>\<open>updateMemory\<close>; \<open>t0\<close> and \<open>t1\<close> are the two readings of the clock.\<close>

definition updateMemory ::
  "nat \<Rightarrow> nat \<Rightarrow> managerWorld \<Rightarrow> jstr \<Rightarrow> ClassificationRecord list \<Rightarrow> managerWorld outcome" where
  "updateMemory t0 t1 w session records =
     andThen (loadContext w session) (\<lambda>(w1, loaded).
       (let h2 = fst (loadedOrNew w1 loaded session t0);
            memory = snd (loadedOrNew w1 loaded session t0)
        in andThen (setLastModified h2 memory t1) (\<lambda>h3.
           andThen (dataOf h3 memory) (\<lambda>d.
           andThen (setLastClassifications h3 d records) (\<lambda>h4.
           andThen (forEachRecord h4 d records) (\<lambda>h5.
           saveContext (w1 \<lparr> objects := h5 \<rparr>) session memory))))))"

text \<open>A sequence of calls, one batch of records each.\<close>

fun updateAll ::
  "nat \<Rightarrow> nat \<Rightarrow> managerWorld \<Rightarrow> jstr \<Rightarrow> ClassificationRecord list list \<Rightarrow> managerWorld outcome"
  where
  "updateAll t0 t1 w session [] = Returns w"
| "updateAll t0 t1 w session (b # bs) =
     andThen (updateMemory t0 t1 w session b) (\<lambda>w'. updateAll t0 t1 w' session bs)"

text \<open>A manager just constructed: its map is empty.\<close>

definition newManager :: "cell list \<Rightarrow> managerWorld" where
  "newManager h = \<lparr> objects = h, storage = Map.empty \<rparr>"

text \<open>Every object the store refers to has the shape of a \<open>ContextMemory\<close>.\<close>

definition storeClosed :: "managerWorld \<Rightarrow> bool" where
  "storeClosed w \<longleftrightarrow> (\<forall>session a. storage w session = Some a \<longrightarrow> readMemory (objects w) a \<noteq> None)"

text \<open>The value the store holds after \<open>updateMemory\<close>, from the value it held before.\<close>

definition noteCharacter :: "ClassificationRecord \<Rightarrow> MemoryData \<Rightarrow> MemoryData" where
  "noteCharacter r dat =
     (if classification r = L_character \<and> characterNameOf (recordLine r) \<noteq> []
      then dat \<lparr> commonCharacters :=
                   (if characterNameOf (recordLine r) \<in> set (commonCharacters dat)
                    then commonCharacters dat
                    else commonCharacters dat @ [characterNameOf (recordLine r)]),
                 characterDialogueMap :=
                   bumpCount (characterNameOf (recordLine r)) (characterDialogueMap dat) \<rparr>
      else dat)"

definition updatedMemory ::
  "nat \<Rightarrow> nat \<Rightarrow> jstr \<Rightarrow> ClassificationRecord list \<Rightarrow> ContextMemory option \<Rightarrow> ContextMemory" where
  "updatedMemory t0 t1 session records before =
     (let v = (case before of None \<Rightarrow> emptyMemory session t0 | Some v \<Rightarrow> v)
      in v \<lparr> lastModified := t1,
             memoryData :=
               fold noteCharacter records
                 ((memoryData v) \<lparr> lastClassifications :=
                     take 20 (map classification records @ lastClassifications (memoryData v)) \<rparr>) \<rparr>)"

text \<open>The labels stored for a session after a call, and before it.\<close>

definition storedLabels :: "managerWorld outcome \<Rightarrow> jstr \<Rightarrow> jstr list option" where
  "storedLabels r session =
     (case r of
        Throws \<Rightarrow> None
      | Returns w \<Rightarrow> map_option (\<lambda>m. lastClassifications (memoryData m)) (storeContents w session))"

definition labelsBefore :: "managerWorld \<Rightarrow> jstr \<Rightarrow> jstr list" where
  "labelsBefore w session =
     (case storeContents w session of None \<Rightarrow> [] | Some v \<Rightarrow> lastClassifications (memoryData v))"

section \<open>Concrete inputs\<close>

text \<open>The inputs at which the theorems below are evaluated.\<close>

definition afterDialogue :: dialogueContext where
  "afterDialogue = \<lparr> lastFormat = Some L_dialogue, inDialogueBlock = True \<rparr>"

definition name_ali :: jstr where \<comment> \<open>the name of the inline example of the specification\<close>
  "name_ali = [0x639, 0x644, 0x64A]"

definition line_ali_cue :: jstr where \<comment> \<open>the name followed by a colon\<close>
  "line_ali_cue = name_ali @ [58]"

definition line_ali_yes :: jstr where \<comment> \<open>the name, a colon, a space and the word "yes"\<close>
  "line_ali_yes = name_ali @ [58, 32, 0x646, 0x639, 0x645]"

definition line_scene1 :: jstr where \<comment> \<open>the scene word, a space and the digit 1\<close>
  "line_scene1 = W_mashhad @ [32, 49]"

definition afterHeader :: LineContext where
  \<comment> \<open>the context of the second of two lines, the first having been labelled scene-header-1\<close>
  "afterHeader = buildContext [line_scene1, name_ali] 1 [L_header1]"

definition asciiToLower :: "jstr \<Rightarrow> jstr" where
  \<comment> \<open>\<^verbatim>\<open>toLowerCase\<close> on the ASCII letters, for the evaluations below\<close>
  "asciiToLower s = map (\<lambda>c. if 65 \<le> c \<and> c \<le> 90 then c + 32 else c) s"

definition failingLoad :: loadContextFn where
  "failingLoad session = Throws"

definition text_cue_and_reply :: jstr where
  \<comment> \<open>two lines: the name followed by a colon, then the word "yes" and a full stop\<close>
  "text_cue_and_reply = line_ali_cue @ [10, 0x646, 0x639, 0x645, 46]"

definition line_ali_where :: jstr where
  \<comment> \<open>the inline example of the specification: the name, a colon, a space, "where are you?"\<close>
  "line_ali_where = name_ali @ [58, 32, 0x623, 0x64A, 0x646, 32, 0x623, 0x646, 0x62A, 0x61F]"

definition text_where :: jstr where
  "text_where = [0x623, 0x64A, 0x646, 32, 0x623, 0x646, 0x62A, 0x61F]"

definition line_ali_cr :: jstr where
  \<comment> \<open>the name, a colon, a space, "yes", a carriage return, "no"\<close>
  "line_ali_cr = name_ali @ [58, 32, 0x646, 0x639, 0x645, 13, 0x644, 0x627]"

definition line_scene_marked :: jstr where
  \<comment> \<open>"scene 1 - interior night" in Arabic, with a vowel mark after the first letter\<close>
  "line_scene_marked =
     [0x645, 0x64E, 0x634, 0x647, 0x62F, 32, 49, 32, 45, 32, 0x62F, 0x627, 0x62E, 0x644, 0x64A, 32,
      0x644, 0x64A, 0x644]"

definition line_basmala :: jstr where
  \<comment> \<open>the three fragments of the basmala, separated by spaces\<close>
  "line_basmala = W_bsm @ [32] @ W_allah @ [32] @ W_alrahman"

definition line_basmala_colon :: jstr where
  \<comment> \<open>the same with a colon after the second fragment\<close>
  "line_basmala_colon = W_bsm @ [32] @ W_allah @ [58, 32] @ W_alrahman"

definition threeDialogues :: ContextMemory where
  "threeDialogues =
     \<lparr> sessionId = [], lastModified = 0,
       memoryData = \<lparr> commonCharacters = [], commonLocations = [],
                      lastClassifications = [L_dialogue, L_dialogue, L_dialogue],
                      characterDialogueMap = [] \<rparr> \<rparr>"

definition loadThreeDialogues :: loadContextFn where
  "loadThreeDialogues session = Returns (Some threeDialogues)"

definition text_reply_then_basmala :: jstr where
  "text_reply_then_basmala = line_ali_yes @ [10] @ line_basmala"

definition rec_action :: ClassificationRecord where
  "rec_action = \<lparr> recordLine = [0x62E, 0x631, 0x62C], classification = L_action, timestamp = 1 \<rparr>"

definition rec_dialogue :: ClassificationRecord where
  "rec_dialogue =
     \<lparr> recordLine = [0x646, 0x639, 0x645], classification = L_dialogue, timestamp = 2 \<rparr>"

definition rec_character :: ClassificationRecord where
  "rec_character = \<lparr> recordLine = line_ali_cue, classification = L_character, timestamp = 3 \<rparr>"

definition world_one :: managerWorld where
  \<comment> \<open>a manager that holds one memory, for the session with the empty name\<close>
  "world_one =
     \<lparr> objects = [ArrayCell [name_ali], ArrayCell [], ArrayCell [L_character],
                  DictCell [(name_ali, Count 1)], DataCell 0 1 2 3, MemoryCell [] 6 4],
       storage = [[] \<mapsto> 5] \<rparr>"

definition world_one_loaded :: managerWorld where
  \<comment> \<open>the same after \<open>loadContext\<close>: the copy is in the cells 6 to 11\<close>
  "world_one_loaded =
     world_one \<lparr> objects := objects world_one @
        [ArrayCell [name_ali], ArrayCell [], ArrayCell [L_character], DictCell [(name_ali, Count 1)],
         DataCell 6 7 8 9, MemoryCell [] 6 10] \<rparr>"

definition world_one_saved :: managerWorld where
  \<comment> \<open>then after \<open>saveContext\<close> of that copy for the session "1": its copy is in the cells 12 to 17\<close>
  "world_one_saved =
     \<lparr> objects = objects world_one_loaded @
        [ArrayCell [name_ali], ArrayCell [], ArrayCell [L_character],
         DictCell [(name_ali, Count 1)], DataCell 12 13 14 15, MemoryCell [] 6 16],
       storage = [[] \<mapsto> 5, [49] \<mapsto> 17] \<rparr>"

text \<open>
  What the basmala test keeps of a line before it looks for the three fragments, when the
  trimming and the stripping of bullets are left out.
\<close>

definition basmalaKeeps :: "nat \<Rightarrow> bool" where
  "basmalaKeeps c \<longleftrightarrow> \<not> isBracket c \<and> \<not> isDirectionMark c \<and> \<not> isDiacritic c \<and> c \<noteq> 9 \<and>
     (isArabic c \<or> isWhiteSpace c)"

section \<open>Properties of the pasted blocks\<close>

text \<open>A block labelled character, followed by a block labelled dialogue or parenthetical.\<close>

definition characterThenSpeech :: "block \<Rightarrow> block \<Rightarrow> bool" where
  "characterThenSpeech a b \<longleftrightarrow>
     hasLabel a L_character \<and> (hasLabel b L_dialogue \<or> hasLabel b L_parenthetical)"

text \<open>
  The invariant of the loop of \<open>handlePaste\<close>: the spacing after a character block is
  zero, and \<open>previousFormatClass\<close> is the label of the last block.
\<close>

definition spacingInvariant :: "pasteState \<Rightarrow> bool" where
  "spacingInvariant st \<longleftrightarrow>
     (\<forall>i. Suc i < length (formattedHTML st) \<longrightarrow>
          characterThenSpeech (formattedHTML st ! i) (formattedHTML st ! Suc i) \<longrightarrow>
          blockMargin (formattedHTML st ! Suc i) = Some (ascii ''0'')) \<and>
     (formattedHTML st \<noteq> [] \<longrightarrow> hasLabel (last (formattedHTML st)) (previousFormatClass st))"

section \<open>Facts about the labels\<close>

lemma labels_distinct:
  "distinct [L_basmala, L_top_line, L_header1, L_header2, L_header3, L_action, L_character,
             L_dialogue, L_parenthetical, L_transition]"
  by (simp add: label_defs ascii_def)

lemma labels_ne:
  "L_top_line \<noteq> L_basmala" "L_header1 \<noteq> L_basmala" "L_header1 \<noteq> L_top_line"
  "L_header2 \<noteq> L_basmala" "L_header2 \<noteq> L_top_line" "L_header2 \<noteq> L_header1"
  "L_header3 \<noteq> L_basmala" "L_header3 \<noteq> L_top_line" "L_header3 \<noteq> L_header1"
  "L_header3 \<noteq> L_header2" "L_action \<noteq> L_basmala" "L_action \<noteq> L_top_line"
  "L_action \<noteq> L_header1" "L_action \<noteq> L_header2" "L_action \<noteq> L_header3"
  "L_character \<noteq> L_basmala" "L_character \<noteq> L_top_line"
  "L_character \<noteq> L_header1" "L_character \<noteq> L_header2"
  "L_character \<noteq> L_header3" "L_character \<noteq> L_action"
  "L_dialogue \<noteq> L_basmala" "L_dialogue \<noteq> L_top_line"
  "L_dialogue \<noteq> L_header1" "L_dialogue \<noteq> L_header2" "L_dialogue \<noteq> L_header3"
  "L_dialogue \<noteq> L_action" "L_dialogue \<noteq> L_character"
  "L_parenthetical \<noteq> L_basmala" "L_parenthetical \<noteq> L_top_line"
  "L_parenthetical \<noteq> L_header1" "L_parenthetical \<noteq> L_header2"
  "L_parenthetical \<noteq> L_header3" "L_parenthetical \<noteq> L_action"
  "L_parenthetical \<noteq> L_character" "L_parenthetical \<noteq> L_dialogue"
  "L_transition \<noteq> L_basmala" "L_transition \<noteq> L_top_line"
  "L_transition \<noteq> L_header1" "L_transition \<noteq> L_header2"
  "L_transition \<noteq> L_header3" "L_transition \<noteq> L_action"
  "L_transition \<noteq> L_character" "L_transition \<noteq> L_dialogue"
  "L_transition \<noteq> L_parenthetical"
  using labels_distinct by auto

section \<open>The spacing table\<close>

lemma tableGap_rows:
  "tableGap p c =
    (if p = L_basmala \<or> (p = L_character \<and> (c = L_dialogue \<or> c = L_parenthetical)) \<or>
        (p = L_parenthetical \<and> c = L_dialogue) then ascii ''0''
     else if (p = L_header2 \<and> c = L_header3) \<or> (p = L_header3 \<and> c = L_action) \<or>
        (p = L_action \<and> (c = L_action \<or> c = L_character \<or> c = L_transition)) \<or>
        (p = L_dialogue \<and> (c = L_character \<or> c = L_action \<or> c = L_transition)) \<or>
        (p = L_parenthetical \<and> (c = L_character \<or> c = L_action \<or> c = L_transition)) \<or>
        (p = L_transition \<and> (c = L_header1 \<or> c = L_top_line)) then ascii ''14pt''
     else [])"
  unfolding tableGap_def spacingTable_def rowCovers_def
  by (simp only: list_ex_Nil_iff list_ex_Cons_iff fst_conv snd_conv option.case set_simps
        insert_iff empty_iff simp_thms eq_commute[of _ p] eq_commute[of _ c] cong: if_cong)

text \<open>
  Claim C6.  For every pair of a previous and a current label (in fact for every pair of
  strings), \<open>getSpacingMarginTop\<close> returns what the table of the specification prescribes:
  \<^verbatim>\<open>"0"\<close> on the rows without a gap, \<^verbatim>\<open>"14pt"\<close> on the rows with a gap, and the empty
  string (no explicit gap) for every pair no row lists.
\<close>

theorem getSpacingMarginTop_table:
  "getSpacingMarginTop p c = tableGap p c"
proof -
  note unfold = tableGap_rows getSpacingMarginTop_def labels_ne labels_ne[symmetric]
  consider "p = L_basmala" | "p = L_character" | "p = L_parenthetical" | "p = L_header2"
    | "p = L_header3" | "p = L_action" | "p = L_dialogue" | "p = L_transition"
    | "p \<noteq> L_basmala" "p \<noteq> L_character" "p \<noteq> L_parenthetical" "p \<noteq> L_header2"
      "p \<noteq> L_header3" "p \<noteq> L_action" "p \<noteq> L_dialogue" "p \<noteq> L_transition"
    by blast
  then show ?thesis
  proof cases
    case 1 then show ?thesis by (simp add: unfold)
  next
    case 2 then show ?thesis by (simp add: unfold)
  next
    case 3 then show ?thesis by (simp add: unfold)
  next
    case 4 then show ?thesis by (simp add: unfold)
  next
    case 5 then show ?thesis by (simp add: unfold)
  next
    case 6 then show ?thesis by (simp add: unfold)
  next
    case 7 then show ?thesis by (simp add: unfold)
  next
    case 8 then show ?thesis by (simp add: unfold)
  next
    case 9 then show ?thesis by (simp add: unfold)
  qed
qed

text \<open>The table at three of its rows and at an unlisted pair.\<close>

theorem getSpacingMarginTop_table_witness:
  "getSpacingMarginTop L_basmala L_action = ascii ''0'' \<and>
   getSpacingMarginTop L_dialogue L_character = ascii ''14pt'' \<and>
   getSpacingMarginTop L_header1 L_header2 = [] \<and>
   tableGap L_header1 L_header2 = []"
  using getSpacingMarginTop_table [of L_header1 L_header2]
  by (simp add: getSpacingMarginTop_def labels_ne labels_ne[symmetric] label_defs ascii_def)

section \<open>Character lines after a dialogue line\<close>

text \<open>
  Claim C4 says that with a context in which \<open>isInDialogueBlock\<close> is true and the last
  format is dialogue, \<open>isCharacterLine\<close> returns false for every line, also for a line that
  ends with a colon.  It does not: the name followed by a colon is accepted in that
  context.
\<close>

theorem isCharacterLine_after_dialogue_counterexample:
  "isCharacterLine line_ali_cue (Some afterDialogue)"
  by code_simp

text \<open>
  Claim C4, amended.  In such a context \<open>isCharacterLine\<close> accepts a line exactly when it
  accepts it without a context and the trimmed line either has no colon or ends with one:
  it returns false for every line that has a colon (ASCII or full-width) and does not end
  with one, and the test of the last format is reached by no other line.
\<close>

theorem isCharacterLine_after_dialogue:
  assumes "inDialogueBlock cx" and "lastFormat cx = Some L_dialogue"
  shows "isCharacterLine line (Some cx) \<longleftrightarrow>
           isCharacterLine line None \<and>
           (\<not> (includesStr (trim line) [58] \<or> includesStr (trim line) [0xFF1A]) \<or>
            endsWith (trim line) [58] \<or> endsWith (trim line) [0xFF1A])"
  using assms by (simp add: isCharacterLine_def Let_def labels_ne labels_ne[symmetric])

theorem isCharacterLine_after_dialogue_witness:
  "inDialogueBlock afterDialogue \<and> lastFormat afterDialogue = Some L_dialogue \<and>
   \<not> isCharacterLine line_ali_yes (Some afterDialogue)"
proof -
  have h1: "inDialogueBlock afterDialogue" by code_simp
  have h2: "lastFormat afterDialogue = Some L_dialogue" by code_simp
  have h3: "\<not> (\<not> (includesStr (trim line_ali_yes) [58] \<or> includesStr (trim line_ali_yes) [0xFF1A]) \<or>
              endsWith (trim line_ali_yes) [58] \<or> endsWith (trim line_ali_yes) [0xFF1A])"
    by code_simp
  from isCharacterLine_after_dialogue [OF h1 h2, of line_ali_yes] h1 h2 h3
  show ?thesis by blast
qed

section \<open>The third part of a scene header\<close>

lemma buildContext_isInSceneHeader:
  "isInSceneHeader (pattern (buildContext lines i tys)) \<longleftrightarrow>
     lastOf tys = Some L_top_line \<or> lastOf tys = Some L_header1 \<or> lastOf tys = Some L_header2"
  by (simp add: buildContext_def Let_def)

text \<open>
  Claim C5 says that \<open>classifyWithContext\<close> returns scene-header-3 only when the line, besides
  being short, unpunctuated and no action opener after a scene header label, also matches
  the list of location nouns or the dash pattern.  It does not: after a line labelled
  scene-header-1, the bare name of the inline example is labelled scene-header-3, and it
  matches neither.
\<close>

theorem classifyWithContext_header3_counterexample:
  "classifyWithContext name_ali afterHeader = L_header3 \<and>
   \<not> startsWithKnownPlace name_ali \<and> \<not> matchesPlaceDashPattern name_ali"
  by code_simp

text \<open>
  Claim C5, amended.  \<open>classifyWithContext\<close> returns scene-header-3 only when the context says
  that the preceding label is one of the scene header family (for a context built by
  \<open>buildContext\<close>: the last label of the history is scene-header-top-line, scene-header-1
  or scene-header-2), the line is no action line, and one at least of three tests holds:
  the line has at most 12 words, no sentence punctuation and no action opener after such a
  label; or it begins with a noun of the list of places; or it matches the dash pattern.
\<close>

theorem classifyWithContext_header3_only:
  assumes "classifyWithContext line ctx = L_header3"
  shows "isInSceneHeader (pattern ctx) \<and> \<not> isLikelyAction line \<and>
         (shortUnpunctuatedAfterHeader line ctx \<or> startsWithKnownPlace line \<or>
          matchesPlaceDashPattern line) \<and>
         (\<forall>lines i tys. ctx = buildContext lines i tys \<longrightarrow>
            lastOf tys = Some L_top_line \<or> lastOf tys = Some L_header1 \<or>
            lastOf tys = Some L_header2)"
proof -
  from assms have a: "isInSceneHeader (pattern ctx)" and b: "\<not> isLikelyAction line"
    and c: "shortUnpunctuatedAfterHeader line ctx \<or> startsWithKnownPlace line \<or>
            matchesPlaceDashPattern line"
    by (simp_all add: classifyWithContext_def Let_def isSceneHeader3_def labels_ne
          labels_ne[symmetric] split: if_splits)
  from a have "\<forall>lines i tys. ctx = buildContext lines i tys \<longrightarrow>
            lastOf tys = Some L_top_line \<or> lastOf tys = Some L_header1 \<or>
            lastOf tys = Some L_header2"
    by (auto simp: buildContext_isInSceneHeader)
  with a b c show ?thesis by blast
qed

theorem classifyWithContext_header3_only_witness:
  "classifyWithContext name_ali afterHeader = L_header3 \<and>
   isInSceneHeader (pattern afterHeader) \<and> \<not> isLikelyAction name_ali \<and>
   shortUnpunctuatedAfterHeader name_ali afterHeader \<and>
   lastOf [L_header1] = Some L_header1"
proof -
  have h: "classifyWithContext name_ali afterHeader = L_header3" by code_simp
  have s: "shortUnpunctuatedAfterHeader name_ali afterHeader" by code_simp
  have l: "lastOf [L_header1] = Some L_header1" by (simp add: lastOf_def)
  from classifyWithContext_header3_only [OF h] h s l show ?thesis by blast
qed

section \<open>Classification without memory\<close>

text \<open>
  Claim C9.  When there is no memory manager, or loading the memory of the session returns
  \<^verbatim>\<open>null\<close>, or loading it throws, \<open>classifyWithContextAndMemory\<close> returns (it does not throw)
  the label of \<open>classifyWithContext\<close>, for every line, context and session.  The
  \<open>loadContext\<close> of \<open>ContextMemoryManager\<close> returns \<^verbatim>\<open>null\<close> for a session it has no
  memory of.
\<close>

theorem classifyWithContextAndMemory_without_memory:
  "classifyWithContextAndMemory lc line ctx None sid = Returns (classifyWithContext line ctx) \<and>
   (\<forall>load. load sid = Returns None \<or> load sid = Throws \<longrightarrow>
      classifyWithContextAndMemory lc line ctx (Some load) sid =
        Returns (classifyWithContext line ctx)) \<and>
   (\<forall>w. storage w sid = None \<longrightarrow>
      classifyWithContextAndMemory lc line ctx (Some (managerLoadContext w)) sid =
        Returns (classifyWithContext line ctx))"
  by (auto simp: classifyWithContextAndMemory_def Let_def managerLoadContext_def loadContext_def)

theorem classifyWithContextAndMemory_without_memory_witness:
  "failingLoad [] = Throws \<and>
   classifyWithContextAndMemory asciiToLower name_ali afterHeader (Some failingLoad) [] =
     Returns L_header3 \<and>
   storage (newManager []) [] = None \<and>
   classifyWithContextAndMemory asciiToLower name_ali afterHeader
     (Some (managerLoadContext (newManager []))) [] = Returns L_header3"
proof -
  have t: "failingLoad [] = Throws" by (simp add: failingLoad_def)
  have n: "storage (newManager []) [] = None" by (simp add: newManager_def)
  have c: "classifyWithContext name_ali afterHeader = L_header3" by code_simp
  from classifyWithContextAndMemory_without_memory [of asciiToLower name_ali afterHeader "[]"] t n c
  show ?thesis by auto
qed

section \<open>Spacing after a character block\<close>

lemma hasLabel_inject: "hasLabel b l \<Longrightarrow> hasLabel b l' \<Longrightarrow> l = l'"
  by (simp add: hasLabel_def)

lemma zero_margin: "truthy (Some (ascii ''0'')) = Some (ascii ''0'')"
  by (simp add: truthy_def ascii_def)

lemma spacing_after_character:
  "getSpacingMarginTop L_character L_dialogue = ascii ''0''"
  "getSpacingMarginTop L_character L_parenthetical = ascii ''0''"
  by (simp_all add: getSpacingMarginTop_def labels_ne labels_ne[symmetric])

lemma pairs_snoc:
  assumes "\<forall>i. Suc i < length xs \<longrightarrow> P (xs ! i) (xs ! Suc i)"
    and "xs \<noteq> [] \<longrightarrow> P (last xs) b"
  shows "\<forall>i. Suc i < length (xs @ [b]) \<longrightarrow> P ((xs @ [b]) ! i) ((xs @ [b]) ! Suc i)"
proof (intro allI impI)
  fix i assume i: "Suc i < length (xs @ [b])"
  show "P ((xs @ [b]) ! i) ((xs @ [b]) ! Suc i)"
  proof (cases "Suc i < length xs")
    case True
    with assms(1) show ?thesis by (simp add: nth_append)
  next
    case False
    with i have e: "Suc i = length xs" by simp
    then have ne: "xs \<noteq> []" by auto
    from e have i': "i = length xs - 1" by simp
    have "(xs @ [b]) ! i = last xs" using ne unfolding i' by (simp add: nth_append last_conv_nth)
    moreover from e have "(xs @ [b]) ! Suc i = b" by (simp add: nth_append)
    ultimately show ?thesis using assms(2) ne by simp
  qed
qed

lemma invariant_snoc:
  assumes inv: "spacingInvariant st"
    and pair: "formattedHTML st \<noteq> [] \<Longrightarrow>
                characterThenSpeech (last (formattedHTML st)) b \<Longrightarrow>
                blockMargin b = Some (ascii ''0'')"
    and lab: "hasLabel b l"
  shows "spacingInvariant \<lparr> formattedHTML = formattedHTML st @ [b], previousFormatClass = l,
                             classifiedTypes = ts \<rparr>"
proof -
  let ?P = "\<lambda>x y. characterThenSpeech x y \<longrightarrow> blockMargin y = Some (ascii ''0'')"
  from inv have a: "\<forall>i. Suc i < length (formattedHTML st) \<longrightarrow>
      ?P (formattedHTML st ! i) (formattedHTML st ! Suc i)"
    by (simp add: spacingInvariant_def)
  from pair have b: "formattedHTML st \<noteq> [] \<longrightarrow> ?P (last (formattedHTML st)) b" by blast
  from pairs_snoc [of "formattedHTML st" ?P b, OF a b] lab
  show ?thesis by (simp add: spacingInvariant_def)
qed

lemma emitLine_invariant:
  assumes inv: "spacingInvariant st"
  shows "spacingInvariant (emitLine st c txt)"
proof -
  let ?b = "LineBlock (buildLineDivHTML (ascii ''format-'' @ c) txt
                (Some (getSpacingMarginTop (previousFormatClass st) c)))"
  have lab: "hasLabel ?b c" by (simp add: hasLabel_def buildLineDivHTML_def)
  have pair: "blockMargin ?b = Some (ascii ''0'')"
    if ne: "formattedHTML st \<noteq> []" and cs: "characterThenSpeech (last (formattedHTML st)) ?b"
  proof -
    from inv ne have "hasLabel (last (formattedHTML st)) (previousFormatClass st)"
      by (simp add: spacingInvariant_def)
    with cs have p: "previousFormatClass st = L_character"
      by (auto simp: characterThenSpeech_def dest: hasLabel_inject)
    from cs lab have "c = L_dialogue \<or> c = L_parenthetical"
      by (auto simp: characterThenSpeech_def dest: hasLabel_inject)
    with p show ?thesis
      by (auto simp: buildLineDivHTML_def spacing_after_character zero_margin)
  qed
  from invariant_snoc [OF inv pair lab, of "classifiedTypes st @ [c]"]
  show ?thesis by (simp add: emitLine_def Let_def)
qed

lemma top_line_class: "ascii ''format-scene-header-top-line'' = ascii ''format-'' @ L_top_line"
  by (simp add: ascii_def L_top_line_def)

lemma emitTopLine_invariant:
  assumes inv: "spacingInvariant st"
  shows "spacingInvariant (emitTopLine st n d)"
proof -
  let ?b = "TopLineBlock (truthy (Some (getSpacingMarginTop (previousFormatClass st) L_top_line)))
              (buildLineDivHTML (ascii ''format-scene-header-1'') n None)
              (buildLineDivHTML (ascii ''format-scene-header-2'') d None)"
  have lab: "hasLabel ?b L_top_line" by (simp add: hasLabel_def top_line_class)
  have pair: "blockMargin ?b = Some (ascii ''0'')"
    if "formattedHTML st \<noteq> []" and cs: "characterThenSpeech (last (formattedHTML st)) ?b"
  proof -
    from cs lab have "L_top_line = L_dialogue \<or> L_top_line = L_parenthetical"
      by (auto simp: characterThenSpeech_def dest: hasLabel_inject)
    then show ?thesis by (simp add: labels_ne labels_ne[symmetric])
  qed
  from invariant_snoc [OF inv pair lab, of "classifiedTypes st @ [L_top_line]"]
  show ?thesis by (simp add: emitTopLine_def Let_def)
qed

lemma emitInline_invariant:
  assumes inv: "spacingInvariant st"
  shows "spacingInvariant (emitInline st n d)"
proof -
  let ?c = "LineBlock (buildLineDivHTML (ascii ''format-character'') n
               (Some (getSpacingMarginTop (previousFormatClass st) L_character)))"
  let ?d = "LineBlock (buildLineDivHTML (ascii ''format-dialogue'') d (Some (ascii ''0'')))"
  let ?st1 = "\<lparr> formattedHTML = formattedHTML st @ [?c], previousFormatClass = L_character,
                classifiedTypes = classifiedTypes st \<rparr>"
  have labc: "hasLabel ?c L_character"
    by (simp add: hasLabel_def buildLineDivHTML_def ascii_def L_character_def)
  have labd: "hasLabel ?d L_dialogue"
    by (simp add: hasLabel_def buildLineDivHTML_def ascii_def L_dialogue_def)
  have pairc: "blockMargin ?c = Some (ascii ''0'')"
    if "formattedHTML st \<noteq> []" and cs: "characterThenSpeech (last (formattedHTML st)) ?c"
  proof -
    from cs labc have "L_character = L_dialogue \<or> L_character = L_parenthetical"
      by (auto simp: characterThenSpeech_def dest: hasLabel_inject)
    then show ?thesis by (simp add: labels_ne labels_ne[symmetric])
  qed
  have inv1: "spacingInvariant ?st1"
    by (rule invariant_snoc [OF inv pairc labc])
  have paird: "blockMargin ?d = Some (ascii ''0'')"
    by (simp add: buildLineDivHTML_def zero_margin)
  from invariant_snoc [OF inv1 _ labd, of "classifiedTypes st @ [L_character, L_dialogue]"] paird
  show ?thesis by (simp add: emitInline_def Let_def)
qed

lemma pasteLine_invariant:
  assumes "spacingInvariant st" and "pasteLine lc lines mgr sid i st = Returns st'"
  shows "spacingInvariant st'"
  using assms
  by (auto simp: pasteLine_def Let_def emitClassified_def emitLine_invariant emitTopLine_invariant
        emitInline_invariant split: if_splits option.splits outcome.splits prod.splits)

lemma pasteLoop_invariant:
  assumes "spacingInvariant st" and "pasteLoop lc lines mgr sid is st = Returns st'"
  shows "spacingInvariant st'"
  using assms
proof (induction "is" arbitrary: st)
  case Nil
  then show ?case by simp
next
  case (Cons i "is")
  then show ?case by (auto split: outcome.splits dest: pasteLine_invariant)
qed

lemma initial_invariant: "spacingInvariant initialPasteState"
  by (simp add: spacingInvariant_def initialPasteState_def)

text \<open>
  Claim C1.  In the blocks \<open>handlePaste\<close> inserts, a block labelled dialogue or
  parenthetical that comes right after a block labelled character has the top margin
  \<^verbatim>\<open>"0"\<close>.  On the generic path this is \<open>getSpacingMarginTop\<close> at the label character; on
  the inline path the margin of the dialogue block is the constant \<^verbatim>\<open>"0"\<close>.
\<close>

theorem handlePaste_character_spacing:
  "(\<forall>lc textData sel mgr sid blocks i.
      handlePaste lc textData sel mgr sid = Returns (Some blocks) \<longrightarrow>
      Suc i < length blocks \<longrightarrow> characterThenSpeech (blocks ! i) (blocks ! Suc i) \<longrightarrow>
      blockMargin (blocks ! Suc i) = Some (ascii ''0'')) \<and>
   getSpacingMarginTop L_character L_dialogue = ascii ''0'' \<and>
   getSpacingMarginTop L_character L_parenthetical = ascii ''0'' \<and>
   (\<forall>st n d. blockMargin (last (formattedHTML (emitInline st n d))) = Some (ascii ''0''))"
proof (intro conjI allI impI)
  fix lc textData sel mgr sid blocks i
  assume h: "handlePaste lc textData sel mgr sid = Returns (Some blocks)"
    and i: "Suc i < length blocks" and cs: "characterThenSpeech (blocks ! i) (blocks ! Suc i)"
  from h obtain st where
    "pasteLoop lc (filter (\<lambda>line. trim line \<noteq> []) (splitLines [] textData)) mgr sid
       [0 ..< length (filter (\<lambda>line. trim line \<noteq> []) (splitLines [] textData))]
       initialPasteState = Returns st" and b: "blocks = formattedHTML st"
    using i by (auto simp: handlePaste_def Let_def split: if_splits outcome.splits)
  then have "spacingInvariant st" using pasteLoop_invariant [OF initial_invariant] by blast
  with i cs b show "blockMargin (blocks ! Suc i) = Some (ascii ''0'')"
    by (simp add: spacingInvariant_def)
next
  fix st n d
  show "blockMargin (last (formattedHTML (emitInline st n d))) = Some (ascii ''0'')"
    by (simp add: emitInline_def Let_def buildLineDivHTML_def zero_margin)
qed (simp_all add: spacing_after_character)

text \<open>A character cue on one line and the reply on the next: the generic path.\<close>

theorem handlePaste_character_spacing_witness:
  "handlePaste asciiToLower text_cue_and_reply True None [] =
     Returns (Some
       [LineBlock \<lparr> className = ascii ''format-character'', textContent = line_ali_cue,
                     marginTop = Some (ascii ''14pt'') \<rparr>,
        LineBlock \<lparr> className = ascii ''format-dialogue'', textContent = [0x646, 0x639, 0x645, 46],
                     marginTop = Some (ascii ''0'') \<rparr>])"
proof -
  let ?blocks = "[LineBlock \<lparr> className = ascii ''format-character'', textContent = line_ali_cue,
                     marginTop = Some (ascii ''14pt'') \<rparr>,
        LineBlock \<lparr> className = ascii ''format-dialogue'', textContent = [0x646, 0x639, 0x645, 46],
                     marginTop = None \<rparr>]"
  have h: "\<exists>m. handlePaste asciiToLower text_cue_and_reply True None [] =
     Returns (Some
       [LineBlock \<lparr> className = ascii ''format-character'', textContent = line_ali_cue,
                     marginTop = Some (ascii ''14pt'') \<rparr>,
        LineBlock \<lparr> className = ascii ''format-dialogue'', textContent = [0x646, 0x639, 0x645, 46],
                     marginTop = m \<rparr>])"
    by (rule exI [of _ "Some (ascii ''0'')"]) code_simp
  then obtain m where hm: "handlePaste asciiToLower text_cue_and_reply True None [] =
     Returns (Some
       [LineBlock \<lparr> className = ascii ''format-character'', textContent = line_ali_cue,
                     marginTop = Some (ascii ''14pt'') \<rparr>,
        LineBlock \<lparr> className = ascii ''format-dialogue'', textContent = [0x646, 0x639, 0x645, 46],
                     marginTop = m \<rparr>])" ..
  have cs: "characterThenSpeech
      (LineBlock \<lparr> className = ascii ''format-character'', textContent = line_ali_cue,
                     marginTop = Some (ascii ''14pt'') \<rparr>)
      (LineBlock \<lparr> className = ascii ''format-dialogue'', textContent = [0x646, 0x639, 0x645, 46],
                     marginTop = m \<rparr>)"
    by (simp add: characterThenSpeech_def hasLabel_def ascii_def L_character_def L_dialogue_def)
  from handlePaste_character_spacing hm cs
  have "blockMargin (LineBlock \<lparr> className = ascii ''format-dialogue'',
          textContent = [0x646, 0x639, 0x645, 46], marginTop = m \<rparr>) = Some (ascii ''0'')"
    by (metis One_nat_def Suc_1 length_Cons lessI list.size(3) nth_Cons_0 nth_Cons_Suc)
  then have "m = Some (ascii ''0'')" by simp
  with hm show ?thesis by simp
qed

section \<open>Trimming and the form of an inline line\<close>

lemma trim_fixed_ends:
  assumes "trim s = s" "s \<noteq> []"
  shows "\<not> isWhiteSpace (hd s) \<and> \<not> isWhiteSpace (last s)"
proof -
  have a: "\<not> isWhiteSpace (hd s)"
  proof
    assume w: "isWhiteSpace (hd s)"
    from assms(2) obtain c cs where s: "s = c # cs" by (cases s) auto
    with w have "length (dropWhile isWhiteSpace s) \<le> length cs"
      by (simp add: length_dropWhile_le)
    then have "length (trim s) < length s"
      unfolding trim_def dropTrailing_def using s
      by (metis (no_types, lifting) le_imp_less_Suc length_Cons length_dropWhile_le length_rev order.strict_trans1 order_le_less_trans)
    with assms(1) show False by simp
  qed
  have b: "\<not> isWhiteSpace (last s)"
  proof
    assume w: "isWhiteSpace (last s)"
    from a assms(2) have d: "dropWhile isWhiteSpace s = s" by (cases s) auto
    from assms(2) have "rev s = last s # rev (butlast s)"
      by (metis append_butlast_last_id rev.simps(2) rev_rev_ident rev_singleton_conv rev_append append_Cons append_Nil)
    with w have "length (dropWhile isWhiteSpace (rev s)) \<le> length (butlast s)"
      by (metis dropWhile.simps(2) length_dropWhile_le length_rev)
    then have "length (trim s) < length s"
      unfolding trim_def dropTrailing_def d using assms(2)
      by (simp add: le_imp_less_Suc) (metis Suc_pred le_imp_less_Suc length_greater_0_conv)
    with assms(1) show False by simp
  qed
  from a b show ?thesis ..
qed

lemma dropTrailing_keep:
  assumes "a \<noteq> []" "\<not> P (last a)" "\<forall>c\<in>set g. P c"
  shows "dropTrailing P (a @ g) = a"
proof -
  from assms(1) have r: "rev a = last a # rev (butlast a)"
    by (metis append_butlast_last_id rev.simps(2) rev_rev_ident rev_singleton_conv rev_append append_Cons append_Nil)
  have "dropWhile P (rev g @ rev a) = dropWhile P (rev a)"
    by (rule dropWhile_append2) (use assms(3) in auto)
  also have "\<dots> = rev a" using assms(2) by (subst (1 2) r) simp
  finally show ?thesis by (simp add: dropTrailing_def)
qed

lemma trim_keep:
  assumes "s \<noteq> []" "\<not> isWhiteSpace (hd s)" "\<not> isWhiteSpace (last s)"
  shows "trim s = s"
proof -
  from assms have "dropWhile isWhiteSpace s = s" by (cases s) auto
  moreover from dropTrailing_keep [of s isWhiteSpace "[]"] assms
  have "dropTrailing isWhiteSpace s = s" by simp
  ultimately show ?thesis by (simp add: trim_def)
qed


lemma space_not_colon: "isWhiteSpace c \<Longrightarrow> \<not> isColon c"
  by (auto simp: isWhiteSpace_def isColon_def)

lemma parseInline_form:
  assumes name: "name \<noteq> []" "trim name = name" "\<forall>c\<in>set name. \<not> isColon c"
      "length name \<le> 60" "CHARACTER_RE (name @ [58])"
    and tx: "text \<noteq> []" "trim text = text" "\<forall>c\<in>set text. \<not> isLineTerminator c"
    and gaps: "\<forall>c\<in>set gap1. isWhiteSpace c" "\<forall>c\<in>set gap2. isWhiteSpace c"
    and colon: "isColon colon"
  shows "parseInlineCharacterDialogue (name @ gap1 @ colon # gap2 @ text) = Some (name, text)"
proof -
  let ?L = "name @ gap1 @ colon # gap2 @ text"
  let ?notColon = "\<lambda>c. \<not> isColon c"
  from trim_fixed_ends [OF name(2) name(1)]
  have hn: "\<not> isWhiteSpace (hd name)" and ln: "\<not> isWhiteSpace (last name)" by simp_all
  from trim_fixed_ends [OF tx(2) tx(1)]
  have ht: "\<not> isWhiteSpace (hd text)" and lt: "\<not> isWhiteSpace (last text)" by simp_all
  have tL: "trim ?L = ?L"
    by (rule trim_keep) (use name(1) tx(1) hn lt in simp_all)
  have L: "?L = (name @ gap1) @ colon # (gap2 @ text)" by simp
  have all: "\<forall>c\<in>set (name @ gap1). ?notColon c"
    using name(3) gaps(1) space_not_colon by auto
  have pre: "takeWhile ?notColon ?L = name @ gap1"
    unfolding L using colon all by (simp add: takeWhile_tail)
  have post: "dropWhile ?notColon ?L = colon # gap2 @ text"
    unfolding L using colon all by (simp add: dropWhile_append3)
  have n: "dropTrailing isWhiteSpace (name @ gap1) = name"
    by (rule dropTrailing_keep [OF name(1) ln gaps(1)])
  have rest: "dropWhile isWhiteSpace (gap2 @ text) = text"
    using gaps(2) ht tx(1) by (cases "text") (simp_all add: dropWhile_append2)
  have len: "max 1 (length name) = length name" using name(1) by (cases name) simp_all
  show ?thesis
    apply (simp only: parseInlineCharacterDialogue_def tL Let_def pre post list.case n rest)
    using name tx len by (simp add: list_ex_iff)
qed

section \<open>The inline split\<close>

text \<open>
  Claim C3 says that every line of the form NAME: TEXT whose NAME satisfies the character
  expression is split.  It is not when a line terminator occurs in TEXT (the dot of the
  inline expression does not match it): with a carriage return in the reply, the line of
  the example is pasted as one action block.
\<close>

theorem handlePaste_inline_split_counterexample:
  "CHARACTER_RE (name_ali @ [58]) \<and>
   handlePaste asciiToLower line_ali_cr True None [] =
     Returns (Some
       [LineBlock \<lparr> className = ascii ''format-action'', textContent = line_ali_cr,
                     marginTop = Some (ascii ''14pt'') \<rparr>])"
  by code_simp

text \<open>
  Claim C3, amended.  Let the trimmed line, after its leading bullets are stripped, be
  NAME, spaces, a colon (ASCII or full-width), spaces and TEXT, where NAME is not empty,
  has no colon, no space at either end and at most 60 code units, and satisfies the
  character expression with a colon appended, and TEXT is not empty, has no space at
  either end and no line terminator.  Then the loop body of \<open>handlePaste\<close>, at any index and
  in any state, appends a character block with the text NAME and a dialogue block with the
  text TEXT, the second with the top margin \<^verbatim>\<open>"0"\<close>, and records the labels character and
  dialogue.
\<close>

theorem handlePaste_inline_split:
  assumes name: "name \<noteq> []" "trim name = name" "\<forall>c\<in>set name. \<not> isColon c"
      "length name \<le> 60" "CHARACTER_RE (name @ [58])"
    and tx: "text \<noteq> []" "trim text = text" "\<forall>c\<in>set text. \<not> isLineTerminator c"
    and gaps: "\<forall>c\<in>set gap1. isWhiteSpace c" "\<forall>c\<in>set gap2. isWhiteSpace c"
    and colon: "isColon colon"
    and line: "stripLeadingBullets (trim (lineAt lines i)) = name @ gap1 @ colon # gap2 @ text"
  shows "pasteLine lc lines mgr sid i st =
           Returns \<lparr> formattedHTML = formattedHTML st @
                       [LineBlock \<lparr> className = ascii ''format-character'', textContent = name,
                                     marginTop = truthy (Some (getSpacingMarginTop
                                                   (previousFormatClass st) L_character)) \<rparr>,
                        LineBlock \<lparr> className = ascii ''format-dialogue'', textContent = text,
                                     marginTop = Some (ascii ''0'') \<rparr>],
                     previousFormatClass = L_dialogue,
                     classifiedTypes = classifiedTypes st @ [L_character, L_dialogue] \<rparr>"
proof -
  have p: "parseInlineCharacterDialogue (stripLeadingBullets (trim (lineAt lines i))) =
             Some (name, text)"
    unfolding line by (rule parseInline_form [OF name tx gaps colon])
  have ne: "trim (lineAt lines i) \<noteq> []"
  proof
    assume "trim (lineAt lines i) = []"
    then have "stripLeadingBullets (trim (lineAt lines i)) = []"
      by (simp add: stripLeadingBullets_def afterLeadingBullets_def)
    with line name(1) show False by simp
  qed
  show ?thesis
    using p ne
    by (simp add: pasteLine_def Let_def emitInline_def buildLineDivHTML_def truthy_def ascii_def)
qed


text \<open>The example of the specification, through the theorem and through \<open>handlePaste\<close>.\<close>

theorem handlePaste_inline_split_witness:
  "pasteLine asciiToLower [line_ali_where] None [] 0 initialPasteState =
     Returns \<lparr> formattedHTML =
                 [LineBlock \<lparr> className = ascii ''format-character'', textContent = name_ali,
                               marginTop = Some (ascii ''14pt'') \<rparr>,
                  LineBlock \<lparr> className = ascii ''format-dialogue'', textContent = text_where,
                               marginTop = Some (ascii ''0'') \<rparr>],
               previousFormatClass = L_dialogue,
               classifiedTypes = [L_character, L_dialogue] \<rparr> \<and>
   handlePaste asciiToLower line_ali_where True None [] =
     Returns (Some
       [LineBlock \<lparr> className = ascii ''format-character'', textContent = name_ali,
                     marginTop = Some (ascii ''14pt'') \<rparr>,
        LineBlock \<lparr> className = ascii ''format-dialogue'', textContent = text_where,
                     marginTop = Some (ascii ''0'') \<rparr>])"
proof -
  have n: "name_ali \<noteq> []" "trim name_ali = name_ali" "\<forall>c\<in>set name_ali. \<not> isColon c"
    "length name_ali \<le> 60" "CHARACTER_RE (name_ali @ [58])"
    by code_simp+
  have t: "text_where \<noteq> []" "trim text_where = text_where"
    "\<forall>c\<in>set text_where. \<not> isLineTerminator c"
    by code_simp+
  have g: "\<forall>c\<in>set []. isWhiteSpace c" "\<forall>c\<in>set [32]. isWhiteSpace c" "isColon 58"
    by code_simp+
  have l: "stripLeadingBullets (trim (lineAt [line_ali_where] 0)) =
             name_ali @ [] @ 58 # [32] @ text_where"
    by code_simp
  have m: "truthy (Some (getSpacingMarginTop (previousFormatClass initialPasteState) L_character))
             = Some (ascii ''14pt'')"
    by code_simp
  have e: "formattedHTML initialPasteState = []" "classifiedTypes initialPasteState = []"
    by (simp_all add: initialPasteState_def)
  have h: "handlePaste asciiToLower line_ali_where True None [] =
     Returns (Some
       [LineBlock \<lparr> className = ascii ''format-character'', textContent = name_ali,
                     marginTop = Some (ascii ''14pt'') \<rparr>,
        LineBlock \<lparr> className = ascii ''format-dialogue'', textContent = text_where,
                     marginTop = Some (ascii ''0'') \<rparr>])"
    by code_simp
  from handlePaste_inline_split [OF n t g l, of asciiToLower None "[]" initialPasteState] h
  show ?thesis by (simp add: m e)
qed

section \<open>A complete scene header that does not split\<close>

text \<open>
  Claim C8 says that a line classified scene-header-top-line whose split gives nothing is
  emitted as one scene-header-1 block.  It is emitted as one block, and nothing is thrown,
  but the block keeps the label scene-header-top-line: the classifier normalises the line
  (here it drops a vowel mark) and \<open>splitSceneHeader\<close> reads the line as it is.
\<close>

theorem handlePaste_unsplit_header_counterexample:
  "classifyWithContext line_scene_marked (buildContext [line_scene_marked] 0 []) = L_top_line \<and>
   splitSceneHeader line_scene_marked = None \<and>
   handlePaste asciiToLower line_scene_marked True None [] =
     Returns (Some
       [LineBlock \<lparr> className = ascii ''format-scene-header-top-line'',
                     textContent = line_scene_marked, marginTop = None \<rparr>])"
  by code_simp

text \<open>
  Claim C8, amended.  For a line that reaches the classification (it is not blank and not
  split inline), is classified scene-header-top-line and for which \<open>splitSceneHeader\<close>
  returns \<^verbatim>\<open>null\<close>, the loop body returns without throwing and appends one line block:
  its class is \<^verbatim>\<open>format-scene-header-top-line\<close>, its text the stripped line, its margin the
  one of the spacing rules for scene-header-top-line; the label recorded is
  scene-header-top-line.
\<close>

theorem handlePaste_unsplit_header:
  assumes "trim (lineAt lines i) \<noteq> []"
    and "parseInlineCharacterDialogue (stripLeadingBullets (trim (lineAt lines i))) = None"
    and "classifyWithContextAndMemory lc (stripLeadingBullets (trim (lineAt lines i)))
           (buildContext lines i (classifiedTypes st)) mgr sid = Returns L_top_line"
    and "splitSceneHeader (stripLeadingBullets (trim (lineAt lines i))) = None"
  shows "pasteLine lc lines mgr sid i st =
           Returns \<lparr> formattedHTML = formattedHTML st @
                       [LineBlock \<lparr> className = ascii ''format-scene-header-top-line'',
                                     textContent = stripLeadingBullets (trim (lineAt lines i)),
                                     marginTop = truthy (Some (getSpacingMarginTop
                                                   (previousFormatClass st) L_top_line)) \<rparr>],
                     previousFormatClass = L_top_line,
                     classifiedTypes = classifiedTypes st @ [L_top_line] \<rparr>"
  using assms
  by (simp add: pasteLine_def Let_def emitClassified_def emitLine_def buildLineDivHTML_def
        L_top_line_def ascii_def)


theorem handlePaste_unsplit_header_witness:
  "pasteLine asciiToLower [line_scene_marked] None [] 0 initialPasteState =
     Returns \<lparr> formattedHTML =
                 [LineBlock \<lparr> className = ascii ''format-scene-header-top-line'',
                               textContent = line_scene_marked, marginTop = None \<rparr>],
               previousFormatClass = L_top_line,
               classifiedTypes = [L_top_line] \<rparr>"
proof -
  have a: "trim (lineAt [line_scene_marked] 0) \<noteq> []"
    "parseInlineCharacterDialogue (stripLeadingBullets (trim (lineAt [line_scene_marked] 0))) = None"
    "splitSceneHeader (stripLeadingBullets (trim (lineAt [line_scene_marked] 0))) = None"
    by code_simp+
  have c: "classifyWithContextAndMemory asciiToLower
             (stripLeadingBullets (trim (lineAt [line_scene_marked] 0)))
             (buildContext [line_scene_marked] 0 (classifiedTypes initialPasteState)) None [] =
           Returns L_top_line"
    by code_simp
  have s: "stripLeadingBullets (trim (lineAt [line_scene_marked] 0)) = line_scene_marked"
    by code_simp
  have m: "truthy (Some (getSpacingMarginTop (previousFormatClass initialPasteState) L_top_line))
             = None"
    by code_simp
  have e: "formattedHTML initialPasteState = []" "classifiedTypes initialPasteState = []"
    by (simp_all add: initialPasteState_def)
  from handlePaste_unsplit_header [OF a(1) a(2) c a(3)]
  show ?thesis by (simp add: s m e)
qed

section \<open>The basmala\<close>

lemma startsWith_skip_suffix:
  assumes "set q \<inter> set tok = {}"
  shows "startsWith (x @ q) tok = startsWith x tok"
  using assms
proof (induction x tok rule: startsWith.induct)
  case (1 s)
  then show ?case by simp
next
  case (2 p ps)
  then show ?case by (cases q) auto
next
  case (3 c cs p ps)
  then show ?case by auto
qed

lemma includesStr_skip_prefix:
  assumes "tok \<noteq> []" and "set p \<inter> set tok = {}"
  shows "includesStr (p @ s) tok = includesStr s tok"
  using assms
proof (induction p)
  case Nil
  then show ?case by simp
next
  case (Cons c p)
  from Cons.prems obtain t ts where tok: "tok = t # ts" by (cases tok) auto
  with Cons.prems have "c \<noteq> t" by auto
  then have "\<not> startsWith (c # p @ s) tok" by (simp add: tok)
  with Cons show ?case by simp
qed

lemma includesStr_skip_suffix:
  assumes "tok \<noteq> []" and "set q \<inter> set tok = {}"
  shows "includesStr (s @ q) tok = includesStr s tok"
proof (induction s)
  case Nil
  from includesStr_skip_prefix [OF assms, of "[]"] assms(1) show ?case by simp
next
  case (Cons c s)
  from startsWith_skip_suffix [OF assms(2), of "c # s"] Cons show ?case by simp
qed

lemma includesStr_dropWhile:
  assumes "tok \<noteq> []" and "\<forall>c\<in>set tok. \<not> P c"
  shows "includesStr (filter F (dropWhile P x)) tok = includesStr (filter F x) tok"
proof -
  have "filter F x = filter F (takeWhile P x) @ filter F (dropWhile P x)"
    by (metis filter_append takeWhile_dropWhile_id)
  moreover have "set (filter F (takeWhile P x)) \<inter> set tok = {}"
    using assms(2) by (auto dest: set_takeWhileD)
  ultimately show ?thesis using includesStr_skip_prefix [OF assms(1)] by metis
qed

lemma includesStr_dropTrailing:
  assumes "tok \<noteq> []" and "\<forall>c\<in>set tok. \<not> P c"
  shows "includesStr (filter F (dropTrailing P x)) tok = includesStr (filter F x) tok"
proof -
  have "x = dropTrailing P x @ rev (takeWhile P (rev x))"
    unfolding dropTrailing_def by (metis rev_append rev_rev_ident takeWhile_dropWhile_id)
  then have "filter F x = filter F (dropTrailing P x) @ filter F (rev (takeWhile P (rev x)))"
    by (metis filter_append)
  moreover have "set (filter F (rev (takeWhile P (rev x)))) \<inter> set tok = {}"
    using assms(2) by (auto dest: set_takeWhileD)
  ultimately show ?thesis using includesStr_skip_suffix [OF assms(1)] by metis
qed

lemma includesStr_trim:
  assumes "tok \<noteq> []" and "\<forall>c\<in>set tok. \<not> isWhiteSpace c"
  shows "includesStr (filter F (trim x)) tok = includesStr (filter F x) tok"
  by (simp add: trim_def includesStr_dropTrailing [OF assms] includesStr_dropWhile [OF assms])

lemma includesStr_afterLeadingBullets:
  assumes "tok \<noteq> []" and "\<forall>c\<in>set tok. \<not> isLeadingMark c"
    and "\<forall>c\<in>set tok. \<not> isBulletOrHyphen c" and "afterLeadingBullets x = Some r"
  shows "includesStr (filter F r) tok = includesStr (filter F x) tok"
proof -
  from assms(4) obtain c cs where d: "dropWhile isLeadingMark x = c # cs"
    and c: "isBulletOrHyphen c" and r: "r = dropWhile isBulletOrHyphen cs"
    by (auto simp: afterLeadingBullets_def split: list.splits if_splits)
  from c r have "r = dropWhile isBulletOrHyphen (dropWhile isLeadingMark x)" by (simp add: d)
  then show ?thesis
    by (simp add: includesStr_dropWhile [OF assms(1,3)] includesStr_dropWhile [OF assms(1,2)])
qed

lemma includesStr_stripLeadingBullets:
  assumes "tok \<noteq> []" and "\<forall>c\<in>set tok. \<not> isLeadingMark c"
    and "\<forall>c\<in>set tok. \<not> isBulletOrHyphen c" and "\<forall>c\<in>set tok. \<not> isWhiteSpace c"
  shows "includesStr (filter F (stripLeadingBullets x)) tok = includesStr (filter F x) tok"
  by (auto simp: stripLeadingBullets_def includesStr_dropWhile [OF assms(1,4)]
        includesStr_afterLeadingBullets [OF assms(1,2,3)] split: option.splits)

lemma includesStr_normalizeLine:
  assumes "tok \<noteq> []" and "\<forall>c\<in>set tok. \<not> isLeadingMark c"
    and "\<forall>c\<in>set tok. \<not> isBulletOrHyphen c" and "\<forall>c\<in>set tok. \<not> isWhiteSpace c"
  shows "includesStr (filter F (normalizeLine x)) tok =
         includesStr (filter (\<lambda>c. \<not> isDiacritic c \<and> \<not> (isDirectionMark c \<or> c = 9) \<and> F c) x) tok"
proof -
  let ?b = "filter (\<lambda>c. \<not> (isDirectionMark c \<or> c = 9)) (filter (\<lambda>c. \<not> isDiacritic c) x)"
  have "includesStr (filter F (normalizeLine x)) tok = includesStr (filter F ?b) tok"
    by (auto simp: normalizeLine_def Let_def includesStr_trim [OF assms(1,4)]
          includesStr_afterLeadingBullets [OF assms(1,2,3)] split: option.splits)
  also have "filter F ?b = filter (\<lambda>c. \<not> isDiacritic c \<and> \<not> (isDirectionMark c \<or> c = 9) \<and> F c) x"
    by (simp add: conj_commute conj_left_commute)
  finally show ?thesis .
qed

lemma includesStr_basmala_compact:
  assumes "tok \<noteq> []" and "\<forall>c\<in>set tok. \<not> isLeadingMark c"
    and "\<forall>c\<in>set tok. \<not> isBulletOrHyphen c" and "\<forall>c\<in>set tok. \<not> isWhiteSpace c"
  shows "includesStr (filter (\<lambda>c. isArabic c \<or> isWhiteSpace c)
           (normalizeLine (trim (filter (\<lambda>c. \<not> isDirectionMark c)
              (filter (\<lambda>c. \<not> isBracket c) line))))) tok =
         includesStr (filter basmalaKeeps line) tok"
proof -
  have "filter (\<lambda>c. \<not> isDiacritic c \<and> \<not> (isDirectionMark c \<or> c = 9) \<and> (isArabic c \<or> isWhiteSpace c))
          (filter (\<lambda>c. \<not> isDirectionMark c) (filter (\<lambda>c. \<not> isBracket c) line)) =
        filter basmalaKeeps line"
    by (auto simp: basmalaKeeps_def intro: filter_cong)
  then show ?thesis
    by (simp only: includesStr_normalizeLine [OF assms] includesStr_trim [OF assms(1,4)])
qed

lemma fragment_chars:
  "W_bsm \<noteq> []" "W_allah \<noteq> []" "W_alrahman \<noteq> []" "W_alrahi \<noteq> []"
  "\<forall>c\<in>set W_bsm. \<not> isLeadingMark c" "\<forall>c\<in>set W_bsm. \<not> isBulletOrHyphen c" "\<forall>c\<in>set W_bsm. \<not> isWhiteSpace c"
  "\<forall>c\<in>set W_allah. \<not> isLeadingMark c" "\<forall>c\<in>set W_allah. \<not> isBulletOrHyphen c" "\<forall>c\<in>set W_allah. \<not> isWhiteSpace c"
  "\<forall>c\<in>set W_alrahman. \<not> isLeadingMark c" "\<forall>c\<in>set W_alrahman. \<not> isBulletOrHyphen c" "\<forall>c\<in>set W_alrahman. \<not> isWhiteSpace c"
  "\<forall>c\<in>set W_alrahi. \<not> isLeadingMark c" "\<forall>c\<in>set W_alrahi. \<not> isBulletOrHyphen c" "\<forall>c\<in>set W_alrahi. \<not> isWhiteSpace c"
  by (simp_all add: W_bsm_def W_allah_def W_alrahman_def W_alrahi_def isLeadingMark_def
        isBulletOrHyphen_def isBullet_def isWhiteSpace_def)

lemma isBasmala_compact:
  "isBasmala line \<longleftrightarrow>
     includesStr (filter basmalaKeeps line) W_bsm \<and> includesStr (filter basmalaKeeps line) W_allah \<and>
     (includesStr (filter basmalaKeeps line) W_alrahman \<or> includesStr (filter basmalaKeeps line) W_alrahi)"
  unfolding isBasmala_def Let_def
  by (simp only: includesStr_basmala_compact [OF fragment_chars(1,5,6,7)]
        includesStr_basmala_compact [OF fragment_chars(2,8,9,10)]
        includesStr_basmala_compact [OF fragment_chars(3,11,12,13)]
        includesStr_basmala_compact [OF fragment_chars(4,14,15,16)])

lemma isBasmala_stripped:
  "isBasmala (stripLeadingBullets (trim line)) = isBasmala line"
  unfolding isBasmala_compact
  by (simp only: includesStr_stripLeadingBullets [OF fragment_chars(1,5,6,7)]
        includesStr_stripLeadingBullets [OF fragment_chars(2,8,9,10)]
        includesStr_stripLeadingBullets [OF fragment_chars(3,11,12,13)]
        includesStr_stripLeadingBullets [OF fragment_chars(4,14,15,16)]
        includesStr_trim [OF fragment_chars(1,7)] includesStr_trim [OF fragment_chars(2,10)]
        includesStr_trim [OF fragment_chars(3,13)] includesStr_trim [OF fragment_chars(4,16)])

lemma isBasmala_empty: "\<not> isBasmala []"
  by code_simp

lemma adjustWithMemory_basmala:
  "adjustWithMemory lc s ctx memory L_basmala = L_basmala \<longleftrightarrow>
     \<not> (isShort (stats ctx) \<and> \<not> hasPunctuation (stats ctx) \<and> wordCount (stats ctx) \<le> 3 \<and>
        length s < 40 \<and>
        (\<exists>k. find (\<lambda>char. includesStr (lc char)
                               (lc (filter (\<lambda>c. \<not> isColon c) (normalizeLine s))) \<or>
                             includesStr (lc (filter (\<lambda>c. \<not> isColon c) (normalizeLine s)))
                               (lc char))
                (commonCharacters (memoryData memory)) = Some k \<and> k \<noteq> [])) \<and>
     \<not> (startsWith (joinWith [45] (take 3 (lastClassifications (memoryData memory))))
           (ascii ''character-dialogue'') \<and>
        lastOf (previousTypes ctx) = Some L_dialogue \<and> \<not> hasColon (stats ctx) \<and>
        isLikelyAction s) \<and>
     \<not> (joinWith [45] (take 3 (lastClassifications (memoryData memory))) =
           ascii ''dialogue-dialogue-dialogue'' \<and>
        lastOf (previousTypes ctx) = Some L_dialogue \<and> \<not> hasColon (stats ctx) \<and>
        \<not> isCompleteSceneHeader s) \<and>
     \<not> (joinWith [45] (take 3 (lastClassifications (memoryData memory))) =
           ascii ''action-action-action'' \<and>
        lastOf (previousTypes ctx) = Some L_action \<and> isLong (stats ctx))"
  by (auto simp: adjustWithMemory_def Let_def labels_ne labels_ne[symmetric]
           split: option.splits)

lemma emitClassified_types:
  "classifiedTypes (emitClassified st c s) = classifiedTypes st @ [c]"
  by (simp add: emitClassified_def emitLine_def emitTopLine_def Let_def split: option.splits)

lemma emitClassified_basmala:
  "emitClassified st L_basmala s =
     \<lparr> formattedHTML = formattedHTML st @
         [LineBlock \<lparr> className = ascii ''format-basmala'', textContent = s,
                       marginTop = truthy (Some (getSpacingMarginTop
                                     (previousFormatClass st) L_basmala)) \<rparr>],
       previousFormatClass = L_basmala,
       classifiedTypes = classifiedTypes st @ [L_basmala] \<rparr>"
proof -
  have cls: "ascii ''format-basmala'' = ascii ''format-'' @ L_basmala"
    by (simp add: ascii_def L_basmala_def)
  show ?thesis
    by (simp add: emitClassified_def emitLine_def buildLineDivHTML_def Let_def
          labels_ne labels_ne[symmetric] cls)
qed

text \<open>
  Claim C2 says that the pipeline labels every line that passes the basmala test basmala.
  It does not when the line is split inline first (a basmala with a colon after its second
  fragment becomes a character and a dialogue block), nor when the memory adjuster
  overrides the label (after a dialogue line, with three dialogue labels in the memory,
  the basmala is pasted as dialogue).
\<close>

theorem handlePaste_basmala_counterexample:
  "isBasmala line_basmala_colon \<and>
   handlePaste asciiToLower line_basmala_colon True None [] =
     Returns (Some
       [LineBlock \<lparr> className = ascii ''format-character'', textContent = W_bsm @ [32] @ W_allah,
                     marginTop = Some (ascii ''14pt'') \<rparr>,
        LineBlock \<lparr> className = ascii ''format-dialogue'', textContent = W_alrahman,
                     marginTop = Some (ascii ''0'') \<rparr>]) \<and>
   isBasmala line_basmala \<and>
   handlePaste asciiToLower text_reply_then_basmala True (Some loadThreeDialogues) [] =
     Returns (Some
       [LineBlock \<lparr> className = ascii ''format-character'', textContent = name_ali,
                     marginTop = Some (ascii ''14pt'') \<rparr>,
        LineBlock \<lparr> className = ascii ''format-dialogue'', textContent = [0x646, 0x639, 0x645],
                     marginTop = Some (ascii ''0'') \<rparr>,
        LineBlock \<lparr> className = ascii ''format-dialogue'', textContent = line_basmala,
                     marginTop = None \<rparr>])"
  by code_simp

text \<open>
  Claim C2, amended.  \<open>classifyWithContext\<close> labels every line that passes the basmala test
  basmala, in every context, and it does so for the line trimmed and stripped of its
  bullets as well.  In \<open>handlePaste\<close>, for every line that passes the test, at every index
  and in every state of the loop, the loop body appends one block of class
  \<^verbatim>\<open>format-basmala\<close> and records the label basmala exactly when the stripped line is not
  split inline and, if a memory is loaded for the session, none of its four overrides
  applies: a known character (the line is short, has no punctuation, at most three words
  and fewer than 40 characters, and the first name of \<open>commonCharacters\<close> that contains the
  line or is contained in it is not empty); an action after a character and a dialogue
  (the three most recent stored labels begin with character-dialogue, the previous label
  is dialogue, the line has no colon and is likely an action); a fourth dialogue (the
  stored labels are three dialogues, the previous label is dialogue, the line has no colon
  and is not a complete scene header); a fourth action (the stored labels are three
  actions, the previous label is action and the line is long).
\<close>

theorem handlePaste_basmala:
  assumes basmala: "isBasmala (lineAt lines i)"
  shows
    "(\<forall>c. classifyWithContext (lineAt lines i) c = L_basmala) \<and>
     (\<forall>c. classifyWithContext (stripLeadingBullets (trim (lineAt lines i))) c = L_basmala) \<and>
     (pasteLine lc lines mgr sid i st =
        Returns \<lparr> formattedHTML = formattedHTML st @
                    [LineBlock \<lparr> className = ascii ''format-basmala'',
                                  textContent = stripLeadingBullets (trim (lineAt lines i)),
                                  marginTop = truthy (Some (getSpacingMarginTop
                                                (previousFormatClass st) L_basmala)) \<rparr>],
                  previousFormatClass = L_basmala,
                  classifiedTypes = classifiedTypes st @ [L_basmala] \<rparr>
      \<longleftrightarrow>
        parseInlineCharacterDialogue (stripLeadingBullets (trim (lineAt lines i))) = None \<and>
        (\<forall>load memory. mgr = Some load \<and> load sid = Returns (Some memory) \<longrightarrow>
           \<not> (isShort (stats (buildContext lines i (classifiedTypes st))) \<and>
              \<not> hasPunctuation (stats (buildContext lines i (classifiedTypes st))) \<and>
              wordCount (stats (buildContext lines i (classifiedTypes st))) \<le> 3 \<and>
              length (stripLeadingBullets (trim (lineAt lines i))) < 40 \<and>
              (\<exists>k. find (\<lambda>char.
                       includesStr (lc char)
                         (lc (filter (\<lambda>c. \<not> isColon c)
                                (normalizeLine (stripLeadingBullets (trim (lineAt lines i)))))) \<or>
                       includesStr
                         (lc (filter (\<lambda>c. \<not> isColon c)
                                (normalizeLine (stripLeadingBullets (trim (lineAt lines i))))))
                         (lc char))
                     (commonCharacters (memoryData memory)) = Some k \<and> k \<noteq> [])) \<and>
           \<not> (startsWith (joinWith [45] (take 3 (lastClassifications (memoryData memory))))
                 (ascii ''character-dialogue'') \<and>
              lastOf (classifiedTypes st) = Some L_dialogue \<and>
              \<not> hasColon (stats (buildContext lines i (classifiedTypes st))) \<and>
              isLikelyAction (stripLeadingBullets (trim (lineAt lines i)))) \<and>
           \<not> (joinWith [45] (take 3 (lastClassifications (memoryData memory))) =
                 ascii ''dialogue-dialogue-dialogue'' \<and>
              lastOf (classifiedTypes st) = Some L_dialogue \<and>
              \<not> hasColon (stats (buildContext lines i (classifiedTypes st))) \<and>
              \<not> isCompleteSceneHeader (stripLeadingBullets (trim (lineAt lines i)))) \<and>
           \<not> (joinWith [45] (take 3 (lastClassifications (memoryData memory))) =
                 ascii ''action-action-action'' \<and>
              lastOf (classifiedTypes st) = Some L_action \<and>
              isLong (stats (buildContext lines i (classifiedTypes st))))))"
proof -
  let ?s = "stripLeadingBullets (trim (lineAt lines i))"
  let ?ctx = "buildContext lines i (classifiedTypes st)"
  let ?block = "\<lparr> formattedHTML = formattedHTML st @
                    [LineBlock \<lparr> className = ascii ''format-basmala'', textContent = ?s,
                                  marginTop = truthy (Some (getSpacingMarginTop
                                                (previousFormatClass st) L_basmala)) \<rparr>],
                  previousFormatClass = L_basmala,
                  classifiedTypes = classifiedTypes st @ [L_basmala] \<rparr>"
  from basmala have b: "isBasmala ?s" by (simp add: isBasmala_stripped)
  have ne: "trim (lineAt lines i) \<noteq> []"
  proof
    assume "trim (lineAt lines i) = []"
    then have "?s = []" by (simp add: stripLeadingBullets_def afterLeadingBullets_def)
    with b isBasmala_empty show False by simp
  qed
  from basmala have g1: "\<forall>c. classifyWithContext (lineAt lines i) c = L_basmala"
    by (simp add: classifyWithContext_def Let_def)
  from b have g2: "\<forall>c. classifyWithContext ?s c = L_basmala"
    by (simp add: classifyWithContext_def Let_def)
  have prev: "previousTypes ?ctx = classifiedTypes st"
    by (simp add: buildContext_def Let_def)
  have emit: "emitClassified st c ?s = ?block \<longleftrightarrow> c = L_basmala" for c
  proof
    assume "emitClassified st c ?s = ?block"
    then have "classifiedTypes (emitClassified st c ?s) = classifiedTypes st @ [L_basmala]"
      by simp
    then show "c = L_basmala" by (simp add: emitClassified_types)
  next
    assume "c = L_basmala"
    then show "emitClassified st c ?s = ?block" by (simp add: emitClassified_basmala)
  qed
  have g3: "pasteLine lc lines mgr sid i st = Returns ?block \<longleftrightarrow>
      parseInlineCharacterDialogue ?s = None \<and>
      (\<forall>load memory. mgr = Some load \<and> load sid = Returns (Some memory) \<longrightarrow>
         adjustWithMemory lc ?s ?ctx memory L_basmala = L_basmala)"
  proof (cases "parseInlineCharacterDialogue ?s")
    case (Some p)
    obtain n t where p: "p = (n, t)" by (cases p)
    have "classifiedTypes (emitInline st n t) \<noteq> classifiedTypes st @ [L_basmala]"
      by (simp add: emitInline_def Let_def)
    then have "emitInline st n t \<noteq> ?block" by auto
    with Some p ne show ?thesis by (simp add: pasteLine_def Let_def)
  next
    case None
    show ?thesis
    proof (cases mgr)
      case N: None
      with None ne g2 show ?thesis
        by (simp add: pasteLine_def Let_def classifyWithContextAndMemory_def emit)
    next
      case S: (Some load)
      show ?thesis
      proof (cases "load sid")
        case Throws
        with None S ne g2 show ?thesis
          by (simp add: pasteLine_def Let_def classifyWithContextAndMemory_def emit)
      next
        case (Returns r)
        with None S ne g2 show ?thesis
          by (cases r) (simp_all add: pasteLine_def Let_def classifyWithContextAndMemory_def emit)
      qed
    qed
  qed
  from g1 g2 g3 show ?thesis
    by (simp only: adjustWithMemory_basmala prev) blast
qed

theorem handlePaste_basmala_witness:
  "isBasmala (lineAt [line_basmala] 0) \<and>
   loadThreeDialogues [] = Returns (Some threeDialogues) \<and>
   pasteLine asciiToLower [line_basmala] (Some loadThreeDialogues) [] 0 initialPasteState =
     Returns \<lparr> formattedHTML =
                 [LineBlock \<lparr> className = ascii ''format-basmala'', textContent = line_basmala,
                               marginTop = None \<rparr>],
               previousFormatClass = L_basmala,
               classifiedTypes = [L_basmala] \<rparr>"
proof -
  have b: "isBasmala (lineAt [line_basmala] 0)" by code_simp
  have l: "loadThreeDialogues [] = Returns (Some threeDialogues)"
    by (simp add: loadThreeDialogues_def)
  have p: "parseInlineCharacterDialogue (stripLeadingBullets (trim (lineAt [line_basmala] 0))) = None"
    by code_simp
  have k: "commonCharacters (memoryData threeDialogues) = []"
      "lastOf (classifiedTypes initialPasteState) = None"
      "\<not> startsWith (joinWith [45] (take 3 (lastClassifications (memoryData threeDialogues))))
           (ascii ''character-dialogue'')"
    by code_simp+
  have s: "stripLeadingBullets (trim (lineAt [line_basmala] 0)) = line_basmala"
    by code_simp
  have m: "truthy (Some (getSpacingMarginTop (previousFormatClass initialPasteState) L_basmala))
             = None"
    by code_simp
  have e: "formattedHTML initialPasteState = []" "classifiedTypes initialPasteState = []"
    by (simp_all add: initialPasteState_def)
  from handlePaste_basmala [OF b, of asciiToLower "Some loadThreeDialogues" "[]" initialPasteState]
    p k l b
  show ?thesis by (simp add: s m e)
qed

section \<open>The heap of the memory manager\<close>

lemma cellAt_append:
  "cellAt (h @ xs) a = (if a < length h then cellAt h a else cellAt xs (a - length h))"
  by (auto simp: cellAt_def nth_append)

lemma cellAt_update:
  "cellAt (h[b := v]) a = (if a = b \<and> b < length h then Some v else cellAt h a)"
  by (auto simp: cellAt_def)

lemma cellAt_Some_less: "cellAt h a = Some c \<Longrightarrow> a < length h"
  by (auto simp: cellAt_def split: if_splits)

lemma reach_less:
  assumes "readMemory h a = Some v"
  shows "\<forall>b\<in>set (reach h a). b < length h"
  using assms
  by (auto simp: readMemory_def readData_def reach_def arrayAt_def dictAt_def
        split: option.splits cell.splits dest: cellAt_Some_less)

lemma read_same:
  assumes "readMemory h a = Some v" and "\<forall>b\<in>set (reach h a). cellAt h' b = cellAt h b"
  shows "readMemory h' a = Some v \<and> reach h' a = reach h a"
  using assms
  by (auto simp: readMemory_def readData_def reach_def arrayAt_def dictAt_def
        split: option.splits cell.splits)

lemma read_below:
  assumes "readMemory h a = Some v" and "\<forall>b < length h. cellAt h' b = cellAt h b"
  shows "readMemory h' a = Some v" and "reach h' a = reach h a"
  using read_same [OF assms(1), of h'] reach_less [OF assms(1)] assms(2) by auto

lemma alloc_read:
  "readMemory (fst (allocMemory h v)) (snd (allocMemory h v)) = Some v"
  by (simp add: allocMemory_def Let_def readMemory_def readData_def arrayAt_def dictAt_def
        cellAt_def nth_append)

lemma alloc_reach:
  "reach (fst (allocMemory h v)) (snd (allocMemory h v)) =
     [length h + 5, length h + 4, length h, length h + 1, length h + 2, length h + 3]"
  by (simp add: allocMemory_def Let_def reach_def cellAt_def nth_append)

lemma alloc_below:
  "b < length h \<Longrightarrow> cellAt (fst (allocMemory h v)) b = cellAt h b"
  by (simp add: allocMemory_def Let_def cellAt_def nth_append)

lemma alloc_length: "length (fst (allocMemory h v)) = length h + 6"
  by (simp add: allocMemory_def Let_def)

lemma jsonCopy_Returns:
  assumes "jsonCopy h a = Returns (h', r)"
  shows "\<exists>v. readMemory h a = Some v \<and> h' = fst (allocMemory h v) \<and> r = snd (allocMemory h v)"
  using assms by (auto simp: jsonCopy_def split: option.splits)

lemma update_above:
  assumes "length h \<le> a" and "b < length h"
  shows "cellAt ((h @ xs)[a := c]) b = cellAt h b"
  using assms by (simp add: cellAt_update cellAt_append)


lemma stored_read:
  assumes "storeClosed w" and "storage w s = Some b"
  obtains u where "readMemory (objects w) b = Some u"
  using assms by (auto simp: storeClosed_def)

lemma storeContents_same:
  assumes closed: "storeClosed w" and st: "storage w' = storage w"
    and below: "\<forall>x < length (objects w). cellAt (objects w') x = cellAt (objects w) x"
  shows "storeContents w' s = storeContents w s"
proof (cases "storage w s")
  case None
  with st show ?thesis by (simp add: storeContents_def)
next
  case (Some b)
  from stored_read [OF closed Some] obtain u where u: "readMemory (objects w) b = Some u" .
  from read_below(1) [OF u below] u Some st show ?thesis by (simp add: storeContents_def)
qed

lemma loadContext_Some:
  assumes "loadContext w sid = Returns (w', Some r)"
  obtains a v where "storage w sid = Some a" and "readMemory (objects w) a = Some v"
    and "w' = w \<lparr> objects := fst (allocMemory (objects w) v) \<rparr>"
    and "r = snd (allocMemory (objects w) v)"
  using assms
  by (auto simp: loadContext_def split: option.splits outcome.splits dest!: jsonCopy_Returns)

lemma loadContext_isolated:
  assumes closed: "storeClosed w" and load: "loadContext w sid = Returns (w', Some r)"
  shows "readMemory (objects w') r = storeContents w sid"
    and "storage w' = storage w"
    and "\<forall>s. storeContents w' s = storeContents w s"
    and "storeClosed w'"
    and "\<forall>s b. storage w' s = Some b \<longrightarrow> set (reach (objects w') b) \<inter> set (reach (objects w') r) = {}"
    and "\<forall>a\<in>set (reach (objects w') r). \<forall>c s.
           storeContents (w' \<lparr> objects := (objects w')[a := c] \<rparr>) s = storeContents w s"
proof -
  from loadContext_Some [OF load] obtain a v where a: "storage w sid = Some a"
    and v: "readMemory (objects w) a = Some v"
    and w': "w' = w \<lparr> objects := fst (allocMemory (objects w) v) \<rparr>"
    and r: "r = snd (allocMemory (objects w) v)" by blast
  let ?h = "objects w"
  have h': "objects w' = fst (allocMemory ?h v)" and st: "storage w' = storage w"
    by (simp_all add: w')
  show "readMemory (objects w') r = storeContents w sid"
    by (simp add: h' r alloc_read storeContents_def a v)
  show "storage w' = storage w" by (rule st)
  have below: "\<forall>x < length ?h. cellAt (objects w') x = cellAt ?h x"
    by (simp add: h' alloc_below)
  from storeContents_same [OF closed st below]
  show same: "\<forall>s. storeContents w' s = storeContents w s" by blast
  show "storeClosed w'"
    unfolding storeClosed_def
  proof (intro allI impI)
    fix s b assume "storage w' s = Some b"
    with st have b: "storage w s = Some b" by simp
    from stored_read [OF closed b] obtain u where "readMemory ?h b = Some u" .
    from read_below(1) [OF this below] show "readMemory (objects w') b \<noteq> None" by simp
  qed
  have rr: "reach (objects w') r =
      [length ?h + 5, length ?h + 4, length ?h, length ?h + 1, length ?h + 2, length ?h + 3]"
    by (simp add: h' r alloc_reach)
  show "\<forall>s b. storage w' s = Some b \<longrightarrow>
          set (reach (objects w') b) \<inter> set (reach (objects w') r) = {}"
  proof (intro allI impI)
    fix s b assume "storage w' s = Some b"
    with st have b: "storage w s = Some b" by simp
    from stored_read [OF closed b] obtain u where u: "readMemory ?h b = Some u" .
    from read_below(2) [OF u below] reach_less [OF u]
    have "\<forall>x\<in>set (reach (objects w') b). x < length ?h" by simp
    then show "set (reach (objects w') b) \<inter> set (reach (objects w') r) = {}"
      unfolding rr by auto
  qed
  show "\<forall>a\<in>set (reach (objects w') r). \<forall>c s.
           storeContents (w' \<lparr> objects := (objects w')[a := c] \<rparr>) s = storeContents w s"
  proof (intro ballI allI)
    fix x c s assume "x \<in> set (reach (objects w') r)"
    then have x: "length ?h \<le> x" unfolding rr by auto
    let ?w = "w' \<lparr> objects := (objects w')[x := c] \<rparr>"
    have "\<forall>y < length ?h. cellAt (objects ?w) y = cellAt ?h y"
      using x by (simp add: cellAt_update h' alloc_below)
    moreover have "storage ?w = storage w" by (simp add: st)
    ultimately show "storeContents ?w s = storeContents w s"
      by (rule storeContents_same [OF closed, rotated])
  qed
qed

lemma loadContext_None:
  assumes "loadContext w sid = Returns (w', None)"
  shows "w' = w"
  using assms by (auto simp: loadContext_def split: option.splits outcome.splits prod.splits)

lemma saveContext_Returns:
  assumes "saveContext w sid m = Returns w'"
  obtains v where "readMemory (objects w) m = Some v"
    and "w' = w \<lparr> objects := fst (allocMemory (objects w) v),
                  storage := (storage w)(sid \<mapsto> snd (allocMemory (objects w) v)) \<rparr>"
  using assms
  by (auto simp: saveContext_def split: outcome.splits dest!: jsonCopy_Returns)

lemma saveContext_isolated:
  assumes closed: "storeClosed w" and save: "saveContext w sid m = Returns w'"
  shows "storeContents w' sid = readMemory (objects w) m"
    and "\<forall>s. s \<noteq> sid \<longrightarrow> storeContents w' s = storeContents w s"
    and "storeClosed w'"
    and "(\<forall>s b. s \<noteq> sid \<and> storage w s = Some b \<longrightarrow>
            set (reach (objects w) b) \<inter> set (reach (objects w) m) = {}) \<longrightarrow>
         (\<forall>a\<in>set (reach (objects w') m). \<forall>c s.
            storeContents (w' \<lparr> objects := (objects w')[a := c] \<rparr>) s = storeContents w' s)"
proof -
  from saveContext_Returns [OF save] obtain v where v: "readMemory (objects w) m = Some v"
    and w': "w' = w \<lparr> objects := fst (allocMemory (objects w) v),
                  storage := (storage w)(sid \<mapsto> snd (allocMemory (objects w) v)) \<rparr>" by blast
  let ?h = "objects w"
  let ?r = "snd (allocMemory ?h v)"
  have h': "objects w' = fst (allocMemory ?h v)"
    and st: "storage w' = (storage w)(sid \<mapsto> ?r)" by (simp_all add: w')
  have below: "\<forall>x < length ?h. cellAt (objects w') x = cellAt ?h x"
    by (simp add: h' alloc_below)
  have new: "readMemory (objects w') ?r = Some v" by (simp add: h' alloc_read)
  show c1: "storeContents w' sid = readMemory ?h m"
    by (simp add: storeContents_def st new v)
  show c2: "\<forall>s. s \<noteq> sid \<longrightarrow> storeContents w' s = storeContents w s"
  proof (intro allI impI)
    fix s assume s: "s \<noteq> sid"
    show "storeContents w' s = storeContents w s"
    proof (cases "storage w s")
      case None
      with s st show ?thesis by (simp add: storeContents_def)
    next
      case (Some b)
      from stored_read [OF closed Some] obtain u where u: "readMemory ?h b = Some u" .
      from read_below(1) [OF u below] u Some s st show ?thesis by (simp add: storeContents_def)
    qed
  qed
  show c3: "storeClosed w'"
    unfolding storeClosed_def
  proof (intro allI impI)
    fix s b assume b: "storage w' s = Some b"
    show "readMemory (objects w') b \<noteq> None"
    proof (cases "s = sid")
      case True
      with b st new show ?thesis by simp
    next
      case False
      with b st have b': "storage w s = Some b" by simp
      from stored_read [OF closed b'] obtain u where "readMemory ?h b = Some u" .
      from read_below(1) [OF this below] show ?thesis by simp
    qed
  qed
  show "(\<forall>s b. s \<noteq> sid \<and> storage w s = Some b \<longrightarrow>
            set (reach (objects w) b) \<inter> set (reach (objects w) m) = {}) \<longrightarrow>
         (\<forall>a\<in>set (reach (objects w') m). \<forall>c s.
            storeContents (w' \<lparr> objects := (objects w')[a := c] \<rparr>) s = storeContents w' s)"
  proof (intro impI ballI allI)
    fix x c s
    assume disj: "\<forall>s b. s \<noteq> sid \<and> storage w s = Some b \<longrightarrow>
            set (reach (objects w) b) \<inter> set (reach (objects w) m) = {}"
      and "x \<in> set (reach (objects w') m)"
    with read_below(2) [OF v below] have xm: "x \<in> set (reach ?h m)" by simp
    with reach_less [OF v] have xl: "x < length ?h" by blast
    let ?h'' = "(objects w')[x := c]"
    let ?w = "w' \<lparr> objects := ?h'' \<rparr>"
    have stw: "storage ?w = storage w'" by simp
    show "storeContents ?w s = storeContents w' s"
    proof (cases "s = sid")
      case True
      have "\<forall>b\<in>set (reach (objects w') ?r). cellAt ?h'' b = cellAt (objects w') b"
        using xl by (auto simp: h' alloc_reach cellAt_update)
      from read_same [OF new this] True st new show ?thesis by (simp add: storeContents_def)
    next
      case False
      show ?thesis
      proof (cases "storage w s")
        case None
        with False st show ?thesis by (simp add: storeContents_def)
      next
        case (Some b)
        from stored_read [OF closed Some] obtain u where u: "readMemory ?h b = Some u" .
        from read_below [OF u below] have u': "readMemory (objects w') b = Some u"
          and rb: "reach (objects w') b = reach ?h b" by simp_all
        from disj False Some xm have "x \<notin> set (reach ?h b)" by blast
        then have "\<forall>y\<in>set (reach (objects w') b). cellAt ?h'' y = cellAt (objects w') y"
          by (auto simp: rb cellAt_update)
        from read_same [OF u' this] u' Some False st show ?thesis by (simp add: storeContents_def)
      qed
    qed
  qed
qed

lemma noteCharacter_fields:
  "commonLocations (noteCharacter r dat) = commonLocations dat"
  "lastClassifications (noteCharacter r dat) = lastClassifications dat"
  by (simp_all add: noteCharacter_def)

lemma fold_noteCharacter_fields:
  "commonLocations (fold noteCharacter rs dat) = commonLocations dat \<and>
   lastClassifications (fold noteCharacter rs dat) = lastClassifications dat"
  by (induction rs arbitrary: dat) (simp_all add: noteCharacter_fields)

lemma arrayAt_update:
  "arrayAt (h[b := v]) a =
     (if a = b \<and> b < length h then (case v of ArrayCell xs \<Rightarrow> Some xs | _ \<Rightarrow> None) else arrayAt h a)"
  by (simp add: arrayAt_def cellAt_update)

lemma dictAt_update:
  "dictAt (h[b := v]) a =
     (if a = b \<and> b < length h then (case v of DictCell xs \<Rightarrow> Some xs | _ \<Rightarrow> None) else dictAt h a)"
  by (simp add: dictAt_def cellAt_update)

lemma arrayAt_less: "arrayAt h a = Some xs \<Longrightarrow> a < length h"
  by (auto simp: arrayAt_def split: option.splits dest: cellAt_Some_less)

lemma dictAt_less: "dictAt h a = Some xs \<Longrightarrow> a < length h"
  by (auto simp: dictAt_def split: option.splits dest: cellAt_Some_less)

lemma forEachRecord_effect:
  assumes "cellAt h d = Some (DataCell c l k m)"
    and "arrayAt h c = Some (commonCharacters dat)"
    and "dictAt h m = Some (characterDialogueMap dat)"
    and "c \<noteq> d" "m \<noteq> d" "c \<noteq> m"
  shows "\<exists>h'. forEachRecord h d rs = Returns h' \<and> length h' = length h \<and>
           arrayAt h' c = Some (commonCharacters (fold noteCharacter rs dat)) \<and>
           dictAt h' m = Some (characterDialogueMap (fold noteCharacter rs dat)) \<and>
           (\<forall>x. x \<noteq> c \<and> x \<noteq> m \<longrightarrow> cellAt h' x = cellAt h x)"
  using assms
proof (induction rs arbitrary: h dat)
  case Nil
  then show ?case by simp
next
  case (Cons r rs)
  let ?name = "characterNameOf (recordLine r)"
  show ?case
  proof (cases "classification r = L_character \<and> ?name \<noteq> []")
    case False
    then have n: "noteCharacter r dat = dat" and s: "recordCharacter h d r = Returns h"
      by (auto simp: noteCharacter_def recordCharacter_def)
    from Cons.IH [OF Cons.prems] show ?thesis by (simp add: n s)
  next
    case True
    let ?cs = "if ?name \<in> set (commonCharacters dat) then commonCharacters dat
               else commonCharacters dat @ [?name]"
    let ?kvs = "bumpCount ?name (characterDialogueMap dat)"
    let ?h1 = "(h[c := ArrayCell ?cs])[m := DictCell ?kvs]"
    from Cons.prems have lc: "c < length h" and lm: "m < length h"
      by (auto dest: arrayAt_less dictAt_less)
    from True Cons.prems have s: "recordCharacter h d r = Returns ?h1"
      by (simp add: recordCharacter_def)
    from True have n: "noteCharacter r dat =
        dat \<lparr> commonCharacters := ?cs, characterDialogueMap := ?kvs \<rparr>"
      by (simp add: noteCharacter_def)
    have a: "cellAt ?h1 d = Some (DataCell c l k m)"
      using Cons.prems by (simp add: cellAt_update)
    have b: "arrayAt ?h1 c = Some (commonCharacters (noteCharacter r dat))"
      using Cons.prems lc by (simp add: arrayAt_update n)
    have c: "dictAt ?h1 m = Some (characterDialogueMap (noteCharacter r dat))"
      using lm by (simp add: dictAt_update n)
    from Cons.IH [OF a b c Cons.prems(4,5,6)]
    obtain h' where h': "forEachRecord ?h1 d rs = Returns h'" "length h' = length ?h1"
      "arrayAt h' c = Some (commonCharacters (fold noteCharacter rs (noteCharacter r dat)))"
      "dictAt h' m = Some (characterDialogueMap (fold noteCharacter rs (noteCharacter r dat)))"
      "\<forall>x. x \<noteq> c \<and> x \<noteq> m \<longrightarrow> cellAt h' x = cellAt ?h1 x" by blast
    then show ?thesis by (simp add: s cellAt_update)
  qed
qed

lemma load_or_new:
  assumes closed: "storeClosed w"
  shows "\<exists>w1 loaded. loadContext w sid = Returns (w1, loaded) \<and> storage w1 = storage w \<and>
           loadedOrNew w1 loaded sid t0 =
             allocMemory (objects w)
               (case storeContents w sid of None \<Rightarrow> emptyMemory sid t0 | Some v \<Rightarrow> v)"
proof (cases "storage w sid")
  case None
  then show ?thesis by (simp add: loadContext_def loadedOrNew_def storeContents_def)
next
  case (Some a)
  from stored_read [OF closed Some] obtain v where v: "readMemory (objects w) a = Some v" .
  with Some show ?thesis
    by (simp add: loadContext_def jsonCopy_def loadedOrNew_def storeContents_def
          split: prod.splits)
qed

lemma alloc_cells:
  assumes "h2 = fst (allocMemory h v)" and "n = length h"
  shows "length h2 = n + 6"
    and "cellAt h2 n = Some (ArrayCell (commonCharacters (memoryData v)))"
    and "cellAt h2 (Suc n) = Some (ArrayCell (commonLocations (memoryData v)))"
    and "cellAt h2 (Suc (Suc n)) = Some (ArrayCell (lastClassifications (memoryData v)))"
    and "cellAt h2 (n + 3) = Some (DictCell (characterDialogueMap (memoryData v)))"
    and "cellAt h2 (n + 4) = Some (DataCell n (Suc n) (Suc (Suc n)) (n + 3))"
    and "cellAt h2 (n + 5) = Some (MemoryCell (sessionId v) (lastModified v) (n + 4))"
    and "snd (allocMemory h v) = n + 5"
  using assms by (simp_all add: allocMemory_def Let_def cellAt_def nth_append)

lemma cellAt_single: "cellAt [x] 0 = Some x"
  by (simp add: cellAt_def)

lemma updateMemory_effect:
  assumes closed: "storeClosed w"
  shows "\<exists>w'. updateMemory t0 t1 w sid rs = Returns w' \<and>
          storeContents w' sid = Some (updatedMemory t0 t1 sid rs (storeContents w sid)) \<and>
          (\<forall>s. s \<noteq> sid \<longrightarrow> storeContents w' s = storeContents w s) \<and> storeClosed w'"
proof -
  define v where "v = (case storeContents w sid of None \<Rightarrow> emptyMemory sid t0 | Some u \<Rightarrow> u)"
  define n where "n = length (objects w)"
  from load_or_new [OF closed, of sid t0] obtain w1 loaded
    where l: "loadContext w sid = Returns (w1, loaded)" and st1: "storage w1 = storage w"
      and lo: "loadedOrNew w1 loaded sid t0 = allocMemory (objects w) v"
    unfolding v_def by blast
  define h2 where "h2 = fst (allocMemory (objects w) v)"
  note c2 = alloc_cells [OF h2_def n_def]
  from lo have lo1: "fst (loadedOrNew w1 loaded sid t0) = h2"
    and lo2: "snd (loadedOrNew w1 loaded sid t0) = n + 5"
    by (simp_all add: h2_def c2)
  define h3 where "h3 = h2[n + 5 := MemoryCell (sessionId v) t1 (n + 4)]"
  have s3: "setLastModified h2 (n + 5) t1 = Returns h3"
    by (simp add: setLastModified_def c2 h3_def)
  have len3: "length h3 = n + 6" by (simp add: h3_def c2)
  have c3: "cellAt h3 (n + 5) = Some (MemoryCell (sessionId v) t1 (n + 4))"
    "cellAt h3 (n + 4) = Some (DataCell n (Suc n) (Suc (Suc n)) (n + 3))"
    "cellAt h3 n = Some (ArrayCell (commonCharacters (memoryData v)))"
    "cellAt h3 (Suc n) = Some (ArrayCell (commonLocations (memoryData v)))"
    "cellAt h3 (Suc (Suc n)) = Some (ArrayCell (lastClassifications (memoryData v)))"
    "cellAt h3 (n + 3) = Some (DictCell (characterDialogueMap (memoryData v)))"
    by (simp_all add: h3_def cellAt_update c2)
  have d3: "dataOf h3 (n + 5) = Returns (n + 4)" by (simp add: dataOf_def c3)
  define new where
    "new = take 20 (map classification rs @ lastClassifications (memoryData v))"
  define h4 where "h4 = (h3 @ [ArrayCell new])[n + 4 := DataCell n (Suc n) (n + 6) (n + 3)]"
  have s4: "setLastClassifications h3 (n + 4) rs = Returns h4"
    by (simp add: setLastClassifications_def c3 arrayAt_def h4_def new_def len3)
  have c4: "cellAt h4 (n + 5) = Some (MemoryCell (sessionId v) t1 (n + 4))"
    "cellAt h4 (n + 4) = Some (DataCell n (Suc n) (n + 6) (n + 3))"
    "cellAt h4 n = Some (ArrayCell (commonCharacters (memoryData v)))"
    "cellAt h4 (Suc n) = Some (ArrayCell (commonLocations (memoryData v)))"
    "cellAt h4 (n + 6) = Some (ArrayCell new)"
    "cellAt h4 (n + 3) = Some (DictCell (characterDialogueMap (memoryData v)))"
    using c3 by (simp_all add: h4_def cellAt_update cellAt_append len3 cellAt_single)
  define dat where "dat = (memoryData v) \<lparr> lastClassifications := new \<rparr>"
  have "\<exists>h'. forEachRecord h4 (n + 4) rs = Returns h' \<and> length h' = length h4 \<and>
           arrayAt h' n = Some (commonCharacters (fold noteCharacter rs dat)) \<and>
           dictAt h' (n + 3) = Some (characterDialogueMap (fold noteCharacter rs dat)) \<and>
           (\<forall>x. x \<noteq> n \<and> x \<noteq> n + 3 \<longrightarrow> cellAt h' x = cellAt h4 x)"
    by (rule forEachRecord_effect [OF c4(2)]) (simp_all add: arrayAt_def dictAt_def c4 dat_def)
  then obtain h5 where s5: "forEachRecord h4 (n + 4) rs = Returns h5"
    and a5: "arrayAt h5 n = Some (commonCharacters (fold noteCharacter rs dat))"
    and d5: "dictAt h5 (n + 3) = Some (characterDialogueMap (fold noteCharacter rs dat))"
    and o5: "\<forall>x. x \<noteq> n \<and> x \<noteq> n + 3 \<longrightarrow> cellAt h5 x = cellAt h4 x" by blast
  from o5 c4 have c5: "cellAt h5 (n + 5) = Some (MemoryCell (sessionId v) t1 (n + 4))"
    "cellAt h5 (n + 4) = Some (DataCell n (Suc n) (n + 6) (n + 3))"
    "cellAt h5 (Suc n) = Some (ArrayCell (commonLocations (memoryData v)))"
    "cellAt h5 (n + 6) = Some (ArrayCell new)"
    by simp_all
  have a5': "arrayAt h5 (Suc n) = Some (commonLocations (memoryData v))"
    "arrayAt h5 (n + 6) = Some new"
    by (simp_all add: arrayAt_def c5)
  have f: "commonLocations (fold noteCharacter rs dat) = commonLocations (memoryData v)"
    "lastClassifications (fold noteCharacter rs dat) = new"
    using fold_noteCharacter_fields [of rs dat] by (simp_all add: dat_def)
  have r5: "readMemory h5 (n + 5) = Some (updatedMemory t0 t1 sid rs (storeContents w sid))"
    unfolding updatedMemory_def Let_def v_def [symmetric] new_def [symmetric] dat_def [symmetric]
    apply (simp add: readMemory_def readData_def c5 a5 d5 a5')
    apply (rule ContextMemory.equality)
       apply simp_all
    apply (rule MemoryData.equality)
    by (simp_all add: f)
  define w5 where "w5 = w1 \<lparr> objects := h5 \<rparr>"
  have below5: "\<forall>x < length (objects w). cellAt (objects w5) x = cellAt (objects w) x"
  proof (intro allI impI)
    fix x assume x: "x < length (objects w)"
    then have "cellAt h5 x = cellAt h4 x" using o5 by (simp add: n_def)
    also have "\<dots> = cellAt h3 x" using x by (simp add: h4_def cellAt_update cellAt_append len3 n_def)
    also have "\<dots> = cellAt h2 x" using x by (simp add: h3_def cellAt_update n_def)
    also have "\<dots> = cellAt (objects w) x" using x by (simp add: h2_def alloc_below)
    finally show "cellAt (objects w5) x = cellAt (objects w) x" by (simp add: w5_def)
  qed
  have st5: "storage w5 = storage w" by (simp add: w5_def st1)
  have same5: "\<forall>s. storeContents w5 s = storeContents w s"
    using storeContents_same [OF closed st5 below5] by blast
  have closed5: "storeClosed w5"
    unfolding storeClosed_def
  proof (intro allI impI)
    fix s b assume "storage w5 s = Some b"
    with st5 have b: "storage w s = Some b" by simp
    from stored_read [OF closed b] obtain u where "readMemory (objects w) b = Some u" .
    from read_below(1) [OF this below5] show "readMemory (objects w5) b \<noteq> None" by simp
  qed
  from r5 have "\<exists>w'. saveContext w5 sid (n + 5) = Returns w'"
    by (cases "allocMemory h5 (updatedMemory t0 t1 sid rs (storeContents w sid))")
       (simp add: saveContext_def jsonCopy_def w5_def)
  then obtain w' where save: "saveContext w5 sid (n + 5) = Returns w'" ..
  from saveContext_isolated(1,2,3) [OF closed5 save] r5 same5
  have "storeContents w' sid = Some (updatedMemory t0 t1 sid rs (storeContents w sid))"
    and "\<forall>s. s \<noteq> sid \<longrightarrow> storeContents w' s = storeContents w s" and "storeClosed w'"
    by (simp_all add: w5_def)
  moreover have "updateMemory t0 t1 w sid rs = Returns w'"
    using save by (simp add: updateMemory_def andThen_def l lo1 lo2 s3 d3 s4 s5 Let_def w5_def)
  ultimately show ?thesis by blast
qed

section \<open>The label history of a session\<close>

lemma updatedMemory_labels:
  "lastClassifications (memoryData (updatedMemory t0 t1 sid rs before)) =
     take 20 (map classification rs @
       (case before of None \<Rightarrow> [] | Some v \<Rightarrow> lastClassifications (memoryData v)))"
  using fold_noteCharacter_fields
  by (cases before) (simp_all add: updatedMemory_def Let_def emptyMemory_def)

lemma take_append_take: "take n (xs @ take n ys) = take n (xs @ ys)"
  by (simp add: take_append min_def)

text \<open>
  Claim C7 says that after any sequence of calls of \<open>updateMemory\<close> the stored
  \<open>lastClassifications\<close> has at most 20 entries and is ordered newest first, the most
  recently finalized classification being the first.  The bound holds; the order does not
  within one call: the labels of the records are stored in the order of the array, so for
  two records of which the second is the later one, the first stored label is the one of
  the earlier record.
\<close>

theorem updateMemory_order_counterexample:
  "timestamp rec_action < timestamp rec_dialogue \<and>
   storedLabels (updateMemory 5 6 (newManager []) [] [rec_action, rec_dialogue]) [] =
     Some [classification rec_action, classification rec_dialogue]"
  by code_simp

text \<open>
  Claim C7, amended.  From a manager whose store is well formed (a new one is), every
  sequence of calls of \<open>updateMemory\<close> for a session returns, and after one call at
  least the stored \<open>lastClassifications\<close> has at most 20 entries and is the first 20
  entries of: the labels of the last call in the order of its records, then those of the
  call before, and so on, then the list stored before the first call.  The calls are
  newest first; the labels of one call keep the order of the records.
\<close>

theorem updateAll_lastClassifications:
  assumes "storeClosed w"
  shows "\<exists>w'. updateAll t0 t1 w sid batches = Returns w' \<and> storeClosed w' \<and>
           (batches \<noteq> [] \<longrightarrow>
              storedLabels (Returns w') sid =
                Some (take 20 (concat (map (map classification) (rev batches)) @ labelsBefore w sid)) \<and>
              length (labelsBefore w' sid) \<le> 20)"
  using assms
proof (induction batches arbitrary: w)
  case Nil
  then show ?case by simp
next
  case (Cons b bs)
  from updateMemory_effect [OF Cons.prems, of t0 t1 sid b] obtain w1
    where u: "updateMemory t0 t1 w sid b = Returns w1"
      and c: "storeContents w1 sid = Some (updatedMemory t0 t1 sid b (storeContents w sid))"
      and cl: "storeClosed w1" by blast
  from c have l1: "labelsBefore w1 sid = take 20 (map classification b @ labelsBefore w sid)"
    by (simp add: labelsBefore_def updatedMemory_labels)
  from Cons.IH [OF cl] obtain w' where w': "updateAll t0 t1 w1 sid bs = Returns w'"
    and cl': "storeClosed w'"
    and r: "bs \<noteq> [] \<longrightarrow>
              storedLabels (Returns w') sid =
                Some (take 20 (concat (map (map classification) (rev bs)) @ labelsBefore w1 sid)) \<and>
              length (labelsBefore w' sid) \<le> 20" by blast
  have run: "updateAll t0 t1 w sid (b # bs) = Returns w'"
    by (simp add: andThen_def u w')
  show ?case
  proof (cases "bs = []")
    case True
    with w' have "w' = w1" by simp
    with c l1 run cl show ?thesis
      by (simp add: storedLabels_def updatedMemory_labels labelsBefore_def True)
  next
    case False
    have e: "concat (map (map classification) (rev (b # bs))) =
               concat (map (map classification) (rev bs)) @ map classification b"
      by simp
    from False r have "storedLabels (Returns w') sid =
        Some (take 20 (concat (map (map classification) (rev bs)) @ labelsBefore w1 sid))"
      and len: "length (labelsBefore w' sid) \<le> 20"
      by blast+
    then have "storedLabels (Returns w') sid =
        Some (take 20 (concat (map (map classification) (rev (b # bs))) @ labelsBefore w sid))"
      by (simp only: l1 take_append_take e append_assoc)
    with len run cl' show ?thesis by blast
  qed
qed

lemma world_one_closed: "storeClosed world_one"
  by (simp add: storeClosed_def world_one_def readMemory_def readData_def arrayAt_def dictAt_def
        cellAt_def)

theorem updateAll_lastClassifications_witness:
  "storeClosed (newManager []) \<and>
   storedLabels (updateAll 5 6 (newManager []) [] [[rec_action, rec_dialogue], [rec_character]]) [] =
     Some [L_character, L_action, L_dialogue]"
proof -
  have cl: "storeClosed (newManager [])" by (simp add: storeClosed_def newManager_def)
  from updateAll_lastClassifications [OF cl, of 5 6 "[]" "[[rec_action, rec_dialogue], [rec_character]]"]
  obtain w' where "updateAll 5 6 (newManager []) [] [[rec_action, rec_dialogue], [rec_character]]
      = Returns w'"
    and "storedLabels (Returns w') [] =
       Some (take 20 (concat (map (map classification) (rev [[rec_action, rec_dialogue], [rec_character]]))
          @ labelsBefore (newManager []) []))" by auto
  moreover have "take 20 (concat (map (map classification) (rev [[rec_action, rec_dialogue], [rec_character]]))
          @ labelsBefore (newManager []) []) = [L_character, L_action, L_dialogue]"
    by code_simp
  ultimately show ?thesis using cl by simp
qed

section \<open>Isolation of the store\<close>

lemma loadContext_fresh:
  assumes "loadContext w sid = Returns (w', Some r)"
  shows "\<forall>a\<in>set (reach (objects w') r). length (objects w) \<le> a"
proof -
  from loadContext_Some [OF assms] obtain a v where
    "w' = w \<lparr> objects := fst (allocMemory (objects w) v) \<rparr>" "r = snd (allocMemory (objects w) v)"
    by blast
  then show ?thesis by (auto simp: alloc_reach)
qed

lemma saveContext_fresh:
  assumes "saveContext w sid m = Returns w'"
  shows "\<exists>r. storage w' sid = Some r \<and> (\<forall>a\<in>set (reach (objects w') r). length (objects w) \<le> a)"
proof -
  from saveContext_Returns [OF assms] obtain v where
    "w' = w \<lparr> objects := fst (allocMemory (objects w) v),
                  storage := (storage w)(sid \<mapsto> snd (allocMemory (objects w) v)) \<rparr>" by blast
  then show ?thesis by (auto simp: alloc_reach)
qed

text \<open>
  Claim C10.  In a manager whose store is well formed: \<open>loadContext\<close> returns a reference
  to a copy with the value of the stored record, every object of the copy is new, the
  store is unchanged, and after any write to any object of the copy the store still holds
  the same values; \<open>saveContext\<close> stores a copy of its argument made of new objects,
  leaves the other sessions unchanged, and after any write to any object of the argument
  (none of which is an object of the store) the store still holds the same values;
  \<open>updateMemory\<close> changes the stored value of its session only.  None of the three throws:
  \<open>loadContext\<close> returns for every session, \<open>saveContext\<close> for every argument that has the
  shape of a \<open>ContextMemory\<close>, \<open>updateMemory\<close> for every session and all records.  A write
  is the replacement of a cell, which covers an assignment to a field and a push on an
  array.
\<close>

theorem manager_store_isolated:
  assumes closed: "storeClosed w"
  shows
    "(\<forall>sid w' r. loadContext w sid = Returns (w', Some r) \<longrightarrow>
        readMemory (objects w') r = storeContents w sid \<and>
        (\<forall>a\<in>set (reach (objects w') r). length (objects w) \<le> a) \<and>
        (\<forall>s. storeContents w' s = storeContents w s) \<and> storeClosed w' \<and>
        (\<forall>a\<in>set (reach (objects w') r). \<forall>c s.
           storeContents (w' \<lparr> objects := (objects w')[a := c] \<rparr>) s = storeContents w s)) \<and>
     (\<forall>sid w'. loadContext w sid = Returns (w', None) \<longrightarrow> w' = w) \<and>
     (\<forall>sid m w'. saveContext w sid m = Returns w' \<longrightarrow>
        storeContents w' sid = readMemory (objects w) m \<and>
        (\<exists>r. storage w' sid = Some r \<and>
             (\<forall>a\<in>set (reach (objects w') r). length (objects w) \<le> a)) \<and>
        (\<forall>s. s \<noteq> sid \<longrightarrow> storeContents w' s = storeContents w s) \<and> storeClosed w' \<and>
        ((\<forall>s b. s \<noteq> sid \<and> storage w s = Some b \<longrightarrow>
            set (reach (objects w) b) \<inter> set (reach (objects w) m) = {}) \<longrightarrow>
         (\<forall>a\<in>set (reach (objects w') m). \<forall>c s.
            storeContents (w' \<lparr> objects := (objects w')[a := c] \<rparr>) s = storeContents w' s))) \<and>
     (\<forall>t0 t1 sid rs w'. updateMemory t0 t1 w sid rs = Returns w' \<longrightarrow>
        (\<forall>s. s \<noteq> sid \<longrightarrow> storeContents w' s = storeContents w s) \<and> storeClosed w') \<and>
     (\<forall>sid. \<exists>w' r. loadContext w sid = Returns (w', r) \<and> (r = None \<longleftrightarrow> storage w sid = None)) \<and>
     (\<forall>sid m. readMemory (objects w) m \<noteq> None \<longrightarrow> (\<exists>w'. saveContext w sid m = Returns w')) \<and>
     (\<forall>t0 t1 sid rs. \<exists>w'. updateMemory t0 t1 w sid rs = Returns w')"
proof (intro conjI allI impI)
  fix sid w' r assume l: "loadContext w sid = Returns (w', Some r)"
  note f = loadContext_isolated [OF closed l]
  show "readMemory (objects w') r = storeContents w sid" by (rule f(1))
  show "\<forall>a\<in>set (reach (objects w') r). length (objects w) \<le> a" by (rule loadContext_fresh [OF l])
  show "storeClosed w'" by (rule f(4))
  show "\<forall>a\<in>set (reach (objects w') r). \<forall>c s.
           storeContents (w' \<lparr> objects := (objects w')[a := c] \<rparr>) s = storeContents w s"
    by (rule f(6))
  fix s show "storeContents w' s = storeContents w s" using f(3) by blast
next
  fix sid w' assume "loadContext w sid = Returns (w', None)"
  then show "w' = w" by (rule loadContext_None)
next
  fix sid m w' assume s: "saveContext w sid m = Returns w'"
  note f = saveContext_isolated [OF closed s]
  show "storeContents w' sid = readMemory (objects w) m" by (rule f(1))
  show "\<exists>r. storage w' sid = Some r \<and>
             (\<forall>a\<in>set (reach (objects w') r). length (objects w) \<le> a)"
    by (rule saveContext_fresh [OF s])
  show "storeClosed w'" by (rule f(3))
  { fix s' assume "s' \<noteq> sid" then show "storeContents w' s' = storeContents w s'" using f(2) by blast }
  { assume "\<forall>s b. s \<noteq> sid \<and> storage w s = Some b \<longrightarrow>
            set (reach (objects w) b) \<inter> set (reach (objects w) m) = {}"
    with f(4) show "\<forall>a\<in>set (reach (objects w') m). \<forall>c s.
            storeContents (w' \<lparr> objects := (objects w')[a := c] \<rparr>) s = storeContents w' s"
      by blast }
next
  fix t0 t1 sid rs w' assume u: "updateMemory t0 t1 w sid rs = Returns w'"
  from updateMemory_effect [OF closed, of t0 t1 sid rs] u
  have e: "(\<forall>s. s \<noteq> sid \<longrightarrow> storeContents w' s = storeContents w s) \<and> storeClosed w'" by auto
  then show "storeClosed w'" by blast
  fix s assume "s \<noteq> sid" with e show "storeContents w' s = storeContents w s" by blast
next
  fix sid
  show "\<exists>w' r. loadContext w sid = Returns (w', r) \<and> (r = None \<longleftrightarrow> storage w sid = None)"
  proof (cases "storage w sid")
    case None
    then show ?thesis by (simp add: loadContext_def)
  next
    case (Some a)
    from stored_read [OF closed Some] obtain v where "readMemory (objects w) a = Some v" .
    with Some show ?thesis by (simp add: loadContext_def jsonCopy_def split: prod.splits)
  qed
next
  fix sid m assume "readMemory (objects w) m \<noteq> None"
  then show "\<exists>w'. saveContext w sid m = Returns w'"
    by (auto simp: saveContext_def jsonCopy_def split: prod.splits)
next
  fix t0 t1 sid rs
  from updateMemory_effect [OF closed, of t0 t1 sid rs]
  show "\<exists>w'. updateMemory t0 t1 w sid rs = Returns w'" by blast
qed

theorem manager_store_isolated_witness:
  "storeClosed world_one \<and>
   loadContext world_one [] = Returns (world_one_loaded, Some 11) \<and>
   6 \<in> set (reach (objects world_one_loaded) 11) \<and>
   storeContents (world_one_loaded \<lparr> objects := (objects world_one_loaded)[6 := ArrayCell []] \<rparr>) [] =
     storeContents world_one [] \<and>
   saveContext world_one_loaded [49] 11 = Returns world_one_saved \<and>
   storeContents world_one_saved [49] = readMemory (objects world_one_loaded) 11 \<and>
   storeContents (world_one_saved \<lparr> objects := (objects world_one_saved)[6 := ArrayCell []] \<rparr>) [49] =
     storeContents world_one_saved [49]"
proof -
  have l: "loadContext world_one [] = Returns (world_one_loaded, Some 11)"
    by (simp add: loadContext_def world_one_def world_one_loaded_def jsonCopy_def readMemory_def
          readData_def arrayAt_def dictAt_def cellAt_def allocMemory_def)
  have r: "6 \<in> set (reach (objects world_one_loaded) 11)"
    by (simp add: reach_def world_one_loaded_def world_one_def cellAt_def)
  note loaded = conjunct1 [OF manager_store_isolated [OF world_one_closed]]
  from loaded l r
  have a: "storeContents (world_one_loaded \<lparr> objects := (objects world_one_loaded)[6 := ArrayCell []] \<rparr>) [] =
     storeContents world_one []" by blast
  from loaded l
  have cl: "storeClosed world_one_loaded" by blast
  have s: "saveContext world_one_loaded [49] 11 = Returns world_one_saved"
    by (simp add: saveContext_def world_one_def world_one_loaded_def world_one_saved_def
          jsonCopy_def readMemory_def readData_def arrayAt_def dictAt_def cellAt_def
          allocMemory_def)
  have d: "\<forall>s b. s \<noteq> [49] \<and> storage world_one_loaded s = Some b \<longrightarrow>
            set (reach (objects world_one_loaded) b) \<inter> set (reach (objects world_one_loaded) 11) = {}"
    by (auto simp: world_one_loaded_def world_one_def reach_def cellAt_def split: if_splits)
  have r': "6 \<in> set (reach (objects world_one_saved) 11)"
    by (simp add: reach_def world_one_saved_def world_one_loaded_def world_one_def cellAt_def)
  note saved = conjunct1 [OF conjunct2 [OF conjunct2 [OF manager_store_isolated [OF cl]]]]
  from saved s
  have b: "storeContents world_one_saved [49] = readMemory (objects world_one_loaded) 11"
    by blast
  from saved s d r'
  have c: "storeContents (world_one_saved \<lparr> objects := (objects world_one_saved)[6 := ArrayCell []] \<rparr>) [49] =
     storeContents world_one_saved [49]" by blast
  from world_one_closed l r a s b c show ?thesis by blast
qed

end
